theory Spec2Isabelle
  imports Complex_Main
begin

section \<open>Arrays\<close>

text \<open>
  The programs compute with JAX arrays of floating-point numbers. The embedding reads
  the numbers as reals (rounding is left out) and an array by its nesting: a vector is
  a list, a matrix a list of rows, a rank-3 array a list of matrices. Where a JAX
  primitive yields \<open>nan\<close> instead of raising (the square root of a negative number, the
  factorization of a matrix that is not positive definite), the model returns \<open>None\<close>
  for the array: the value is still handed to the caller, no exception is involved.
  Arrays are taken to have the shapes the operations expect; the theorems say so in
  their hypotheses.
\<close>

type_synonym vec = "real list"
type_synonym mat = "real list list"
type_synonym tensor3 = "real list list list"

datatype error = IndexError | KeyError | ShapeError | NameError | UnboundLocalError

definition ncols :: "mat \<Rightarrow> nat" where
  "ncols A = (case A of [] \<Rightarrow> 0 | r # _ \<Rightarrow> length r)"

definition is_mat :: "nat \<Rightarrow> nat \<Rightarrow> mat \<Rightarrow> bool" where
  "is_mat n m A = (length A = n \<and> list_all (\<lambda>r. length r = m) A)"

definition is_tensor3 :: "nat \<Rightarrow> nat \<Rightarrow> nat \<Rightarrow> tensor3 \<Rightarrow> bool" where
  "is_tensor3 n m p T = (length T = n \<and> list_all (is_mat m p) T)"

text \<open>The array with entry \<open>f i j\<close> at row \<open>i\<close>, column \<open>j\<close>.\<close>

definition matrix :: "nat \<Rightarrow> nat \<Rightarrow> (nat \<Rightarrow> nat \<Rightarrow> real) \<Rightarrow> mat" where
  "matrix n m f = map (\<lambda>i. map (\<lambda>j. f i j) [0..<m]) [0..<n]"

definition tensor :: "nat \<Rightarrow> nat \<Rightarrow> nat \<Rightarrow> (nat \<Rightarrow> nat \<Rightarrow> nat \<Rightarrow> real) \<Rightarrow> tensor3" where
  "tensor n m p f = map (\<lambda>i. matrix m p (f i)) [0..<n]"

text \<open>The last axis of a rank-3 array (the flattened parameter axes of one leaf).\<close>

definition depth :: "tensor3 \<Rightarrow> nat" where
  "depth T = (case T of [] \<Rightarrow> 0 | A # _ \<Rightarrow> ncols A)"

text \<open>\<open>A.T\<close>, \<open>A @ B\<close> (also \<open>np.dot\<close>, \<open>np.matmul\<close> on matrices), \<open>c * A\<close>, \<open>A + B\<close>, \<open>-A\<close>.\<close>

definition mat_T :: "mat \<Rightarrow> mat" where
  "mat_T A = matrix (ncols A) (length A) (\<lambda>i j. A ! j ! i)"

definition matmul :: "mat \<Rightarrow> mat \<Rightarrow> mat" where
  "matmul A B = matrix (length A) (ncols B) (\<lambda>i j. \<Sum>t<length B. A ! i ! t * B ! t ! j)"

definition vec_scale :: "real \<Rightarrow> vec \<Rightarrow> vec" where
  "vec_scale c v = map (\<lambda>x. c * x) v"

definition vec_add :: "vec \<Rightarrow> vec \<Rightarrow> vec" where
  "vec_add v w = map2 (+) v w"

definition mat_scale :: "real \<Rightarrow> mat \<Rightarrow> mat" where
  "mat_scale c A = map (vec_scale c) A"

definition mat_add :: "mat \<Rightarrow> mat \<Rightarrow> mat" where
  "mat_add A B = map2 vec_add A B"

definition mat_neg :: "mat \<Rightarrow> mat" where
  "mat_neg A = map (map uminus) A"

definition tensor_scale :: "real \<Rightarrow> tensor3 \<Rightarrow> tensor3" where
  "tensor_scale c T = map (mat_scale c) T"

definition tensor_add :: "tensor3 \<Rightarrow> tensor3 \<Rightarrow> tensor3" where
  "tensor_add S T = map2 mat_add S T"

definition vec_div :: "vec \<Rightarrow> real \<Rightarrow> vec" where
  "vec_div v c = map (\<lambda>x. x / c) v"

definition mat_div :: "mat \<Rightarrow> real \<Rightarrow> mat" where
  "mat_div A c = map (\<lambda>r. vec_div r c) A"

text \<open>
  \<open>tensordot(A, T, [[0, 1], [0, 1]])\<close> contracts both axes of the matrix \<open>A\<close> with the two
  leading axes of \<open>T\<close>; \<open>tensordot(G, T, ([0, 1], [1, 0]))\<close> contracts axis 0 of \<open>G\<close>
  with axis 1 of \<open>T\<close> and axis 1 of \<open>G\<close> with axis 0 of \<open>T\<close>; \<open>tensordot(M, T, 1)\<close>
  contracts the last axis of \<open>M\<close> with the first of \<open>T\<close>.
\<close>

definition tensordot_01 :: "mat \<Rightarrow> tensor3 \<Rightarrow> vec" where
  "tensordot_01 A T
     = map (\<lambda>p. \<Sum>i<length A. \<Sum>j<ncols A. A ! i ! j * T ! i ! j ! p) [0..<depth T]"

definition tensordot_10 :: "mat \<Rightarrow> tensor3 \<Rightarrow> vec" where
  "tensordot_10 G T
     = map (\<lambda>p. \<Sum>a<length G. \<Sum>b<ncols G. G ! a ! b * T ! b ! a ! p) [0..<depth T]"

definition tensordot_1 :: "mat \<Rightarrow> tensor3 \<Rightarrow> tensor3" where
  "tensordot_1 M T
     = tensor (length M) (case T of [] \<Rightarrow> 0 | A # _ \<Rightarrow> length A) (depth T)
         (\<lambda>i c p. \<Sum>b<length T. M ! i ! b * T ! b ! c ! p)"

text \<open>
  \<open>diag\<close> of a matrix is the vector of its diagonal, \<open>diag\<close> of a vector the diagonal
  matrix; \<open>triu\<close> keeps the entries on and above the diagonal; \<open>eye\<close>, \<open>zeros\<close>.
\<close>

definition diag_of :: "mat \<Rightarrow> vec" where
  "diag_of A = map (\<lambda>i. A ! i ! i) [0..<min (length A) (ncols A)]"

definition diag_matrix :: "vec \<Rightarrow> mat" where
  "diag_matrix v = matrix (length v) (length v) (\<lambda>i j. if i = j then v ! i else 0)"

definition triu :: "mat \<Rightarrow> mat" where
  "triu A = matrix (length A) (ncols A) (\<lambda>i j. if i \<le> j then A ! i ! j else 0)"

definition eye :: "nat \<Rightarrow> mat" where
  "eye k = matrix k k (\<lambda>i j. if i = j then 1 else 0)"

definition zeros3 :: "nat \<Rightarrow> nat \<Rightarrow> nat \<Rightarrow> tensor3" where
  "zeros3 n m p = tensor n m p (\<lambda>i j q. 0)"

text \<open>
  \<open>jnp.mean(u1[:, :, None] @ u2[:, :, None].swapaxes(2, 1), axis=0)\<close>: the mean over the
  batch of the outer products of the rows of \<open>u1\<close> and \<open>u2\<close>.
\<close>

definition mean_outer :: "mat \<Rightarrow> mat \<Rightarrow> mat" where
  "mean_outer u1 u2 = matrix (ncols u1) (ncols u2)
     (\<lambda>i j. (\<Sum>b<length u1. u1 ! b ! i * u2 ! b ! j) / real (length u1))"

subsection \<open>\<open>linalg.cholesky\<close> and \<open>linalg.inv\<close>\<close>

text \<open>
  The programs factorize symmetric matrices. Of such an argument \<open>jnp.linalg.cholesky\<close>
  reads the lower triangle and returns the lower-triangular factor with positive
  diagonal, computed entry by entry from the top-left corner. It does not raise: when a
  pivot is not positive (the matrix is not positive definite) the result is an array of
  \<open>nan\<close>, here \<open>None\<close>.
\<close>

function chol_entry :: "mat \<Rightarrow> nat \<Rightarrow> nat \<Rightarrow> real" where
  "chol_entry A i j =
     (if i < j then 0
      else if i = j then sqrt (A ! i ! i - (\<Sum>t<j. (chol_entry A i t)\<^sup>2))
      else (A ! i ! j - (\<Sum>t<j. chol_entry A i t * chol_entry A j t)) / chol_entry A j j)"
  by pat_completeness auto
termination
  by (relation "measure (\<lambda>(A, i, j). i + j)") auto

definition chol_pivot :: "mat \<Rightarrow> nat \<Rightarrow> real" where
  "chol_pivot A i = A ! i ! i - (\<Sum>t<i. (chol_entry A i t)\<^sup>2)"

definition linalg_cholesky :: "mat \<Rightarrow> mat option" where
  "linalg_cholesky A =
     (if list_all (\<lambda>i. 0 < chol_pivot A i) [0..<length A]
      then Some (matrix (length A) (length A) (chol_entry A)) else None)"

text \<open>
  \<open>jnp.linalg.inv\<close> is only ever applied to the factor returned by the factorization,
  a lower-triangular matrix; its inverse is computed by forward substitution. A zero on
  the diagonal (a singular matrix) gives a non-finite array, not an exception.
\<close>

function inv_entry :: "mat \<Rightarrow> nat \<Rightarrow> nat \<Rightarrow> real" where
  "inv_entry L i j =
     (if i < j then 0
      else if i = j then 1 / L ! i ! i
      else - (\<Sum>t = j..<i. L ! i ! t * inv_entry L t j) / L ! i ! i)"
  by pat_completeness auto
termination
  by (relation "measure (\<lambda>(L, i, j). i)") auto

definition linalg_inv :: "mat \<Rightarrow> mat option" where
  "linalg_inv L =
     (if list_all (\<lambda>i. L ! i ! i \<noteq> 0) [0..<length L]
      then Some (matrix (length L) (length L) (inv_entry L)) else None)"

subsection \<open>The moving average\<close>

text \<open>
  Modelled from the spec: \<open>helper.moving_average(running_average, new_data, beta)\<close>,
  imported by \<open>train_spin.py\<close> and \<open>stfn_training.py\<close>; \<open>helper.py\<close> is not among the
  sources. The spec gives the update as \<open>(1 - beta) * running + beta * new\<close>, applied
  elementwise.
\<close>

definition moving_average :: "real \<Rightarrow> real \<Rightarrow> real \<Rightarrow> real" where
  "moving_average running_average new_data beta
     = (1 - beta) * running_average + beta * new_data"

definition moving_average_vec :: "vec \<Rightarrow> vec \<Rightarrow> real \<Rightarrow> vec" where
  "moving_average_vec running_average new_data beta
     = map2 (\<lambda>x y. moving_average x y beta) running_average new_data"

definition moving_average_mat :: "mat \<Rightarrow> mat \<Rightarrow> real \<Rightarrow> mat" where
  "moving_average_mat running_average new_data beta
     = map2 (\<lambda>x y. moving_average_vec x y beta) running_average new_data"

definition moving_average_tensor :: "tensor3 \<Rightarrow> tensor3 \<Rightarrow> real \<Rightarrow> tensor3" where
  "moving_average_tensor running_average new_data beta
     = map2 (\<lambda>x y. moving_average_mat x y beta) running_average new_data"

section \<open>backbone.py: the network with the boundary factor\<close>

record EigenNet =
  features :: "nat list"
  D :: int

definition softplus :: "real \<Rightarrow> real" where
  "softplus x = ln (1 + exp x)"

text \<open>\<open>nn.Dense(feat, use_bias=False)(x)\<close>: the kernel has shape (inputs, feat).\<close>

definition Dense :: "nat \<Rightarrow> mat \<Rightarrow> mat \<Rightarrow> error + mat" where
  "Dense feat W x =
     (if list_all (\<lambda>r. length r = length W) x \<and> is_mat (length W) feat W
      then Inr (matrix (length x) feat (\<lambda>i j. \<Sum>t<length W. x ! i ! t * W ! t ! j))
      else Inl ShapeError)"

text \<open>The loop over \<open>features[1:-1]\<close>; the kernels are consumed in order.\<close>

fun hidden_layers :: "nat list \<Rightarrow> mat list \<Rightarrow> mat \<Rightarrow> error + (mat \<times> mat list)" where
  "hidden_layers [] Ws x = Inr (x, Ws)"
| "hidden_layers (feat # fs) [] x = Inl KeyError"
| "hidden_layers (feat # fs) (W # Ws) x =
     (case Dense feat W x of
        Inl e \<Rightarrow> Inl e
      | Inr y \<Rightarrow> hidden_layers fs Ws (map (map softplus) y))"

text \<open>
  \<open>jnp.sqrt(2 * D ** 2 - x_in ** 2) - D\<close> for one coordinate: \<open>nan\<close> where the radicand
  is negative.
\<close>

definition boundary_term :: "int \<Rightarrow> real \<Rightarrow> real option" where
  "boundary_term d x =
     (if 2 * (real_of_int d)\<^sup>2 - x\<^sup>2 < 0 then None
      else Some (sqrt (2 * (real_of_int d)\<^sup>2 - x\<^sup>2) - real_of_int d))"

text \<open>\<open>jnp.prod(d, axis=-1)\<close> for one row: \<open>nan\<close> as soon as one factor is.\<close>

fun prod_row :: "real option list \<Rightarrow> real option" where
  "prod_row [] = Some 1"
| "prod_row (None # ds) = None"
| "prod_row (Some c # ds) = (case prod_row ds of None \<Rightarrow> None | Some p \<Rightarrow> Some (c * p))"

definition boundary_factor :: "int \<Rightarrow> vec \<Rightarrow> real option" where
  "boundary_factor d xs = prod_row (map (boundary_term d) xs)"

text \<open>\<open>x * d\<close> for one row; a row of \<open>nan\<close> is \<open>None\<close>.\<close>

definition scale_row :: "vec \<Rightarrow> real option \<Rightarrow> vec option" where
  "scale_row r d = (case d of None \<Rightarrow> None | Some c \<Rightarrow> Some (map (\<lambda>v. v * c) r))"

definition EigenNet_call :: "EigenNet \<Rightarrow> mat list \<Rightarrow> mat \<Rightarrow> error + vec option list" where
  "EigenNet_call net Ws x_in =
     (case features net of
        [] \<Rightarrow> Inl IndexError
      | f0 # fs \<Rightarrow>
          (case Ws of
             [] \<Rightarrow> Inl KeyError
           | W0 # Ws1 \<Rightarrow>
               (case Dense f0 W0 x_in of
                  Inl e \<Rightarrow> Inl e
                | Inr x0 \<Rightarrow>
                    (case hidden_layers (butlast fs) Ws1 (map (map softplus) x0) of
                       Inl e \<Rightarrow> Inl e
                     | Inr (x1, Ws2) \<Rightarrow>
                         (case Ws2 of
                            [] \<Rightarrow> Inl KeyError
                          | W # _ \<Rightarrow>
                              (case Dense (last (features net)) W x1 of
                                 Inl e \<Rightarrow> Inl e
                               | Inr x \<Rightarrow>
                                   Inr (map2 scale_row x
                                          (map (boundary_factor (D net)) x_in))))))))"

section \<open>train_spin.py\<close>

text \<open>
  \<open>calculate_masked_gradient\<close> reads and updates \<open>j_sigma_t_bar\<close>, a name that is
  neither a parameter nor assigned in the function: Python resolves it in the module's
  globals when the statement runs. The model carries the binding of that global name
  (a reference to a dictionary, or none) and the store of dictionaries; a dictionary
  maps a layer key to its array, \<open>None\<close> for an array of \<open>nan\<close>.
\<close>

type_synonym ref = nat

record module_state =
  global_j_sigma_t_bar :: "ref option"
  heap :: "ref \<Rightarrow> (string \<rightharpoonup> vec option)"

text \<open>
  The kernel Jacobian of one layer has axes (batch, output, kernel entries), the two
  kernel axes flattened into one.
  \<open>jnp.mean(jnp.einsum('bj, bjcw -> bcw', A, T), axis=0)\<close>:
\<close>

definition einsum_mean :: "mat \<Rightarrow> tensor3 \<Rightarrow> vec" where
  "einsum_mean A T = map (\<lambda>p. (\<Sum>b<length T. \<Sum>j<ncols A. A ! b ! j * T ! b ! j ! p)
                               / real (length T)) [0..<depth T]"

text \<open>The loop over \<open>del_u_del_weights['params'].keys()\<close>, for the factors \<open>A_1, A_2\<close>.\<close>

fun masked_gradient_loop ::
  "(mat \<times> mat) option \<Rightarrow> real \<Rightarrow> (string \<times> tensor3) list \<Rightarrow> module_state
     \<Rightarrow> error + ((string \<times> vec option) list \<times> module_state)" where
  "masked_gradient_loop A beta [] st = Inr ([], st)"
| "masked_gradient_loop A beta ((key, kern) # rest) st =
     (let j_pi_t_hat = map_option (\<lambda>(A_1, A_2). einsum_mean A_1 kern) A;
          j_sigma_t_hat = map_option (\<lambda>(A_1, A_2). einsum_mean A_2 kern) A
      in case global_j_sigma_t_bar st of
           None \<Rightarrow> Inl NameError
         | Some r \<Rightarrow>
             (case heap st r key of
                None \<Rightarrow> Inl KeyError
              | Some old \<Rightarrow>
                  (let new = (case (old, j_sigma_t_hat) of
                                (Some x, Some y) \<Rightarrow> Some (moving_average_vec x y beta)
                              | _ \<Rightarrow> None);
                       st' = st\<lparr>heap := (heap st)(r := (heap st r)(key \<mapsto> new))\<rparr>;
                       masked_grad = (case (j_pi_t_hat, new) of
                                        (Some x, Some y) \<Rightarrow> Some (map2 (-) x y)
                                      | _ \<Rightarrow> None)
                   in case masked_gradient_loop A beta rest st' of
                        Inl e \<Rightarrow> Inl e
                      | Inr (grads, st'') \<Rightarrow> Inr ((key, masked_grad) # grads, st''))))"

definition calculate_masked_gradient ::
  "(string \<times> tensor3) list \<Rightarrow> mat \<Rightarrow> mat \<Rightarrow> mat \<Rightarrow> real \<Rightarrow> module_state
     \<Rightarrow> error + ((string \<times> vec option) list \<times> module_state)" where
  "calculate_masked_gradient del_u_del_weights pred h_u sigma_t_bar moving_average_beta st =
     (let sigma_t_hat = mean_outer pred pred;
          pi_t_hat = mean_outer h_u pred;
          sigma_t_bar = moving_average_mat sigma_t_bar sigma_t_hat moving_average_beta;
          A = (case linalg_cholesky sigma_t_bar of
                 None \<Rightarrow> None
               | Some L \<Rightarrow>
                   (case linalg_inv L of
                      None \<Rightarrow> None
                    | Some L_inv \<Rightarrow>
                        (let L_inv_T = mat_T L_inv;
                             L_diag_inv = matrix (length L) (length L)
                                (\<lambda>i j. (if i = j then 1 else 0) * (1 / L ! j ! j));
                             A_1 = matmul L_inv_T L_diag_inv;
                             A_1 = matmul h_u A_1;
                             Lambda = matmul (matmul L_inv pi_t_hat) L_inv_T;
                             A_2 = matmul L_inv_T (triu (matmul Lambda L_diag_inv));
                             A_2 = matmul pred A_2
                         in Some (A_1, A_2))))
      in masked_gradient_loop A moving_average_beta del_u_del_weights st)"

text \<open>
  The network, its Jacobian by \<open>jacrev\<close>, the operator (\<open>physics.py\<close>) and the optimizer
  are collaborators of \<open>train_step\<close>: the model takes them as functions.
\<close>

record ('w, 'o, 'u) spin_collaborators =
  model_apply :: "'w \<Rightarrow> mat \<Rightarrow> mat"
  model_jacrev :: "'w \<Rightarrow> mat \<Rightarrow> (string \<times> tensor3) list"
  hamiltonian_operator :: "'w \<Rightarrow> mat \<Rightarrow> mat"
  opt_update :: "(string \<times> vec option) list \<Rightarrow> 'o \<Rightarrow> 'u \<times> 'o"
  apply_updates :: "'w \<Rightarrow> 'u \<Rightarrow> 'w"

definition spin_train_step ::
  "('w, 'o, 'u) spin_collaborators \<Rightarrow> 'w \<Rightarrow> 'o \<Rightarrow> mat \<Rightarrow> mat \<Rightarrow> ref \<Rightarrow> real \<Rightarrow> module_state
     \<Rightarrow> error + (('w \<times> real \<times> mat \<times> ref) \<times> module_state)" where
  "spin_train_step c weight_dict opt_state batch sigma_t_bar j_sigma_t_bar
       moving_average_beta st =
     (let pred = model_apply c weight_dict batch;
          del_u_del_weights = model_jacrev c weight_dict batch;
          h_u = hamiltonian_operator c weight_dict batch
      in case calculate_masked_gradient del_u_del_weights pred h_u sigma_t_bar
                moving_average_beta st of
           Inl e \<Rightarrow> Inl e
         | Inr (masked_gradient, st') \<Rightarrow>
             (let (updates, opt_state) = opt_update c masked_gradient opt_state;
                  weight_dict = apply_updates c weight_dict updates;
                  energies = 0
              in Inr ((weight_dict, energies, sigma_t_bar, j_sigma_t_bar), st')))"

text \<open>
  The script's main block binds the two averages before its loop (lines 143 to 145):
  \<open>sigma_t_bar = jnp.eye(n_eigenfuncs)\<close> and, as a module global, \<open>j_sigma_t_bar\<close>, a
  dictionary of zero arrays shaped like the kernels.
\<close>

definition main_sigma_t_bar :: "nat \<Rightarrow> mat" where
  "main_sigma_t_bar n_eigenfuncs = eye n_eigenfuncs"

definition main_module_state :: "(string \<times> vec) list \<Rightarrow> module_state" where
  "main_module_state kernels =
     \<lparr>global_j_sigma_t_bar = Some 0,
      heap = (\<lambda>r. if r = 0
                   then map_of (map (\<lambda>(key, kern). (key, Some (map (\<lambda>x. 0) kern))) kernels)
                   else Map.empty)\<rparr>"

section \<open>stfn_training.py\<close>

subsection \<open>The covariance and its backward rule\<close>

definition covariance :: "mat \<Rightarrow> mat \<Rightarrow> mat" where
  "covariance u1 u2 = mean_outer u1 u2"

definition covariance_fwd :: "mat \<Rightarrow> mat \<Rightarrow> mat \<times> (mat \<times> mat \<times> nat)" where
  "covariance_fwd u1 u2 = (covariance u1 u2, (u1, u2, length u1))"

definition covariance_bwd :: "mat \<times> mat \<times> nat \<Rightarrow> mat \<Rightarrow> mat \<times> mat" where
  "covariance_bwd res g =
     (case res of (u1, u2, batch_size) \<Rightarrow>
        (mat_div (matmul u2 g) (real batch_size), mat_div (matmul u1 g) (real batch_size)))"

text \<open>
  The weights are a tree of arrays; the model keeps the list of its leaves, each
  flattened to a vector, so \<open>tree_multimap\<close> is \<open>map2\<close>. Reverse-mode differentiation
  (\<open>jax.jacrev\<close>, \<open>jax.vjp\<close>) of a function of the weights pulls a cotangent of the
  function's value back along its Jacobian; the Jacobian of one leaf has axes (batch,
  output, leaf entries), and the pull-back of the cotangent \<open>ct\<close> is:
\<close>

definition pull_back :: "tensor3 \<Rightarrow> mat \<Rightarrow> vec" where
  "pull_back J ct
     = map (\<lambda>p. \<Sum>b<length J. \<Sum>c<ncols ct. ct ! b ! c * J ! b ! c ! p) [0..<depth J]"

text \<open>
  \<open>jax.jacrev(sigma_from_theta, has_aux=True)(weight_dict)\<close>, for one leaf: entry
  \<open>(i, j)\<close> is the pull-back of the unit cotangent at \<open>(i, j)\<close>, which \<open>covariance_bwd\<close>
  turns into two cotangents of the same \<open>u\<close>; they add up.
\<close>

definition unit_matrix :: "nat \<Rightarrow> nat \<Rightarrow> nat \<Rightarrow> mat" where
  "unit_matrix k i j = matrix k k (\<lambda>a b. if a = i \<and> b = j then 1 else 0)"

definition jacrev_sigma_from_theta :: "mat \<Rightarrow> tensor3 \<Rightarrow> tensor3" where
  "jacrev_sigma_from_theta u J =
     tensor (ncols u) (ncols u) (depth J)
       (\<lambda>i j p. (case covariance_bwd (snd (covariance_fwd u u)) (unit_matrix (ncols u) i j) of
                   (ct1, ct2) \<Rightarrow> pull_back J (mat_add ct1 ct2) ! p))"

text \<open>
  The function returned by \<open>jax.vjp(pi_from_theta, weight_dict, has_aux=True)\<close>, for one
  leaf: \<open>covariance_bwd\<close> gives the cotangent of \<open>u\<close> and that of \<open>h_u\<close>; the first is
  pulled back along the Jacobian of the network, the second along the Jacobian of
  \<open>theta \<mapsto> h_fn(theta, batch, u(theta))\<close>.
\<close>

definition vjp_pi_from_theta :: "mat \<Rightarrow> mat \<Rightarrow> tensor3 \<Rightarrow> tensor3 \<Rightarrow> mat \<Rightarrow> vec" where
  "vjp_pi_from_theta u h_u J_u J_h g =
     (case covariance_bwd (snd (covariance_fwd u h_u)) g of
        (ct1, ct2) \<Rightarrow> vec_add (pull_back J_u ct1) (pull_back J_h ct2))"

subsection \<open>\<open>train_step\<close>\<close>

text \<open>
  The network, the operator and the optimizer are arguments of \<open>train_step\<close>; the two
  Jacobians are what automatic differentiation derives from the first two.
\<close>

record ('o, 'u) stfn_collaborators =
  model_apply_jitted :: "vec list \<Rightarrow> mat \<Rightarrow> mat"
  model_jacobian :: "vec list \<Rightarrow> mat \<Rightarrow> tensor3 list"
  h_fn :: "vec list \<Rightarrow> mat \<Rightarrow> mat \<Rightarrow> mat"
  h_jacobian :: "vec list \<Rightarrow> mat \<Rightarrow> tensor3 list"
  opt_update_jitted :: "vec option list \<Rightarrow> 'o \<Rightarrow> 'u \<times> 'o"
  optax_apply_updates :: "vec list \<Rightarrow> 'u \<Rightarrow> vec list"

text \<open>
  The tuple \<open>train_step\<close> returns. When the factorization yields \<open>nan\<close>, so do \<open>L_inv\<close>,
  \<open>Lambda\<close>, the energies, the loss and the gradient of every leaf; the two averages are
  computed before the factorization. The gradients go to \<open>opt_update\<close> as they are, one
  array for each leaf (\<open>None\<close> for an array of \<open>nan\<close>), and the weights and the optimizer
  state the step returns are whatever \<open>opt_update\<close> and \<open>optax_apply_updates\<close> make of
  them.
\<close>

record 'o stfn_result =
  r_loss :: "real option"
  r_weight_dict :: "vec list"
  r_energies :: "vec option"
  r_sigma_t_bar :: mat
  r_j_sigma_t_bar :: "tensor3 list"
  r_L_inv :: "mat option"
  r_opt_state :: 'o

definition stfn_train_step ::
  "('o, 'u) stfn_collaborators \<Rightarrow> vec list \<Rightarrow> 'o \<Rightarrow> mat \<Rightarrow> mat \<Rightarrow> tensor3 list \<Rightarrow> real \<Rightarrow> nat
     \<Rightarrow> 'o stfn_result" where
  "stfn_train_step c weight_dict opt_state batch sigma_t_bar j_sigma_t_bar
       moving_average_beta epoch =
     (let u = model_apply_jitted c weight_dict batch;
          augmented_beta = moving_average_beta;
          j_sigma_t_hat = map (jacrev_sigma_from_theta u) (model_jacobian c weight_dict batch);
          j_sigma_t_bar = map2 (\<lambda>x y. moving_average_tensor x y augmented_beta)
                            j_sigma_t_bar j_sigma_t_hat;
          sigma = covariance u u;
          sigma_t_bar = moving_average_mat sigma_t_bar sigma augmented_beta;
          L = linalg_cholesky sigma_t_bar;
          L_inv = (case L of None \<Rightarrow> None | Some L \<Rightarrow> linalg_inv L);
          h_u = h_fn c weight_dict batch u;
          pi = covariance u h_u;
          A_1_J_pi = map2 (\<lambda>J_u J_h. map_option (\<lambda>L_inv. vjp_pi_from_theta u h_u J_u J_h
                                (matmul (mat_T L_inv) (diag_matrix (diag_of L_inv)))) L_inv)
                       (model_jacobian c weight_dict batch) (h_jacobian c weight_dict batch);
          Lambda = map_option (\<lambda>L_inv. matmul (matmul L_inv pi) (mat_T L_inv)) L_inv;
          energies = map_option diag_of Lambda;
          loss = map_option sum_list energies;
          A_2 = (case (L_inv, Lambda) of
                   (Some L_inv, Some Lambda) \<Rightarrow>
                     Some (matmul (mat_neg (mat_T L_inv))
                             (triu (matmul Lambda (diag_matrix (diag_of L_inv)))))
                 | _ \<Rightarrow> None);
          gradients = map2 (\<lambda>sig_jac loss_pi_grad.
                         (case (A_2, loss_pi_grad) of
                            (Some A_2, Some loss_pi_grad) \<Rightarrow>
                              Some (vec_add (tensordot_01 A_2 sig_jac) loss_pi_grad)
                          | _ \<Rightarrow> None))
                        j_sigma_t_bar A_1_J_pi;
          (updates, opt_state) = opt_update_jitted c gradients opt_state;
          weight_dict = optax_apply_updates c weight_dict updates
      in \<lparr>r_loss = loss, r_weight_dict = weight_dict, r_energies = energies,
          r_sigma_t_bar = sigma_t_bar, r_j_sigma_t_bar = j_sigma_t_bar, r_L_inv = L_inv,
          r_opt_state = opt_state\<rparr>)"

subsection \<open>\<open>ModelTrainer.start_training\<close>\<close>

record ModelTrainer =
  n_eigenfuncs :: nat
  moving_average_beta :: real
  num_epochs :: nat

text \<open>The state the loop carries from one epoch to the next, and the two logs.\<close>

record 'o stfn_state =
  s_weight_dict :: "vec list"
  s_opt_state :: 'o
  s_sigma_t_bar :: mat
  s_j_sigma_t_bar :: "tensor3 list"
  s_loss :: "real option list"
  s_energies :: "vec option list"

definition stfn_initial_state :: "ModelTrainer \<Rightarrow> vec list \<Rightarrow> 'o \<Rightarrow> 'o stfn_state" where
  "stfn_initial_state self weight_dict opt_state =
     \<lparr>s_weight_dict = weight_dict, s_opt_state = opt_state,
      s_sigma_t_bar = eye (n_eigenfuncs self),
      s_j_sigma_t_bar = map (\<lambda>x. zeros3 (n_eigenfuncs self) (n_eigenfuncs self) (length x))
                          weight_dict,
      s_loss = [], s_energies = []\<rparr>"

definition stfn_epoch ::
  "('o, 'u) stfn_collaborators \<Rightarrow> ModelTrainer \<Rightarrow> (nat \<Rightarrow> mat) \<Rightarrow> 'o stfn_state \<Rightarrow> nat
     \<Rightarrow> 'o stfn_state" where
  "stfn_epoch c self batches st epoch =
     (let r = stfn_train_step c (s_weight_dict st) (s_opt_state st) (batches epoch)
                (s_sigma_t_bar st) (s_j_sigma_t_bar st) (moving_average_beta self) epoch
      in \<lparr>s_weight_dict = r_weight_dict r, s_opt_state = r_opt_state r,
          s_sigma_t_bar = r_sigma_t_bar r, s_j_sigma_t_bar = r_j_sigma_t_bar r,
          s_loss = s_loss st @ [r_loss r], s_energies = s_energies st @ [r_energies r]\<rparr>)"

text \<open>
  The loop over \<open>range(start_epoch + 1, start_epoch + num_epochs + 1)\<close>, with the
  callback asked every 500 epochs; checkpoints and plots are left out.
\<close>

fun stfn_epochs ::
  "('o, 'u) stfn_collaborators \<Rightarrow> ModelTrainer \<Rightarrow> (nat \<Rightarrow> mat)
     \<Rightarrow> (nat \<Rightarrow> vec option list \<Rightarrow> bool) option \<Rightarrow> nat list \<Rightarrow> 'o stfn_state \<Rightarrow> 'o stfn_state" where
  "stfn_epochs c self batches callback [] st = st"
| "stfn_epochs c self batches callback (epoch # rest) st =
     (let st' = stfn_epoch c self batches st epoch
      in if epoch mod 500 = 0 \<and> (case callback of None \<Rightarrow> False
                                   | Some f \<Rightarrow> f epoch (s_energies st'))
         then st'
         else stfn_epochs c self batches callback rest st')"

definition start_training ::
  "('o, 'u) stfn_collaborators \<Rightarrow> ModelTrainer \<Rightarrow> vec list \<Rightarrow> 'o \<Rightarrow> (nat \<Rightarrow> mat)
     \<Rightarrow> (nat \<Rightarrow> vec option list \<Rightarrow> bool) option \<Rightarrow> 'o stfn_state" where
  "start_training c self weight_dict opt_state batches callback =
     (let start_epoch = 0
      in stfn_epochs c self batches callback
           [start_epoch + 1 ..< start_epoch + num_epochs self + 1]
           (stfn_initial_state self weight_dict opt_state))"

section \<open>jax_spin.py\<close>

text \<open>
  The covariance average starts as \<open>np.ones(neig)\<close>, an array of rank 1, and is a matrix
  from the first step on: in \<open>(1.0 - beta) * sigma_avg + beta * sigma\<close> a rank-1 array is
  broadcast along the rows of the matrix it is added to.
\<close>

datatype ndarray = Arr1 vec | Arr2 mat

fun scale_nd :: "real \<Rightarrow> ndarray \<Rightarrow> ndarray" where
  "scale_nd c (Arr1 v) = Arr1 (vec_scale c v)"
| "scale_nd c (Arr2 A) = Arr2 (mat_scale c A)"

fun add_nd :: "ndarray \<Rightarrow> mat \<Rightarrow> mat" where
  "add_nd (Arr1 v) B = map (\<lambda>r. vec_add v r) B"
| "add_nd (Arr2 A) B = mat_add A B"

text \<open>
  The network (with its mask), its per-sample Jacobian
  \<open>vmap(jacfwd(net_u), in_axes=(None, 0))(params, inputs)\<close>, the operator applied to the
  network and the optimizer are collaborators; the parameters are the list of the
  flattened leaves of the tree. The optimizer is handed the gradients as they are, one
  array for each leaf, \<open>None\<close> for an array of \<open>nan\<close>.
\<close>

record 'o SpIN_collaborators =
  net_u :: "vec list \<Rightarrow> mat \<Rightarrow> mat"
  net_u_jacobian :: "vec list \<Rightarrow> mat \<Rightarrow> tensor3 list"
  operator_fn :: "vec list \<Rightarrow> mat \<Rightarrow> mat"
  opt_update_fn :: "nat \<Rightarrow> vec option list \<Rightarrow> 'o \<Rightarrow> 'o"
  get_params :: "'o \<Rightarrow> vec list"

text \<open>The fields of a \<open>SpIN\<close> object: the configuration, and what training changes.\<close>

record SpIN =
  SpIN_beta :: real
  SpIN_neig :: nat

record 'o SpIN_state =
  self_opt_state :: 'o
  itercount :: nat
  loss_log :: "real option list"
  evals_log :: "vec option list"

type_synonym averages = "ndarray \<times> tensor3 list"
type_synonym spin_outputs = "mat \<times> mat option \<times> mat \<times> mat option \<times> mat"

definition evaluate_spin ::
  "'o SpIN_collaborators \<Rightarrow> vec list \<Rightarrow> mat \<Rightarrow> averages \<Rightarrow> real \<Rightarrow> spin_outputs \<times> mat" where
  "evaluate_spin c params inputs averages beta =
     (let n = length inputs;
          sigma_avg = fst averages;
          u = net_u c params inputs;
          sigma = mat_div (matmul (mat_T u) u) (real n);
          sigma_avg = add_nd (scale_nd (1 - beta) sigma_avg) (mat_scale beta sigma);
          chol = linalg_cholesky sigma_avg;
          choli = (case chol of None \<Rightarrow> None | Some L \<Rightarrow> linalg_inv L);
          operator = operator_fn c params inputs;
          pi = mat_div (matmul (mat_T operator) u) (real n);
          rq = map_option (\<lambda>choli. matmul choli (matmul pi (mat_T choli))) choli
      in ((u, choli, pi, rq, operator), sigma_avg))"

definition masked_gradients ::
  "'o SpIN_collaborators \<Rightarrow> vec list \<Rightarrow> mat \<Rightarrow> spin_outputs \<Rightarrow> averages \<Rightarrow> real
     \<Rightarrow> vec option list \<times> tensor3 list" where
  "masked_gradients c params inputs outputs averages beta =
     (case outputs of (u, choli, _, rq, operator) \<Rightarrow>
        (let n = length inputs;
             sigma_jac_avg = snd averages;
             dl = map_option (\<lambda>choli. diag_matrix (diag_of choli)) choli;
             triu = (case (rq, dl) of (Some rq, Some dl) \<Rightarrow> Some (triu (matmul rq dl))
                     | _ \<Rightarrow> None);
             grad_sigma = (case (choli, triu) of
                             (Some choli, Some t) \<Rightarrow>
                               Some (mat_scale (- 1) (matmul (mat_T choli) t))
                           | _ \<Rightarrow> None);
             grad_pi = (case (choli, dl) of
                          (Some choli, Some dl) \<Rightarrow> Some (matmul (mat_T choli) dl)
                        | _ \<Rightarrow> None);
             grad_theta = net_u_jacobian c params inputs;
             sigma_jac = map (\<lambda>x. tensordot_1 (mat_T u) x) grad_theta;
             sigma_jac_avg = map2 (\<lambda>x y. tensor_add (tensor_scale (1 - beta) x)
                                                        (tensor_scale beta y))
                               sigma_jac_avg sigma_jac;
             gradient_pi_1 = map_option (\<lambda>grad_pi. matmul (mat_T grad_pi) (mat_T operator))
                               grad_pi;
             gradients = map2 (\<lambda>x y.
                   (case (gradient_pi_1, grad_sigma) of
                      (Some gradient_pi_1, Some grad_sigma) \<Rightarrow>
                        Some (vec_div (vec_add (tensordot_10 gradient_pi_1 x)
                                (vec_scale 1 (tensordot_10 (mat_T grad_sigma) y)))
                          (real n))
                    | _ \<Rightarrow> None))
                 grad_theta sigma_jac_avg;
             gradients = map (map_option (\<lambda>x. vec_scale (- 1) x)) gradients
         in (gradients, sigma_jac_avg)))"

definition loss_and_grad ::
  "'o SpIN_collaborators \<Rightarrow> vec list \<Rightarrow> mat \<times> averages \<times> real
     \<Rightarrow> real option \<times> vec option list \<times> averages" where
  "loss_and_grad c params batch =
     (case batch of (inputs, averages, beta) \<Rightarrow>
        (case evaluate_spin c params inputs averages beta of
           (outputs, sigma_avg) \<Rightarrow>
             (case outputs of (_, _, _, rq, _) \<Rightarrow>
                (let eigenvalues = map_option diag_of rq;
                     loss = map_option sum_list eigenvalues
                 in case masked_gradients c params inputs outputs averages beta of
                      (gradients, sigma_jac_avg) \<Rightarrow>
                        (let averages = (Arr2 sigma_avg, sigma_jac_avg)
                         in (loss, gradients, averages))))))"

definition init_sigma_jac :: "'o SpIN_collaborators \<Rightarrow> vec list \<Rightarrow> mat \<Rightarrow> tensor3 list" where
  "init_sigma_jac c params inputs =
     (let u = net_u c params inputs;
          grad_theta = net_u_jacobian c params inputs
      in map (\<lambda>x. tensor_scale 0 (tensordot_1 (mat_T u) x)) grad_theta)"

definition step ::
  "'o SpIN_collaborators \<Rightarrow> nat \<Rightarrow> 'o \<Rightarrow> mat \<times> averages \<times> real
     \<Rightarrow> real option \<times> 'o \<times> averages" where
  "step c i opt_state batch =
     (let params = get_params c opt_state
      in case loss_and_grad c params batch of
           (loss, gradients, averages) \<Rightarrow>
             (let opt_state = opt_update_fn c i gradients opt_state
              in (loss, opt_state, averages)))"

definition eigenpairs ::
  "'o SpIN_collaborators \<Rightarrow> vec list \<Rightarrow> mat \<Rightarrow> averages \<Rightarrow> real \<Rightarrow> vec option \<times> mat option" where
  "eigenpairs c params inputs averages beta =
     (case evaluate_spin c params inputs averages beta of
        (outputs, _) \<Rightarrow>
          (case outputs of (u, choli, _, rq, _) \<Rightarrow>
             (let evals = map_option diag_of rq;
                  efuns = map_option (\<lambda>choli. matmul u (mat_T choli)) choli
              in (evals, efuns))))"

subsection \<open>\<open>SpIN.train\<close>\<close>

text \<open>
  The local variables of \<open>train\<close>: the position in the stream of batches, the averages,
  and \<open>params\<close> and \<open>beta\<close>, which are only bound inside the loop.
\<close>

datatype 'a local_variable = Unbound | Bound 'a

record 'o train_locals =
  object :: "'o SpIN_state"
  position :: nat
  averages_var :: averages
  params_var :: "vec list local_variable"
  beta_var :: "real local_variable"

definition train_init ::
  "'o SpIN_collaborators \<Rightarrow> SpIN \<Rightarrow> (nat \<Rightarrow> mat) \<Rightarrow> 'o SpIN_state \<Rightarrow> 'o train_locals" where
  "train_init c self dataset st =
     (let sigma_avg = Arr1 (replicate (SpIN_neig self) 1);
          sigma_jac_avg = init_sigma_jac c (get_params c (self_opt_state st)) (dataset 0);
          averages = (sigma_avg, sigma_jac_avg)
      in \<lparr>object = st, position = 1, averages_var = averages, params_var = Unbound,
          beta_var = Unbound\<rparr>)"

definition train_iteration ::
  "'o SpIN_collaborators \<Rightarrow> SpIN \<Rightarrow> (nat \<Rightarrow> mat) \<Rightarrow> 'o train_locals \<Rightarrow> 'o train_locals" where
  "train_iteration c self dataset v =
     (let cnt = itercount (object v);
          beta = (if cnt > 0 then SpIN_beta self else 1);
          batch = (dataset (position v), averages_var v, beta);
          (loss, opt_state, averages) = step c cnt (self_opt_state (object v)) batch;
          params = get_params c opt_state;
          (evals, _) = eigenpairs c params (dataset (position v + 1)) averages beta
      in \<lparr>object = \<lparr>self_opt_state = opt_state, itercount = cnt + 1,
                      loss_log = loss_log (object v) @ [loss],
                      evals_log = evals_log (object v) @ [evals]\<rparr>,
          position = position v + 2, averages_var = averages, params_var = Bound params,
          beta_var = Bound beta\<rparr>)"


section \<open>A small instance\<close>

text \<open>
  Collaborators for the closed examples. There is one weight; the network returns its
  input and its Jacobian is constant (the steps do not look into either); the operator
  is the identity. The optimizers keep the gradients they are given as their state, so
  that a step shows what it handed to the optimizer; that of the second instance hands
  them back as the updates, which are added to the weights, a \<open>nan\<close> update leaving its
  leaf as it was.
\<close>

definition ex_spin :: "vec option list SpIN_collaborators" where
  "ex_spin = \<lparr>net_u = (\<lambda>p x. x), net_u_jacobian = (\<lambda>p x. [map (map (\<lambda>a. [1])) x]),
              operator_fn = (\<lambda>p x. x), opt_update_fn = (\<lambda>i g s. g),
              get_params = (\<lambda>s. [[0]])\<rparr>"

definition ex_stfn :: "(vec option list, vec option list) stfn_collaborators" where
  "ex_stfn = \<lparr>model_apply_jitted = (\<lambda>w b. b), model_jacobian = (\<lambda>w b. [map (map (\<lambda>a. [1])) b]),
              h_fn = (\<lambda>w b u. u), h_jacobian = (\<lambda>w b. [map (map (\<lambda>a. [1])) b]),
              opt_update_jitted = (\<lambda>g s. (g, g)),
              optax_apply_updates = map2 (\<lambda>w u. case u of None \<Rightarrow> w | Some u \<Rightarrow> vec_add w u)\<rparr>"

definition ex_locals :: "nat \<Rightarrow> ndarray \<Rightarrow> vec option list train_locals" where
  "ex_locals cnt seed =
     \<lparr>object = \<lparr>self_opt_state = [], itercount = cnt, loss_log = [], evals_log = []\<rparr>,
      position = 1, averages_var = (seed, [[[[0]]]]), params_var = Unbound,
      beta_var = Unbound\<rparr>"

text \<open>
  A second instance, with two outputs. There is one weight \<open>\<theta>\<close>; the network maps the
  point \<open>x\<close> to \<open>\<theta> x\<close>, so its Jacobian by the weight is \<open>x\<close>; the operator exchanges
  the two components of the network output, so its Jacobian by the weight is \<open>x\<close> with
  the components exchanged. The optimizers are those of the first instance.
\<close>

definition lin_spin :: "vec option list SpIN_collaborators" where
  "lin_spin = \<lparr>net_u = (\<lambda>p x. mat_scale (hd (hd p)) x),
               net_u_jacobian = (\<lambda>p x. [map (map (\<lambda>a. [a])) x]),
               operator_fn = (\<lambda>p x. map (\<lambda>r. [hd (hd p) * r ! 1, hd (hd p) * r ! 0]) x),
               opt_update_fn = (\<lambda>i g s. g),
               get_params = (\<lambda>s. [[1]])\<rparr>"

definition lin_stfn :: "(vec option list, vec option list) stfn_collaborators" where
  "lin_stfn = \<lparr>model_apply_jitted = (\<lambda>w b. mat_scale (hd (hd w)) b),
               model_jacobian = (\<lambda>w b. [map (map (\<lambda>a. [a])) b]),
               h_fn = (\<lambda>w b u. map (\<lambda>r. [r ! 1, r ! 0]) u),
               h_jacobian = (\<lambda>w b. [map (\<lambda>r. [[r ! 1], [r ! 0]]) b]),
               opt_update_jitted = (\<lambda>g s. (g, g)),
               optax_apply_updates = map2 (\<lambda>w u. case u of None \<Rightarrow> w | Some u \<Rightarrow> vec_add w u)\<rparr>"

text \<open>
  The same instance with an operator output that does not depend on the weight: at
  \<open>\<theta> = 1\<close> the two operators return the same array.
\<close>

definition lin_spin_fixed :: "vec option list SpIN_collaborators" where
  "lin_spin_fixed = \<lparr>net_u = (\<lambda>p x. mat_scale (hd (hd p)) x),
                     net_u_jacobian = (\<lambda>p x. [map (map (\<lambda>a. [a])) x]),
                     operator_fn = (\<lambda>p x. map (\<lambda>r. [r ! 1, r ! 0]) x),
                     opt_update_fn = (\<lambda>i g s. g),
                     get_params = (\<lambda>s. [[1]])\<rparr>"
section \<open>The closed forms of the specification\<close>

text \<open>
  Following the spec's words, entry by entry and without the array operations of the
  programs. For a batch of \<open>N\<close> points the output matrix \<open>U\<close> and the operator output
  \<open>HU\<close> are \<open>N \<times> k\<close>; the batch covariance is \<open>(1/N) U\<^sup>T U\<close> and the batch
  cross-covariance with the operator output is \<open>(1/N) U\<^sup>T HU\<close>.
\<close>

definition Sigma_batch :: "nat \<Rightarrow> mat \<Rightarrow> mat" where
  "Sigma_batch k U = matrix k k (\<lambda>i j. (\<Sum>b<length U. U ! b ! i * U ! b ! j) / real (length U))"

definition Pi_batch :: "nat \<Rightarrow> mat \<Rightarrow> mat \<Rightarrow> mat" where
  "Pi_batch k U HU
     = matrix k k (\<lambda>i j. (\<Sum>b<length U. U ! b ! i * HU ! b ! j) / real (length U))"

text \<open>
  The whitened operator matrix is \<open>\<Lambda> = L\<^sup>-\<^sup>1 \<Pi> L\<^sup>-\<^sup>T\<close>; its entry \<open>(i, j)\<close>, for
  \<open>k \<times> k\<close> matrices:
\<close>

definition whitened :: "nat \<Rightarrow> mat \<Rightarrow> mat \<Rightarrow> nat \<Rightarrow> nat \<Rightarrow> real" where
  "whitened k L_inv Pi i j = (\<Sum>a<k. \<Sum>b<k. L_inv ! i ! a * Pi ! a ! b * L_inv ! j ! b)"

definition Lambda_of :: "nat \<Rightarrow> mat \<Rightarrow> mat \<Rightarrow> mat" where
  "Lambda_of k L_inv Pi = matrix k k (whitened k L_inv Pi)"

text \<open>
  The derivative of the trace of \<open>\<Lambda>\<close> by \<open>\<Pi>\<close> is \<open>L\<^sup>-\<^sup>T diag(diag(L\<^sup>-\<^sup>1))\<close>, with
  entry \<open>(i, j)\<close> the product of \<open>L\<^sup>-\<^sup>1\<close> at \<open>(j, i)\<close> and at \<open>(j, j)\<close>; the derivative by
  the averaged covariance is \<open>- L\<^sup>-\<^sup>T triu(\<Lambda> diag(diag(L\<^sup>-\<^sup>1)))\<close>, where \<open>triu\<close>
  keeps the entries \<open>(a, j)\<close> with \<open>a \<le> j\<close>.
\<close>

definition pi_term :: "nat \<Rightarrow> mat \<Rightarrow> mat" where
  "pi_term k L_inv = matrix k k (\<lambda>i j. L_inv ! j ! i * L_inv ! j ! j)"

definition sigma_term :: "nat \<Rightarrow> mat \<Rightarrow> mat \<Rightarrow> mat" where
  "sigma_term k L_inv Lambda
     = matrix k k (\<lambda>i j. - (\<Sum>a<k. L_inv ! a ! i
                               * (if a \<le> j then Lambda ! a ! j * L_inv ! j ! j else 0)))"

text \<open>
  A matrix \<open>M\<close> of \<open>n\<close> rows and \<open>m\<close> columns contracted against an array \<open>T\<close> whose two
  leading axes have these sizes: the vector, over the entries of the leaf, of the sums
  of \<open>M\<close> at \<open>(i, j)\<close> times \<open>T\<close> at \<open>(i, j, p)\<close>; and the product of an \<open>n \<times> m\<close> matrix
  with an \<open>m \<times> l\<close> one.
\<close>

definition contract :: "nat \<Rightarrow> nat \<Rightarrow> mat \<Rightarrow> tensor3 \<Rightarrow> vec" where
  "contract n m M T = map (\<lambda>p. \<Sum>i<n. \<Sum>j<m. M ! i ! j * T ! i ! j ! p) [0..<depth T]"

definition mprod :: "nat \<Rightarrow> nat \<Rightarrow> nat \<Rightarrow> mat \<Rightarrow> mat \<Rightarrow> mat" where
  "mprod n m l A B = matrix n l (\<lambda>i j. \<Sum>t<m. A ! i ! t * B ! t ! j)"

text \<open>
  Following the spec's words: a valid covariance average is a symmetric
  positive-definite \<open>k \<times> k\<close> matrix; \<open>lower_triangular\<close> and \<open>positive_diagonal\<close> are what
  the contract of the factorization asks of \<open>L\<close>.
\<close>

definition symmetric :: "nat \<Rightarrow> mat \<Rightarrow> bool" where
  "symmetric k A = (\<forall>i<k. \<forall>j<k. A ! i ! j = A ! j ! i)"

definition quad_form :: "nat \<Rightarrow> mat \<Rightarrow> (nat \<Rightarrow> real) \<Rightarrow> real" where
  "quad_form k A x = (\<Sum>i<k. \<Sum>j<k. x i * A ! i ! j * x j)"

definition positive_definite :: "nat \<Rightarrow> mat \<Rightarrow> bool" where
  "positive_definite k A =
     (is_mat k k A \<and> symmetric k A \<and> (\<forall>x. (\<exists>i<k. x i \<noteq> 0) \<longrightarrow> 0 < quad_form k A x))"

definition lower_triangular :: "nat \<Rightarrow> mat \<Rightarrow> bool" where
  "lower_triangular k L = (\<forall>i<k. \<forall>j<k. i < j \<longrightarrow> L ! i ! j = 0)"

definition positive_diagonal :: "nat \<Rightarrow> mat \<Rightarrow> bool" where
  "positive_diagonal k L = (\<forall>i<k. 0 < L ! i ! i)"

section \<open>Facts about the arrays\<close>

lemma length_matrix: "length (matrix n m f) = n"
  by (simp add: matrix_def)

lemma nth_matrix: "i < n \<Longrightarrow> matrix n m f ! i = map (f i) [0..<m]"
  by (simp add: matrix_def)

subsection \<open>Unfolding the factorization and the inverse\<close>

declare chol_entry.simps [simp del] inv_entry.simps [simp del]

lemma chol_entry_upper: "i < j \<Longrightarrow> chol_entry A i j = 0"
  by (subst chol_entry.simps) simp

lemma chol_entry_diag:
  "chol_entry A i i = sqrt (A ! i ! i - (\<Sum>t<i. (chol_entry A i t)\<^sup>2))"
  by (subst chol_entry.simps) simp

lemma chol_entry_lower:
  "j < i \<Longrightarrow> chol_entry A i j
     = (A ! i ! j - (\<Sum>t<j. chol_entry A i t * chol_entry A j t)) / chol_entry A j j"
  by (subst chol_entry.simps) simp

lemma inv_entry_upper: "i < j \<Longrightarrow> inv_entry L i j = 0"
  by (subst inv_entry.simps) simp

lemma inv_entry_diag: "inv_entry L i i = 1 / L ! i ! i"
  by (subst inv_entry.simps) simp

lemma inv_entry_lower:
  "j < i \<Longrightarrow> inv_entry L i j = - (\<Sum>t = j..<i. L ! i ! t * inv_entry L t j) / L ! i ! i"
  by (subst inv_entry.simps) simp

lemma cholesky_1x1: "linalg_cholesky [[a]] = (if 0 < a then Some [[sqrt a]] else None)"
  by (simp add: linalg_cholesky_def matrix_def chol_pivot_def chol_entry_diag)
lemma inv_1x1: "linalg_inv [[a]] = (if a \<noteq> 0 then Some [[1 / a]] else None)"
  by (simp add: linalg_inv_def matrix_def inv_entry_diag)
lemma upt_2: "[0..<2] = [0, Suc 0]"
  by (simp add: numeral_2_eq_2)

lemma cholesky_2x2:
  "linalg_cholesky [[a, b], [c, d]]
     = (if 0 < a \<and> 0 < d - (c / sqrt a)\<^sup>2
        then Some [[sqrt a, 0], [c / sqrt a, sqrt (d - (c / sqrt a)\<^sup>2)]] else None)"
proof -
  have e00: "chol_entry [[a, b], [c, d]] 0 0 = sqrt a"
    by (simp add: chol_entry_diag [of _ 0])
  have e10: "chol_entry [[a, b], [c, d]] (Suc 0) 0 = c / sqrt a"
    by (simp add: chol_entry_lower [of 0 "Suc 0"] e00)
  have e11: "chol_entry [[a, b], [c, d]] (Suc 0) (Suc 0) = sqrt (d - (c / sqrt a)\<^sup>2)"
    by (simp add: chol_entry_diag [of _ "Suc 0"] e10)
  have e01: "chol_entry [[a, b], [c, d]] 0 (Suc 0) = 0"
    by (simp add: chol_entry_upper [of 0 "Suc 0"])
  have p0: "chol_pivot [[a, b], [c, d]] 0 = a"
    by (simp add: chol_pivot_def)
  have p1: "chol_pivot [[a, b], [c, d]] (Suc 0) = d - (c / sqrt a)\<^sup>2"
    by (simp add: chol_pivot_def e10)
  show ?thesis
    unfolding linalg_cholesky_def matrix_def
    by (simp add: upt_2 e00 e10 e11 e01 p0 p1)
qed

lemma inv_2x2:
  "linalg_inv [[a, b], [c, d]]
     = (if a \<noteq> 0 \<and> d \<noteq> 0 then Some [[1 / a, 0], [- (c * (1 / a)) / d, 1 / d]] else None)"
proof -
  have e00: "inv_entry [[a, b], [c, d]] 0 0 = 1 / a"
    by (simp add: inv_entry_diag)
  have e10: "inv_entry [[a, b], [c, d]] (Suc 0) 0 = - (c * (1 / a)) / d"
    by (simp add: inv_entry_lower [of 0 "Suc 0"] e00)
  have e11: "inv_entry [[a, b], [c, d]] (Suc 0) (Suc 0) = 1 / d"
    by (simp add: inv_entry_diag)
  have e01: "inv_entry [[a, b], [c, d]] 0 (Suc 0) = 0"
    by (simp add: inv_entry_upper [of 0 "Suc 0"])
  show ?thesis
    unfolding linalg_inv_def matrix_def
    by (simp add: upt_2 e00 e10 e11 e01)
qed

text \<open>The definitions a concrete array expression is evaluated with.\<close>

lemmas array_eval = matrix_def ncols_def mat_T_def matmul_def mean_outer_def triu_def
  diag_of_def diag_matrix_def eye_def mat_scale_def vec_scale_def mat_add_def vec_add_def
  mat_neg_def moving_average_def moving_average_vec_def moving_average_mat_def
  moving_average_tensor_def depth_def mat_div_def vec_div_def

subsection \<open>Shapes and entries\<close>

lemma matrix_nth: "i < n \<Longrightarrow> j < m \<Longrightarrow> matrix n m f ! i ! j = f i j"
  by (simp add: matrix_def)

lemma is_mat_matrix: "is_mat n m (matrix n m f)"
  by (simp add: is_mat_def matrix_def list_all_iff)

lemma is_mat_length: "is_mat n m A \<Longrightarrow> length A = n"
  by (simp add: is_mat_def)

lemma is_mat_row: "is_mat n m A \<Longrightarrow> i < n \<Longrightarrow> length (A ! i) = m"
  by (auto simp: is_mat_def list_all_length)

lemma is_mat_ncols: "is_mat n m A \<Longrightarrow> 0 < n \<Longrightarrow> ncols A = m"
  by (cases A) (auto simp: is_mat_def ncols_def)

lemma mat_eqI:
  assumes "is_mat n m A" and "is_mat n m B"
    and "\<And>i j. i < n \<Longrightarrow> j < m \<Longrightarrow> A ! i ! j = B ! i ! j"
  shows "A = B"
proof (rule nth_equalityI)
  show "length A = length B" using assms(1,2) by (simp add: is_mat_length)
next
  fix i assume "i < length A"
  then have i: "i < n" using assms(1) by (simp add: is_mat_length)
  show "A ! i = B ! i"
  proof (rule nth_equalityI)
    show "length (A ! i) = length (B ! i)"
      using assms(1,2) i by (simp add: is_mat_row)
  next
    fix j assume "j < length (A ! i)"
    then have "j < m" using assms(1) i by (simp add: is_mat_row)
    with i show "A ! i ! j = B ! i ! j" by (rule assms(3))
  qed
qed

lemma matrix_cong:
  "(\<And>i j. i < n \<Longrightarrow> j < m \<Longrightarrow> f i j = g i j) \<Longrightarrow> matrix n m f = matrix n m g"
  by (simp add: matrix_def)

lemma is_mat_mat_T: "is_mat n m A \<Longrightarrow> 0 < n \<Longrightarrow> is_mat m n (mat_T A)"
  by (simp add: mat_T_def is_mat_ncols is_mat_length is_mat_matrix)

lemma is_mat_matmul: "is_mat n m A \<Longrightarrow> is_mat m p B \<Longrightarrow> 0 < m \<Longrightarrow> is_mat n p (matmul A B)"
  by (simp add: matmul_def is_mat_ncols is_mat_length is_mat_matrix)

lemma is_mat_mat_div: "is_mat n m A \<Longrightarrow> is_mat n m (mat_div A c)"
  by (simp add: is_mat_def mat_div_def vec_div_def list_all_iff)

lemma is_mat_mat_scale: "is_mat n m A \<Longrightarrow> is_mat n m (mat_scale c A)"
  by (simp add: is_mat_def mat_scale_def vec_scale_def list_all_iff)

lemma vec_add_zero_left:
  "length v = length r \<Longrightarrow> vec_add (vec_scale 0 v) (vec_scale 1 r) = r"
  by (rule nth_equalityI) (simp_all add: vec_add_def vec_scale_def)

lemma blend_cold_start:
  assumes "is_mat k k S"
    and "case seed of Arr1 w \<Rightarrow> length w = k | Arr2 A \<Rightarrow> is_mat k k A"
  shows "add_nd (scale_nd 0 seed) (mat_scale 1 S) = S"
proof (cases seed)
  case (Arr1 w)
  with assms(2) have w: "length w = k" by simp
  have "map (\<lambda>r. vec_add (vec_scale 0 w) r) (map (vec_scale 1) S) = S"
  proof (rule nth_equalityI)
    show "length (map (\<lambda>r. vec_add (vec_scale 0 w) r) (map (vec_scale 1) S)) = length S"
      by simp
  next
    fix i assume "i < length (map (\<lambda>r. vec_add (vec_scale 0 w) r) (map (vec_scale 1) S))"
    then have i: "i < k" using assms(1) by (simp add: is_mat_length)
    then have "length w = length (S ! i)" using assms(1) w by (simp add: is_mat_row)
    then show "map (\<lambda>r. vec_add (vec_scale 0 w) r) (map (vec_scale 1) S) ! i = S ! i"
      using i assms(1) by (simp add: is_mat_length vec_add_zero_left)
  qed
  with Arr1 show ?thesis by (simp add: mat_scale_def)
next
  case (Arr2 A)
  with assms(2) have A: "is_mat k k A" by simp
  have "map2 vec_add (map (vec_scale 0) A) (map (vec_scale 1) S) = S"
  proof (rule nth_equalityI)
    show "length (map2 vec_add (map (vec_scale 0) A) (map (vec_scale 1) S)) = length S"
      using A assms(1) by (simp add: is_mat_length)
  next
    fix i assume "i < length (map2 vec_add (map (vec_scale 0) A) (map (vec_scale 1) S))"
    then have i: "i < k" using assms(1) A by (simp add: is_mat_length)
    then have "length (A ! i) = length (S ! i)" using assms(1) A by (simp add: is_mat_row)
    then show "map2 vec_add (map (vec_scale 0) A) (map (vec_scale 1) S) ! i = S ! i"
      using i assms(1) A by (simp add: is_mat_length vec_add_zero_left)
  qed
  with Arr2 show ?thesis by (simp add: mat_scale_def mat_add_def)
qed

lemma matmul_nth:
  "i < length A \<Longrightarrow> j < ncols B \<Longrightarrow> matmul A B ! i ! j = (\<Sum>t<length B. A ! i ! t * B ! t ! j)"
  by (simp add: matmul_def matrix_nth)

lemma mat_T_nth: "i < ncols A \<Longrightarrow> j < length A \<Longrightarrow> mat_T A ! i ! j = A ! j ! i"
  by (simp add: mat_T_def matrix_nth)

lemma is_mat_cholesky: "linalg_cholesky A = Some L \<Longrightarrow> is_mat (length A) (length A) L"
  by (auto simp: linalg_cholesky_def is_mat_matrix split: if_splits)

lemma is_mat_inv: "linalg_inv L = Some Li \<Longrightarrow> is_mat (length L) (length L) Li"
  by (auto simp: linalg_inv_def is_mat_matrix split: if_splits)

lemma is_mat_moving_average:
  assumes "is_mat n m S" and "is_mat n m C"
  shows "is_mat n m (moving_average_mat S C beta)"
  using assms
  by (auto simp: is_mat_def moving_average_mat_def moving_average_vec_def list_all_length)

lemma is_mat_mean_outer:
  assumes "is_mat n k u" and "is_mat n k' h" and "0 < n"
  shows "is_mat k k' (mean_outer u h)"
  using assms by (simp add: mean_outer_def is_mat_ncols is_mat_matrix)


lemma diag_of_square: "is_mat k k A \<Longrightarrow> diag_of A = map (\<lambda>i. A ! i ! i) [0..<k]"
  by (cases A) (auto simp: diag_of_def is_mat_def ncols_def)

subsection \<open>The whitened operator matrix\<close>

lemma whitened_left:
  assumes "is_mat k k Li" and "is_mat k k P" and "i < k" and "j < k"
  shows "matmul (matmul Li P) (mat_T Li) ! i ! j = whitened k Li P i j"
proof -
  have k: "0 < k" using assms(3) by simp
  have T: "is_mat k k (mat_T Li)" using assms(1) k by (rule is_mat_mat_T)
  have M: "is_mat k k (matmul Li P)" using assms(1,2) k by (rule is_mat_matmul)
  have "matmul (matmul Li P) (mat_T Li) ! i ! j
          = (\<Sum>t<k. matmul Li P ! i ! t * mat_T Li ! t ! j)"
    using M T assms(3,4) k by (simp add: matmul_nth is_mat_length is_mat_ncols)
  also have "\<dots> = (\<Sum>t<k. (\<Sum>a<k. Li ! i ! a * P ! a ! t) * Li ! j ! t)"
    using assms k
    by (intro sum.cong refl) (simp add: matmul_nth mat_T_nth is_mat_length is_mat_ncols)
  also have "\<dots> = (\<Sum>t<k. \<Sum>a<k. Li ! i ! a * P ! a ! t * Li ! j ! t)"
    by (simp add: sum_distrib_right)
  also have "\<dots> = (\<Sum>a<k. \<Sum>t<k. Li ! i ! a * P ! a ! t * Li ! j ! t)"
    by (rule sum.swap)
  finally show ?thesis by (simp add: whitened_def)
qed

lemma whitened_right:
  assumes "is_mat k k Li" and "is_mat k k P" and "i < k" and "j < k"
  shows "matmul Li (matmul P (mat_T Li)) ! i ! j = whitened k Li P i j"
proof -
  have k: "0 < k" using assms(3) by simp
  have T: "is_mat k k (mat_T Li)" using assms(1) k by (rule is_mat_mat_T)
  have M: "is_mat k k (matmul P (mat_T Li))" using assms(2) T k by (rule is_mat_matmul)
  have "matmul Li (matmul P (mat_T Li)) ! i ! j
          = (\<Sum>a<k. Li ! i ! a * matmul P (mat_T Li) ! a ! j)"
    using M assms(1,3,4) k by (simp add: matmul_nth is_mat_length is_mat_ncols)
  also have "\<dots> = (\<Sum>a<k. Li ! i ! a * (\<Sum>b<k. P ! a ! b * Li ! j ! b))"
    using assms k T
    by (intro sum.cong refl) (simp add: matmul_nth mat_T_nth is_mat_length is_mat_ncols)
  also have "\<dots> = (\<Sum>a<k. \<Sum>b<k. Li ! i ! a * P ! a ! b * Li ! j ! b)"
    by (simp add: sum_distrib_left mult.assoc)
  finally show ?thesis by (simp add: whitened_def)
qed



subsection \<open>Negation, transposition and the contractions\<close>

lemma vec_scale_one: "vec_scale 1 v = v"
  by (simp add: vec_scale_def)

lemma mat_scale_neg: "mat_scale (- 1) A = mat_neg A"
  by (simp add: mat_scale_def vec_scale_def mat_neg_def)

lemma is_mat_mat_neg: "is_mat n m A \<Longrightarrow> is_mat n m (mat_neg A)"
  by (simp add: is_mat_def mat_neg_def list_all_iff)

lemma mat_neg_nth: "is_mat n m A \<Longrightarrow> i < n \<Longrightarrow> j < m \<Longrightarrow> mat_neg A ! i ! j = - (A ! i ! j)"
  by (simp add: mat_neg_def is_mat_length is_mat_row)

lemma matmul_mat_neg:
  assumes "is_mat n m A" and "is_mat m p B" and "0 < m"
  shows "matmul (mat_neg A) B = mat_neg (matmul A B)"
proof (rule mat_eqI [where n = n and m = p])
  have N: "is_mat n m (mat_neg A)" using assms(1) by (rule is_mat_mat_neg)
  show "is_mat n p (matmul (mat_neg A) B)"
    using N assms(2,3) by (rule is_mat_matmul)
  have "is_mat n p (matmul A B)" using assms by (rule is_mat_matmul)
  then show "is_mat n p (mat_neg (matmul A B))" by (rule is_mat_mat_neg)
next
  fix i j assume ij: "i < n" "j < p"
  have "matmul (mat_neg A) B ! i ! j = (\<Sum>t<m. mat_neg A ! i ! t * B ! t ! j)"
    using assms ij by (simp add: matmul_nth mat_neg_def is_mat_length is_mat_ncols)
  also have "\<dots> = (\<Sum>t<m. - (A ! i ! t * B ! t ! j))"
    using assms(1) ij(1) by (intro sum.cong refl) (simp add: mat_neg_nth)
  also have "\<dots> = - (\<Sum>t<m. A ! i ! t * B ! t ! j)"
    by (simp add: sum_negf)
  also have "\<dots> = mat_neg (matmul A B) ! i ! j"
    using assms ij mat_neg_nth [OF is_mat_matmul [OF assms] ij]
    by (simp add: matmul_nth is_mat_length is_mat_ncols)
  finally show "matmul (mat_neg A) B ! i ! j = mat_neg (matmul A B) ! i ! j" .
qed

lemma is_mat_triu: "is_mat n m A \<Longrightarrow> 0 < n \<Longrightarrow> is_mat n m (triu A)"
  by (simp add: triu_def is_mat_ncols is_mat_length is_mat_matrix)

lemma is_mat_diag_matrix: "length v = k \<Longrightarrow> is_mat k k (diag_matrix v)"
  by (auto simp: diag_matrix_def is_mat_matrix)

lemma length_diag_of: "is_mat k k A \<Longrightarrow> length (diag_of A) = k"
  by (simp add: diag_of_square)

lemma tensordot_10_mat_T:
  assumes "is_mat k k G" and "0 < k"
  shows "tensordot_10 (mat_T G) T = tensordot_01 G T"
proof -
  have T: "is_mat k k (mat_T G)" using assms by (rule is_mat_mat_T)
  have "(\<Sum>a<k. \<Sum>b<k. mat_T G ! a ! b * T ! b ! a ! p) = (\<Sum>i<k. \<Sum>j<k. G ! i ! j * T ! i ! j ! p)"
    for p
  proof -
    have "(\<Sum>a<k. \<Sum>b<k. mat_T G ! a ! b * T ! b ! a ! p) = (\<Sum>a<k. \<Sum>b<k. G ! b ! a * T ! b ! a ! p)"
      using assms by (intro sum.cong refl) (simp add: mat_T_nth is_mat_length is_mat_ncols)
    also have "\<dots> = (\<Sum>b<k. \<Sum>a<k. G ! b ! a * T ! b ! a ! p)"
      by (rule sum.swap)
    finally show ?thesis .
  qed
  then show ?thesis
    using assms T by (simp add: tensordot_10_def tensordot_01_def is_mat_length is_mat_ncols)
qed

lemma tensordot_10_pull_back:
  assumes "is_mat k k Gp" and "is_mat n k op" and "length x = n" and "0 < k" and "0 < n"
  shows "tensordot_10 (matmul (mat_T Gp) (mat_T op)) x = pull_back x (matmul op Gp)"
proof -
  have Tg: "is_mat k k (mat_T Gp)" using assms(1,4) by (rule is_mat_mat_T)
  have To: "is_mat k n (mat_T op)" using assms(2,5) by (rule is_mat_mat_T)
  have M: "is_mat k n (matmul (mat_T Gp) (mat_T op))" using Tg To assms(4) by (rule is_mat_matmul)
  have C: "is_mat n k (matmul op Gp)" using assms(2,1,4) by (rule is_mat_matmul)
  have "(\<Sum>a<k. \<Sum>b<n. matmul (mat_T Gp) (mat_T op) ! a ! b * x ! b ! a ! p)
          = (\<Sum>b<n. \<Sum>a<k. matmul op Gp ! b ! a * x ! b ! a ! p)" for p
  proof -
    have "(\<Sum>a<k. \<Sum>b<n. matmul (mat_T Gp) (mat_T op) ! a ! b * x ! b ! a ! p)
            = (\<Sum>a<k. \<Sum>b<n. (\<Sum>c<k. Gp ! c ! a * op ! b ! c) * x ! b ! a ! p)"
      using assms Tg To
      by (intro sum.cong refl) (simp add: matmul_nth mat_T_nth is_mat_length is_mat_ncols)
    also have "\<dots> = (\<Sum>b<n. \<Sum>a<k. (\<Sum>c<k. Gp ! c ! a * op ! b ! c) * x ! b ! a ! p)"
      by (rule sum.swap)
    also have "\<dots> = (\<Sum>b<n. \<Sum>a<k. matmul op Gp ! b ! a * x ! b ! a ! p)"
      using assms
      by (intro sum.cong refl) (simp add: matmul_nth is_mat_length is_mat_ncols mult.commute)
    finally show ?thesis .
  qed
  then show ?thesis
    using M C assms by (simp add: tensordot_10_def pull_back_def is_mat_length is_mat_ncols)
qed

section \<open>What the steps hand on\<close>

lemma evaluate_spin_sigma:
  "snd (evaluate_spin c params inputs averages beta)
     = add_nd (scale_nd (1 - beta) (fst averages))
         (mat_scale beta (mat_div (matmul (mat_T (net_u c params inputs)) (net_u c params inputs))
                            (real (length inputs))))"
  by (simp add: evaluate_spin_def Let_def)

lemma loss_and_grad_averages:
  "snd (snd (loss_and_grad c params (inputs, averages, beta)))
     = (Arr2 (snd (evaluate_spin c params inputs averages beta)),
        snd (masked_gradients c params inputs (fst (evaluate_spin c params inputs averages beta))
               averages beta))"
  by (simp add: loss_and_grad_def Let_def split: prod.splits)

lemma step_averages:
  "snd (snd (step c i s batch)) = snd (snd (loss_and_grad c (get_params c s) batch))"
  by (simp add: step_def Let_def split: prod.splits)

lemma train_iteration_averages:
  "averages_var (train_iteration c self dataset v)
     = snd (snd (step c (itercount (object v)) (self_opt_state (object v))
          (dataset (position v), averages_var v,
           if 0 < itercount (object v) then SpIN_beta self else 1)))"
  by (simp add: train_iteration_def Let_def case_prod_beta)

lemma train_iteration_beta:
  "beta_var (train_iteration c self dataset v)
     = Bound (if 0 < itercount (object v) then SpIN_beta self else 1)"
  by (simp add: train_iteration_def Let_def case_prod_beta)

lemma stfn_train_step_sigma:
  "r_sigma_t_bar (stfn_train_step c weight_dict opt_state batch sigma_t_bar j_sigma_t_bar beta epoch)
     = moving_average_mat sigma_t_bar
         (covariance (model_apply_jitted c weight_dict batch)
                     (model_apply_jitted c weight_dict batch)) beta"
  by (simp add: stfn_train_step_def Let_def case_prod_beta)

lemma stfn_train_step_j_sigma:
  "r_j_sigma_t_bar (stfn_train_step c weight_dict opt_state batch sigma_t_bar j_sigma_t_bar beta epoch)
     = map2 (\<lambda>x y. moving_average_tensor x y beta) j_sigma_t_bar
         (map (jacrev_sigma_from_theta (model_apply_jitted c weight_dict batch))
              (model_jacobian c weight_dict batch))"
  by (simp add: stfn_train_step_def Let_def case_prod_beta)

lemma stfn_epoch_sigma:
  "s_sigma_t_bar (stfn_epoch c self batches st epoch)
     = r_sigma_t_bar (stfn_train_step c (s_weight_dict st) (s_opt_state st) (batches epoch)
         (s_sigma_t_bar st) (s_j_sigma_t_bar st) (moving_average_beta self) epoch)"
  "s_j_sigma_t_bar (stfn_epoch c self batches st epoch)
     = r_j_sigma_t_bar (stfn_train_step c (s_weight_dict st) (s_opt_state st) (batches epoch)
         (s_sigma_t_bar st) (s_j_sigma_t_bar st) (moving_average_beta self) epoch)"
  by (simp_all add: stfn_epoch_def Let_def)

lemma is_mat_gram:
  assumes "is_mat n k u" and "0 < n"
  shows "is_mat k k (mat_div (matmul (mat_T u) u) c)"
proof (cases "k = 0")
  case True
  then show ?thesis
    using assms by (simp add: mat_div_def matmul_def mat_T_def is_mat_ncols is_mat_def matrix_def)
next
  case False
  from assms have "is_mat k n (mat_T u)" by (rule is_mat_mat_T)
  then have "is_mat k k (matmul (mat_T u) u)" using assms by (rule is_mat_matmul)
  then show ?thesis by (rule is_mat_mat_div)
qed

lemma tensor_nth: "i < n \<Longrightarrow> tensor n m p f ! i = matrix m p (f i)"
  by (simp add: tensor_def)

lemma length_tensor: "length (tensor n m p f) = n"
  by (simp add: tensor_def)

lemma is_tensor3_first:
  assumes "is_tensor3 n m p T" and "0 < n"
  shows "(case T of [] \<Rightarrow> 0 | A # _ \<Rightarrow> length A) = m"
  using assms by (cases T) (auto simp: is_tensor3_def is_mat_def)

lemma tensor_scale_zero: "tensor_scale 0 (tensor n m p f) = zeros3 n m p"
  by (simp add: tensor_scale_def zeros3_def tensor_def mat_scale_def vec_scale_def matrix_def)

lemma init_sigma_jac_zeros:
  assumes "is_mat n k (net_u c params inputs)" and "0 < n"
    and "list_all (\<lambda>x. \<exists>p. is_tensor3 n k p x) (net_u_jacobian c params inputs)"
  shows "init_sigma_jac c params inputs
           = map (\<lambda>x. zeros3 k k (depth x)) (net_u_jacobian c params inputs)"
proof -
  have "tensor_scale 0 (tensordot_1 (mat_T (net_u c params inputs)) x) = zeros3 k k (depth x)"
    if "x \<in> set (net_u_jacobian c params inputs)" for x
  proof -
    from that assms(3) obtain p where "is_tensor3 n k p x"
      by (auto simp: list_all_iff)
    then have "(case x of [] \<Rightarrow> 0 | A # _ \<Rightarrow> length A) = k"
      using assms(2) by (rule is_tensor3_first)
    moreover have "length (mat_T (net_u c params inputs)) = k"
      using assms(1,2) by (simp add: mat_T_def length_matrix is_mat_ncols)
    ultimately show ?thesis
      by (simp add: tensordot_1_def tensor_scale_zero)
  qed
  then show ?thesis by (simp add: init_sigma_jac_def Let_def)
qed

lemma eye_entries:
  "is_mat k k (eye k) \<and> (\<forall>i<k. \<forall>j<k. eye k ! i ! j = (if i = j then 1 else 0))"
  by (simp add: eye_def is_mat_matrix matrix_nth)

lemma zeros3_entries:
  "is_tensor3 n m p (zeros3 n m p)
   \<and> (\<forall>i<n. \<forall>j<m. \<forall>q<p. zeros3 n m p ! i ! j ! q = 0)"
  by (simp add: zeros3_def is_tensor3_def tensor_def list_all_iff is_mat_matrix matrix_nth)

lemma is_mat_add_nd:
  assumes "is_mat k k S" and "case seed of Arr1 w \<Rightarrow> length w = k | Arr2 A \<Rightarrow> is_mat k k A"
  shows "is_mat k k (add_nd (scale_nd a seed) (mat_scale b S))"
proof (cases seed)
  case (Arr1 w)
  with assms show ?thesis
    by (auto simp: is_mat_def mat_scale_def vec_scale_def vec_add_def list_all_length)
next
  case (Arr2 A)
  with assms show ?thesis
    by (auto simp: is_mat_def mat_scale_def vec_scale_def vec_add_def mat_add_def list_all_length)
qed




lemma stfn_train_step_L_inv:
  "r_L_inv (stfn_train_step c weight_dict os batch sigma_t_bar j_sigma_t_bar beta epoch)
     = (case linalg_cholesky (moving_average_mat sigma_t_bar
              (covariance (model_apply_jitted c weight_dict batch)
                          (model_apply_jitted c weight_dict batch)) beta) of
          None \<Rightarrow> None | Some L \<Rightarrow> linalg_inv L)"
  by (simp add: stfn_train_step_def Let_def case_prod_beta)

lemma stfn_shapes:
  assumes "r_L_inv (stfn_train_step c weight_dict os batch sigma_t_bar j_sigma_t_bar beta epoch)
             = Some L_inv"
    and "is_mat n k (model_apply_jitted c weight_dict batch)" and "0 < n"
    and "is_mat k k sigma_t_bar"
  shows "is_mat k k L_inv"
proof -
  let ?u = "model_apply_jitted c weight_dict batch"
  let ?A = "moving_average_mat sigma_t_bar (covariance ?u ?u) beta"
  from assms(1) have "(case linalg_cholesky ?A of None \<Rightarrow> None | Some L \<Rightarrow> linalg_inv L)
      = Some L_inv"
    by (simp add: stfn_train_step_L_inv)
  then obtain L where L: "linalg_cholesky ?A = Some L" and Li: "linalg_inv L = Some L_inv"
    by (cases "linalg_cholesky ?A") simp_all
  have "is_mat k k (covariance ?u ?u)"
    unfolding covariance_def using assms(2,2,3) by (rule is_mat_mean_outer)
  with assms(4) have "is_mat k k ?A" by (rule is_mat_moving_average)
  with L have "is_mat k k L" by (auto dest: is_mat_cholesky simp: is_mat_length)
  with Li show ?thesis by (auto dest: is_mat_inv simp: is_mat_length)
qed

lemma map2_cong_zip:
  "(\<And>x y. (x, y) \<in> set (zip xs ys) \<Longrightarrow> f x y = g x y) \<Longrightarrow> map2 f xs ys = map2 g xs ys"
  by auto

lemma is_mat_whitened:
  assumes "is_mat k k Li" and "is_mat k k P" and "0 < k"
  shows "is_mat k k (matmul Li (matmul P (mat_T Li)))"
    and "is_mat k k (matmul (matmul Li P) (mat_T Li))"
proof -
  have T: "is_mat k k (mat_T Li)" using assms(1,3) by (rule is_mat_mat_T)
  have "is_mat k k (matmul P (mat_T Li))" using assms(2) T assms(3) by (rule is_mat_matmul)
  with assms(1) show "is_mat k k (matmul Li (matmul P (mat_T Li)))"
    using assms(3) by (rule is_mat_matmul)
  have "is_mat k k (matmul Li P)" using assms by (rule is_mat_matmul)
  then show "is_mat k k (matmul (matmul Li P) (mat_T Li))"
    using T assms(3) by (rule is_mat_matmul)
qed

lemma covariance_bwd_eq:
  "covariance_bwd (snd (covariance_fwd u1 u2)) g
     = (mat_div (matmul u2 g) (real (length u1)), mat_div (matmul u1 g) (real (length u1)))"
  by (simp add: covariance_bwd_def covariance_fwd_def)

lemma vjp_pi_from_theta_eq:
  assumes "length u = n"
  shows "vjp_pi_from_theta u h_u J_u J_h g
           = vec_add (pull_back J_u (mat_div (matmul h_u g) (real n)))
                     (pull_back J_h (mat_div (matmul u g) (real n)))"
  using assms by (simp add: vjp_pi_from_theta_def covariance_bwd_eq)

subsection \<open>The batch covariances, entry by entry\<close>

lemma Pi_batch_gram:
  assumes "is_mat n k a" and "is_mat n k b" and "0 < n"
  shows "mat_div (matmul (mat_T a) b) (real n) = Pi_batch k a b"
proof (cases "k = 0")
  case True
  with assms show ?thesis
    by (simp add: mat_div_def matmul_def mat_T_def is_mat_ncols Pi_batch_def matrix_def)
next
  case False
  show ?thesis
  proof (rule mat_eqI)
    have T: "is_mat k n (mat_T a)" using assms(1,3) by (rule is_mat_mat_T)
    then have "is_mat k k (matmul (mat_T a) b)" using assms(2,3) by (rule is_mat_matmul)
    then show "is_mat k k (mat_div (matmul (mat_T a) b) (real n))" by (rule is_mat_mat_div)
    show "is_mat k k (Pi_batch k a b)"
      by (simp add: Pi_batch_def is_mat_matrix)
    fix i j assume ij: "i < k" "j < k"
    show "mat_div (matmul (mat_T a) b) (real n) ! i ! j = Pi_batch k a b ! i ! j"
      using assms T ij
      by (simp add: mat_div_def vec_div_def Pi_batch_def matrix_nth is_mat_length
          matmul_def length_matrix nth_matrix is_mat_ncols mat_T_nth)
  qed
qed

lemma Sigma_batch_Pi_batch: "Sigma_batch k u = Pi_batch k u u"
  by (simp add: Sigma_batch_def Pi_batch_def)

lemma Sigma_batch_gram:
  assumes "is_mat n k u" and "0 < n"
  shows "mat_div (matmul (mat_T u) u) (real n) = Sigma_batch k u"
  unfolding Sigma_batch_Pi_batch using assms(1,1,2) by (rule Pi_batch_gram)

lemma covariance_Pi_batch:
  assumes "is_mat n k a" and "is_mat n k b" and "0 < n"
  shows "covariance a b = Pi_batch k a b"
  using assms by (simp add: covariance_def mean_outer_def Pi_batch_def is_mat_ncols)

lemma covariance_Sigma_batch:
  assumes "is_mat n k u" and "0 < n"
  shows "covariance u u = Sigma_batch k u"
  unfolding Sigma_batch_Pi_batch using assms(1,1,2) by (rule covariance_Pi_batch)

lemma is_mat_Pi_batch: "is_mat k k (Pi_batch k a b)"
  by (simp add: Pi_batch_def is_mat_matrix)



lemma evaluate_spin_finite:
  assumes "u = net_u c params inputs" and "is_mat n k u"
    and "op = operator_fn c params inputs" and "is_mat n k op"
    and "length inputs = n" and "0 < n"
    and "A = add_nd (scale_nd (1 - beta) (fst averages)) (mat_scale beta (Sigma_batch k u))"
    and "linalg_cholesky A = Some L" and "linalg_inv L = Some L_inv"
  shows "evaluate_spin c params inputs averages beta
           = ((u, Some L_inv, Pi_batch k op u,
               Some (matmul L_inv (matmul (Pi_batch k op u) (mat_T L_inv))), op), A)"
proof -
  have S: "mat_div (matmul (mat_T (net_u c params inputs)) (net_u c params inputs))
             (real (length inputs)) = Sigma_batch k u"
    using Sigma_batch_gram [OF assms(2,6)] by (simp add: assms(1,5))
  have P: "mat_div (matmul (mat_T (operator_fn c params inputs)) (net_u c params inputs))
             (real (length inputs)) = Pi_batch k op u"
    using Pi_batch_gram [OF assms(4,2,6)] by (simp add: assms(1,3,5))
  show ?thesis
    using assms(8,9)
    by (simp add: evaluate_spin_def Let_def S P assms(7) [symmetric])
      (simp add: assms(1,3))
qed


subsection \<open>The instance with two outputs\<close>

lemma lin_batch:
  "net_u lin_spin [[1]] [[2, 3], [2, - 1]] = [[2, 3], [2, - 1]]"
  "operator_fn lin_spin [[1]] [[2, 3], [2, - 1]] = [[3, 2], [- 1, 2]]"
  "model_apply_jitted lin_stfn [[1]] [[2, 3], [2, - 1]] = [[2, 3], [2, - 1]]"
  "h_fn lin_stfn [[1]] [[2, 3], [2, - 1]] [[2, 3], [2, - 1]] = [[3, 2], [- 1, 2]]"
  by (simp_all add: lin_spin_def lin_stfn_def mat_scale_def vec_scale_def)

lemma lin_Sigma_batch: "Sigma_batch 2 [[2, 3], [2, - 1]] = [[4, 2], [2, 5]]"
  by (simp add: Sigma_batch_def matrix_def upt_2 lessThan_Suc numeral_2_eq_2)


lemma lin_cholesky: "linalg_cholesky [[4, 2], [2, 5]] = Some [[2, 0], [1, 2]]"
  by (simp add: cholesky_2x2)

lemma lin_inv: "linalg_inv [[2, 0], [1, 2]] = Some [[1 / 2, 0], [- 1 / 4, 1 / 2]]"
  by (simp add: inv_2x2)

lemma lin_blend:
  "add_nd (scale_nd (1 - 1 / 2) (Arr2 [[4, 2], [2, 5]])) (mat_scale (1 / 2) [[4, 2], [2, 5]])
     = [[4, 2], [2, 5]]"
  "moving_average_mat [[4, 2], [2, 5]] [[4, 2], [2, 5]] (1 / 2) = [[4, 2], [2, 5]]"
  by (simp_all add: array_eval)

subsection \<open>The closed forms, entry by entry\<close>

lemma matmul_mprod:
  assumes "is_mat n m A" and "is_mat m l B" and "0 < m"
  shows "matmul A B = mprod n m l A B"
  using assms by (simp add: matmul_def mprod_def is_mat_length is_mat_ncols)

lemma is_mat_mprod: "is_mat n l (mprod n m l A B)"
  by (simp add: mprod_def is_mat_matrix)

lemma pi_term_code:
  assumes "is_mat k k Li" and "0 < k"
  shows "matmul (mat_T Li) (diag_matrix (diag_of Li)) = pi_term k Li"
proof -
  have T: "is_mat k k (mat_T Li)" using assms by (rule is_mat_mat_T)
  have D: "is_mat k k (diag_matrix (diag_of Li))"
    using assms(1) by (simp add: is_mat_diag_matrix length_diag_of)
  have "(\<Sum>t<k. mat_T Li ! i ! t * diag_matrix (diag_of Li) ! t ! j) = Li ! j ! i * Li ! j ! j"
    if "i < k" "j < k" for i j
  proof -
    have "(\<Sum>t<k. mat_T Li ! i ! t * diag_matrix (diag_of Li) ! t ! j)
            = (\<Sum>t<k. if t = j then Li ! j ! i * Li ! j ! j else 0)"
      using assms that
      by (intro sum.cong refl)
        (simp add: mat_T_nth is_mat_length is_mat_ncols diag_matrix_def matrix_nth
          length_diag_of diag_of_square)
    also have "\<dots> = Li ! j ! i * Li ! j ! j"
      using that by simp
    finally show ?thesis .
  qed
  note entry = this
  have "matmul (mat_T Li) (diag_matrix (diag_of Li))
          = matrix k k (\<lambda>i j. \<Sum>t<k. mat_T Li ! i ! t * diag_matrix (diag_of Li) ! t ! j)"
    using T D assms(2) by (simp add: matmul_def is_mat_length is_mat_ncols)
  also have "\<dots> = pi_term k Li"
    unfolding pi_term_def by (rule matrix_cong) (rule entry)
  finally show ?thesis .
qed

lemma triu_arg_nth:
  assumes "is_mat k k Lam" and "is_mat k k Li" and "0 < k" and "a < k" and "j < k"
  shows "triu (matmul Lam (diag_matrix (diag_of Li))) ! a ! j
           = (if a \<le> j then Lam ! a ! j * Li ! j ! j else 0)"
proof -
  have D: "is_mat k k (diag_matrix (diag_of Li))"
    using assms(2) by (simp add: is_mat_diag_matrix length_diag_of)
  have M: "is_mat k k (matmul Lam (diag_matrix (diag_of Li)))"
    using assms(1) D assms(3) by (rule is_mat_matmul)
  have "matmul Lam (diag_matrix (diag_of Li)) ! a ! j
          = (\<Sum>t<k. Lam ! a ! t * diag_matrix (diag_of Li) ! t ! j)"
    using assms D by (simp add: matmul_nth is_mat_length is_mat_ncols)
  also have "\<dots> = (\<Sum>t<k. if t = j then Lam ! a ! j * Li ! j ! j else 0)"
    using assms
    by (intro sum.cong refl)
      (simp add: diag_matrix_def matrix_nth length_diag_of diag_of_square)
  also have "\<dots> = Lam ! a ! j * Li ! j ! j"
    using assms(5) by simp
  finally show ?thesis
    using M assms by (simp add: triu_def matrix_nth is_mat_length is_mat_ncols)
qed

lemma sigma_term_matmul:
  assumes "is_mat k k Lam" and "is_mat k k Li" and "0 < k"
  shows "mat_neg (matmul (mat_T Li) (triu (matmul Lam (diag_matrix (diag_of Li)))))
           = sigma_term k Li Lam"
proof (rule mat_eqI)
  have T: "is_mat k k (mat_T Li)" using assms(2,3) by (rule is_mat_mat_T)
  have A: "is_mat k k (triu (matmul Lam (diag_matrix (diag_of Li))))"
  proof -
    have "is_mat k k (diag_matrix (diag_of Li))"
      using assms(2) by (simp add: is_mat_diag_matrix length_diag_of)
    with assms(1) have "is_mat k k (matmul Lam (diag_matrix (diag_of Li)))"
      using assms(3) by (rule is_mat_matmul)
    then show ?thesis using assms(3) by (rule is_mat_triu)
  qed
  have P: "is_mat k k (matmul (mat_T Li) (triu (matmul Lam (diag_matrix (diag_of Li)))))"
    using T A assms(3) by (rule is_mat_matmul)
  then show "is_mat k k (mat_neg (matmul (mat_T Li)
      (triu (matmul Lam (diag_matrix (diag_of Li))))))"
    by (rule is_mat_mat_neg)
  show "is_mat k k (sigma_term k Li Lam)"
    by (simp add: sigma_term_def is_mat_matrix)
  fix i j assume ij: "i < k" "j < k"
  have "matmul (mat_T Li) (triu (matmul Lam (diag_matrix (diag_of Li)))) ! i ! j
          = (\<Sum>a<k. Li ! a ! i * (if a \<le> j then Lam ! a ! j * Li ! j ! j else 0))"
    using T A ij assms
    by (simp add: matmul_nth is_mat_length is_mat_ncols)
      (intro sum.cong refl, simp add: mat_T_nth is_mat_length is_mat_ncols triu_arg_nth)
  then show "mat_neg (matmul (mat_T Li) (triu (matmul Lam (diag_matrix (diag_of Li))))) ! i ! j
          = sigma_term k Li Lam ! i ! j"
    using P ij by (simp add: mat_neg_nth sigma_term_def matrix_nth)
qed

lemma Lambda_of_matmul:
  assumes "is_mat k k Li" and "is_mat k k P" and "0 < k"
  shows "matmul Li (matmul P (mat_T Li)) = Lambda_of k Li P"
    and "matmul (matmul Li P) (mat_T Li) = Lambda_of k Li P"
proof -
  show "matmul Li (matmul P (mat_T Li)) = Lambda_of k Li P"
    by (rule mat_eqI [OF is_mat_whitened(1) [OF assms]])
      (simp_all add: Lambda_of_def is_mat_matrix matrix_nth whitened_right [OF assms(1,2)])
  show "matmul (matmul Li P) (mat_T Li) = Lambda_of k Li P"
    by (rule mat_eqI [OF is_mat_whitened(2) [OF assms]])
      (simp_all add: Lambda_of_def is_mat_matrix matrix_nth whitened_left [OF assms(1,2)])
qed

lemma tensordot_01_contract:
  assumes "is_mat k k G" and "0 < k"
  shows "tensordot_01 G T = contract k k G T"
  using assms by (simp add: tensordot_01_def contract_def is_mat_length is_mat_ncols)

lemma pull_back_contract:
  assumes "is_mat n k M" and "0 < n" and "length J = n"
  shows "pull_back J M = contract n k M J"
  using assms by (simp add: pull_back_def contract_def is_mat_ncols)

lemma pull_back_div:
  assumes "is_mat n k M" and "0 < n" and "length J = n"
  shows "pull_back J (mat_div M c) = map (\<lambda>x. x / c) (contract n k M J)"
proof -
  have "(\<Sum>b<n. \<Sum>a<k. mat_div M c ! b ! a * J ! b ! a ! p)
          = (\<Sum>b<n. \<Sum>a<k. M ! b ! a * J ! b ! a ! p) / c" for p
  proof -
    have "(\<Sum>b<n. \<Sum>a<k. mat_div M c ! b ! a * J ! b ! a ! p)
            = (\<Sum>b<n. \<Sum>a<k. M ! b ! a * J ! b ! a ! p / c)"
      using assms(1)
      by (intro sum.cong refl) (simp add: mat_div_def vec_div_def is_mat_length is_mat_row)
    then show ?thesis by (simp add: sum_divide_distrib)
  qed
  moreover have "is_mat n k (mat_div M c)" using assms(1) by (rule is_mat_mat_div)
  ultimately show ?thesis
    using assms by (simp add: pull_back_def contract_def is_mat_ncols)
qed

subsection \<open>The covariance Jacobian of a batch\<close>

lemma blend_tensor:
  "tensor_add (tensor_scale (1 - beta) x) (tensor_scale beta y) = moving_average_tensor x y beta"
  by (simp add: tensor_add_def tensor_scale_def moving_average_tensor_def mat_add_def
      mat_scale_def moving_average_mat_def vec_add_def vec_scale_def moving_average_vec_def
      moving_average_def zip_map1 zip_map2 case_prod_beta o_def)

lemma tensor_cong:
  "(\<And>i j p. i < n \<Longrightarrow> j < m \<Longrightarrow> p < d \<Longrightarrow> f i j p = g i j p)
     \<Longrightarrow> tensor n m d f = tensor n m d g"
  by (simp add: tensor_def matrix_def)

lemma depth_tensor: "0 < n \<Longrightarrow> 0 < m \<Longrightarrow> depth (tensor n m d f) = d"
  by (simp add: depth_def tensor_def ncols_def matrix_def upt_conv_Cons)

lemma sigma_jac_spin:
  assumes "is_mat n k u" and "is_tensor3 n k d x" and "0 < n"
  shows "tensordot_1 (mat_T u) x
           = tensor k k (depth x) (\<lambda>i j p. \<Sum>b<n. u ! b ! i * x ! b ! j ! p)"
proof -
  have T: "is_mat k n (mat_T u)" using assms(1,3) by (rule is_mat_mat_T)
  have f: "(case x of [] \<Rightarrow> 0 | A # _ \<Rightarrow> length A) = k"
    using assms(2,3) by (rule is_tensor3_first)
  have l: "length x = n" using assms(2) by (simp add: is_tensor3_def)
  have "tensordot_1 (mat_T u) x
          = tensor k k (depth x) (\<lambda>i c p. \<Sum>b<n. mat_T u ! i ! b * x ! b ! c ! p)"
    using T by (simp add: tensordot_1_def f l is_mat_length)
  also have "\<dots> = tensor k k (depth x) (\<lambda>i j p. \<Sum>b<n. u ! b ! i * x ! b ! j ! p)"
    using assms(1,3)
    by (intro tensor_cong sum.cong refl) (simp add: mat_T_nth is_mat_length is_mat_ncols)
  finally show ?thesis .
qed

lemma unit_cotangent:
  assumes "is_mat n k u" and "0 < k" and "i < k" and "j < k" and "b < n" and "c < k"
  shows "matmul u (unit_matrix k i j) ! b ! c = (if c = j then u ! b ! i else 0)"
proof -
  have U: "is_mat k k (unit_matrix k i j)"
    by (simp add: unit_matrix_def is_mat_matrix)
  have "matmul u (unit_matrix k i j) ! b ! c = (\<Sum>t<k. u ! b ! t * unit_matrix k i j ! t ! c)"
    using assms U by (simp add: matmul_nth is_mat_length is_mat_ncols)
  also have "\<dots> = (\<Sum>t<k. if t = i then (if c = j then u ! b ! i else 0) else 0)"
    using assms by (intro sum.cong refl) (simp add: unit_matrix_def matrix_nth)
  also have "\<dots> = (if c = j then u ! b ! i else 0)"
    using assms(3) by simp
  finally show ?thesis .
qed

lemma jacrev_stfn:
  assumes "is_mat n k u" and "0 < n" and "0 < k" and "length J = n"
  shows "jacrev_sigma_from_theta u J
           = tensor k k (depth J) (\<lambda>i j p. 2 * (\<Sum>b<n. u ! b ! i * J ! b ! j ! p) / real n)"
proof -
  have len: "length u = n" and nc: "ncols u = k"
    using assms by (simp_all add: is_mat_length is_mat_ncols)
  have "pull_back J (mat_add (mat_div (matmul u (unit_matrix k i j)) (real n))
                             (mat_div (matmul u (unit_matrix k i j)) (real n))) ! p
          = 2 * (\<Sum>b<n. u ! b ! i * J ! b ! j ! p) / real n"
    if ij: "i < k" "j < k" and p: "p < depth J" for i j p
  proof -
    let ?M = "matmul u (unit_matrix k i j)"
    let ?C = "mat_add (mat_div ?M (real n)) (mat_div ?M (real n))"
    have U: "is_mat k k (unit_matrix k i j)"
      by (simp add: unit_matrix_def is_mat_matrix)
    have M: "is_mat n k ?M" using assms(1) U assms(3) by (rule is_mat_matmul)
    then have D: "is_mat n k (mat_div ?M (real n))" by (rule is_mat_mat_div)
    then have C: "is_mat n k ?C"
      by (auto simp: is_mat_def mat_add_def vec_add_def list_all_length)
    have e: "?C ! b ! c = (if c = j then 2 * u ! b ! i / real n else 0)"
      if "b < n" "c < k" for b c
      using that D M unit_cotangent [OF assms(1,3) ij that]
      by (simp add: mat_add_def vec_add_def mat_div_def vec_div_def is_mat_length is_mat_row)
    have "pull_back J ?C ! p = (\<Sum>b<n. \<Sum>c<k. ?C ! b ! c * J ! b ! c ! p)"
      using C p assms(2,4) by (simp add: pull_back_def is_mat_ncols)
    also have "\<dots> = (\<Sum>b<n. \<Sum>c<k. if c = j then 2 * u ! b ! i / real n * J ! b ! j ! p else 0)"
      by (intro sum.cong refl) (simp add: e)
    also have "\<dots> = (\<Sum>b<n. 2 * u ! b ! i / real n * J ! b ! j ! p)"
      using ij(2) by simp
    also have "\<dots> = 2 * (\<Sum>b<n. u ! b ! i * J ! b ! j ! p) / real n"
      by (simp add: sum_distrib_left sum_divide_distrib mult.assoc)
    finally show ?thesis .
  qed
  then show ?thesis
    unfolding jacrev_sigma_from_theta_def covariance_bwd_eq nc len
    by (intro tensor_cong) simp
qed

subsection \<open>The gradients handed to the optimizer\<close>

lemma negated_mean:
  "vec_scale (- 1) (vec_div (vec_add A (vec_scale 1 B)) c) = map2 (\<lambda>a b. - ((a + b) / c)) A B"
  by (simp add: vec_scale_def vec_div_def vec_add_def case_prod_beta)

lemma spin_gradients:
  assumes u: "u = net_u c params inputs" "is_mat n k u"
    and op: "op = operator_fn c params inputs" "is_mat n k op"
    and len: "length inputs = n" and n: "0 < n" and k: "0 < k"
    and seed: "case fst averages of Arr1 w \<Rightarrow> length w = k | Arr2 A \<Rightarrow> is_mat k k A"
    and A: "A = add_nd (scale_nd (1 - beta) (fst averages)) (mat_scale beta (Sigma_batch k u))"
    and L: "linalg_cholesky A = Some L" "linalg_inv L = Some L_inv"
    and J: "list_all (\<lambda>x. \<exists>d. is_tensor3 n k d x) (net_u_jacobian c params inputs)"
    and Jbar: "Jbar = map2 (\<lambda>x J. moving_average_tensor x
                  (tensor k k (depth J) (\<lambda>i j p. \<Sum>b<n. u ! b ! i * J ! b ! j ! p)) beta)
                (snd averages) (net_u_jacobian c params inputs)"
  shows "masked_gradients c params inputs (fst (evaluate_spin c params inputs averages beta))
           averages beta
    = (map Some (map2 (\<lambda>J y. map2 (\<lambda>a b. - ((a + b) / real n))
               (contract n k (mprod n k k op (pi_term k L_inv)) J)
               (contract k k (sigma_term k L_inv (Lambda_of k L_inv (Pi_batch k op u))) y))
         (net_u_jacobian c params inputs) Jbar),
       Jbar)"
proof -
  note E = evaluate_spin_finite [OF u op len n A L]
  have SB: "is_mat k k (Sigma_batch k u)" by (simp add: Sigma_batch_def is_mat_matrix)
  have "is_mat k k A" unfolding A using SB seed by (rule is_mat_add_nd)
  with L(1) have "is_mat k k L" by (auto dest: is_mat_cholesky simp: is_mat_length)
  with L(2) have Li: "is_mat k k L_inv" by (auto dest: is_mat_inv simp: is_mat_length)
  let ?P = "Pi_batch k op u"
  have P: "is_mat k k ?P" by (rule is_mat_Pi_batch)
  have Lam: "matmul L_inv (matmul ?P (mat_T L_inv)) = Lambda_of k L_inv ?P"
    using Li P k by (rule Lambda_of_matmul(1))
  have LamS: "is_mat k k (Lambda_of k L_inv ?P)"
    by (simp add: Lambda_of_def is_mat_matrix)
  have gp: "matmul (mat_T L_inv) (diag_matrix (diag_of L_inv)) = pi_term k L_inv"
    using Li k by (rule pi_term_code)
  have gpS: "is_mat k k (pi_term k L_inv)" by (simp add: pi_term_def is_mat_matrix)
  have gs: "mat_scale (- 1) (matmul (mat_T L_inv)
              (triu (matmul (Lambda_of k L_inv ?P) (diag_matrix (diag_of L_inv)))))
            = sigma_term k L_inv (Lambda_of k L_inv ?P)"
    unfolding mat_scale_neg using LamS Li k by (rule sigma_term_matmul)
  have gsS: "is_mat k k (sigma_term k L_inv (Lambda_of k L_inv ?P))"
    by (simp add: sigma_term_def is_mat_matrix)
  have a: "tensordot_10 (mat_T (sigma_term k L_inv (Lambda_of k L_inv ?P))) y
             = contract k k (sigma_term k L_inv (Lambda_of k L_inv ?P)) y" for y
    using tensordot_10_mat_T [OF gsS k] tensordot_01_contract [OF gsS k] by simp
  have b: "tensordot_10 (matmul (mat_T (pi_term k L_inv)) (mat_T op)) x
             = contract n k (mprod n k k op (pi_term k L_inv)) x"
    if "length x = n" for x
  proof -
    have "tensordot_10 (matmul (mat_T (pi_term k L_inv)) (mat_T op)) x
            = pull_back x (matmul op (pi_term k L_inv))"
      using gpS op(2) that k n by (rule tensordot_10_pull_back)
    also have "\<dots> = pull_back x (mprod n k k op (pi_term k L_inv))"
      using matmul_mprod [OF op(2) gpS k] by simp
    also have "\<dots> = contract n k (mprod n k k op (pi_term k L_inv)) x"
      using is_mat_mprod n that by (rule pull_back_contract)
    finally show ?thesis .
  qed
  have xs: "length x = n" if "x \<in> set (net_u_jacobian c params inputs)" for x
    using that J by (auto simp: list_all_iff is_tensor3_def)
  have sj: "map (tensordot_1 (mat_T u)) (net_u_jacobian c params inputs)
      = map (\<lambda>J. tensor k k (depth J) (\<lambda>i j p. \<Sum>b<n. u ! b ! i * J ! b ! j ! p))
          (net_u_jacobian c params inputs)"
  proof (rule map_cong [OF refl])
    fix x assume "x \<in> set (net_u_jacobian c params inputs)"
    with J obtain d where "is_tensor3 n k d x" by (auto simp: list_all_iff)
    with u(2) show "tensordot_1 (mat_T u) x
        = tensor k k (depth x) (\<lambda>i j p. \<Sum>b<n. u ! b ! i * x ! b ! j ! p)"
      using n by (rule sigma_jac_spin)
  qed
  have jb: "map2 (\<lambda>x y. tensor_add (tensor_scale (1 - beta) x) (tensor_scale beta y))
              (snd averages) (map (tensordot_1 (mat_T u)) (net_u_jacobian c params inputs))
            = Jbar"
    unfolding Jbar sj blend_tensor by (simp add: zip_map2 case_prod_beta)
  show ?thesis
    unfolding E
    by (simp add: masked_gradients_def Let_def Lam gp gs a len jb)
      (auto simp: negated_mean b dest!: set_zip_leftD xs)
qed

lemma stfn_gradients:
  assumes u: "u = model_apply_jitted c weight_dict batch" "is_mat n k u"
    and h: "h_u = h_fn c weight_dict batch u" "is_mat n k h_u"
    and n: "0 < n" and k: "0 < k" and S: "is_mat k k sigma_t_bar"
    and L: "linalg_cholesky (moving_average_mat sigma_t_bar (Sigma_batch k u) beta) = Some L"
      "linalg_inv L = Some L_inv"
    and Ju: "list_all (\<lambda>x. length x = n) (model_jacobian c weight_dict batch)"
    and Jh: "list_all (\<lambda>x. length x = n) (h_jacobian c weight_dict batch)"
    and Jbar: "Jbar = map2 (\<lambda>x J. moving_average_tensor x
                  (tensor k k (depth J) (\<lambda>i j p. 2 * (\<Sum>b<n. u ! b ! i * J ! b ! j ! p) / real n))
                  beta)
                j_sigma_t_bar (model_jacobian c weight_dict batch)"
    and G: "G = map2 (\<lambda>y JJ. map2 (+)
                 (contract k k (sigma_term k L_inv (Lambda_of k L_inv (Pi_batch k u h_u))) y)
                 (map2 (\<lambda>a b. (a + b) / real n)
                    (contract n k (mprod n k k h_u (pi_term k L_inv)) (fst JJ))
                    (contract n k (mprod n k k u (pi_term k L_inv)) (snd JJ))))
              Jbar (zip (model_jacobian c weight_dict batch) (h_jacobian c weight_dict batch))"
  shows "r_j_sigma_t_bar (stfn_train_step c weight_dict os batch sigma_t_bar j_sigma_t_bar beta
           epoch) = Jbar"
    and "r_opt_state (stfn_train_step c weight_dict os batch sigma_t_bar j_sigma_t_bar beta epoch)
           = snd (opt_update_jitted c (map Some G) os)"
    and "r_weight_dict (stfn_train_step c weight_dict os batch sigma_t_bar j_sigma_t_bar beta epoch)
           = optax_apply_updates c weight_dict (fst (opt_update_jitted c (map Some G) os))"
proof -
  have Sg: "covariance u u = Sigma_batch k u"
    using u(2) n by (rule covariance_Sigma_batch)
  have Pi: "covariance u h_u = Pi_batch k u h_u"
    using u(2) h(2) n by (rule covariance_Pi_batch)
  have "is_mat k k (moving_average_mat sigma_t_bar (Sigma_batch k u) beta)"
    using S by (rule is_mat_moving_average) (simp add: Sigma_batch_def is_mat_matrix)
  with L(1) have "is_mat k k L" by (auto dest: is_mat_cholesky simp: is_mat_length)
  with L(2) have Li: "is_mat k k L_inv" by (auto dest: is_mat_inv simp: is_mat_length)
  let ?P = "Pi_batch k u h_u"
  let ?g = "pi_term k L_inv"
  let ?s = "sigma_term k L_inv (Lambda_of k L_inv ?P)"
  have Lam: "matmul (matmul L_inv ?P) (mat_T L_inv) = Lambda_of k L_inv ?P"
    using Li is_mat_Pi_batch k by (rule Lambda_of_matmul(2))
  have LamS: "is_mat k k (Lambda_of k L_inv ?P)"
    by (simp add: Lambda_of_def is_mat_matrix)
  have gp: "matmul (mat_T L_inv) (diag_matrix (diag_of L_inv)) = ?g"
    using Li k by (rule pi_term_code)
  have gpS: "is_mat k k ?g" by (simp add: pi_term_def is_mat_matrix)
  have T: "is_mat k k (mat_T L_inv)" using Li k by (rule is_mat_mat_T)
  have A: "is_mat k k (triu (matmul (Lambda_of k L_inv ?P) (diag_matrix (diag_of L_inv))))"
  proof -
    have "is_mat k k (diag_matrix (diag_of L_inv))"
      using Li by (simp add: is_mat_diag_matrix length_diag_of)
    with LamS have "is_mat k k (matmul (Lambda_of k L_inv ?P) (diag_matrix (diag_of L_inv)))"
      using k by (rule is_mat_matmul)
    then show ?thesis using k by (rule is_mat_triu)
  qed
  have gs: "matmul (mat_neg (mat_T L_inv))
              (triu (matmul (Lambda_of k L_inv ?P) (diag_matrix (diag_of L_inv)))) = ?s"
    unfolding matmul_mat_neg [OF T A k] using LamS Li k by (rule sigma_term_matmul)
  have gsS: "is_mat k k ?s" by (simp add: sigma_term_def is_mat_matrix)
  have a: "tensordot_01 ?s y = contract k k ?s y" for y
    using gsS k by (rule tensordot_01_contract)
  have len: "length u = n" using u(2) by (rule is_mat_length)
  have v: "vjp_pi_from_theta u h_u J_u J_h ?g
             = map2 (\<lambda>a b. (a + b) / real n)
                 (contract n k (mprod n k k h_u ?g) J_u) (contract n k (mprod n k k u ?g) J_h)"
    if "length J_u = n" "length J_h = n" for J_u J_h
  proof -
    have 1: "pull_back J_u (mat_div (matmul h_u ?g) (real n))
               = map (\<lambda>x. x / real n) (contract n k (mprod n k k h_u ?g) J_u)"
      unfolding matmul_mprod [OF h(2) gpS k] using is_mat_mprod n that(1) by (rule pull_back_div)
    have 2: "pull_back J_h (mat_div (matmul u ?g) (real n))
               = map (\<lambda>x. x / real n) (contract n k (mprod n k k u ?g) J_h)"
      unfolding matmul_mprod [OF u(2) gpS k] using is_mat_mprod n that(2) by (rule pull_back_div)
    show ?thesis
      unfolding vjp_pi_from_theta_eq [OF len] 1 2
      by (simp add: vec_add_def zip_map1 zip_map2 case_prod_beta add_divide_distrib)
  qed
  have jh: "map (jacrev_sigma_from_theta u) (model_jacobian c weight_dict batch)
      = map (\<lambda>J. tensor k k (depth J) (\<lambda>i j p. 2 * (\<Sum>b<n. u ! b ! i * J ! b ! j ! p) / real n))
          (model_jacobian c weight_dict batch)"
  proof (rule map_cong [OF refl])
    fix x assume "x \<in> set (model_jacobian c weight_dict batch)"
    with Ju have "length x = n" by (auto simp: list_all_iff)
    with u(2) n k show "jacrev_sigma_from_theta u x
        = tensor k k (depth x) (\<lambda>i j p. 2 * (\<Sum>b<n. u ! b ! i * x ! b ! j ! p) / real n)"
      by (rule jacrev_stfn)
  qed
  have jb: "map2 (\<lambda>x y. moving_average_tensor x y beta) j_sigma_t_bar
              (map (jacrev_sigma_from_theta u) (model_jacobian c weight_dict batch)) = Jbar"
    unfolding Jbar jh by (simp add: zip_map2 case_prod_beta)
  show "r_j_sigma_t_bar (stfn_train_step c weight_dict os batch sigma_t_bar j_sigma_t_bar beta
           epoch) = Jbar"
    by (simp add: stfn_train_step_j_sigma u(1) [symmetric] jb)
  have grads: "map2 (\<lambda>x. case_option None
                    (\<lambda>loss_pi_grad. Some (vec_add (tensordot_01 ?s x) loss_pi_grad)))
               Jbar
               (map2 (\<lambda>x y. Some (vjp_pi_from_theta u h_u x y
                         (matmul (mat_T L_inv) (diag_matrix (diag_of L_inv)))))
                  (model_jacobian c weight_dict batch) (h_jacobian c weight_dict batch))
      = map Some G"
  proof -
    have el: "length (fst JJ) = n \<and> length (snd JJ) = n"
      if "(y, JJ) \<in> set (zip Jbar (zip (model_jacobian c weight_dict batch)
                                          (h_jacobian c weight_dict batch)))" for y JJ
    proof -
      from that have "JJ \<in> set (zip (model_jacobian c weight_dict batch)
                                      (h_jacobian c weight_dict batch))"
        by (rule set_zip_rightD)
      then have "fst JJ \<in> set (model_jacobian c weight_dict batch)"
        and "snd JJ \<in> set (h_jacobian c weight_dict batch)"
        using set_zip_leftD [of "fst JJ" "snd JJ"] set_zip_rightD [of "fst JJ" "snd JJ"]
        by simp_all
      with Ju Jh show ?thesis by (simp add: list_all_iff)
    qed
    have "map2 (\<lambda>y JJ. Some (vec_add (contract k k ?s y)
                 (vjp_pi_from_theta u h_u (fst JJ) (snd JJ) ?g)))
            Jbar (zip (model_jacobian c weight_dict batch) (h_jacobian c weight_dict batch))
        = map2 (\<lambda>y JJ. Some (map2 (+) (contract k k ?s y)
                 (map2 (\<lambda>a b. (a + b) / real n)
                    (contract n k (mprod n k k h_u ?g) (fst JJ))
                    (contract n k (mprod n k k u ?g) (snd JJ)))))
            Jbar (zip (model_jacobian c weight_dict batch) (h_jacobian c weight_dict batch))"
    proof (rule map2_cong_zip)
      fix y JJ
      assume "(y, JJ) \<in> set (zip Jbar (zip (model_jacobian c weight_dict batch)
                                             (h_jacobian c weight_dict batch)))"
      from el [OF this] have "length (fst JJ) = n" "length (snd JJ) = n" by simp_all
      from v [OF this]
      show "Some (vec_add (contract k k ?s y) (vjp_pi_from_theta u h_u (fst JJ) (snd JJ) ?g))
          = Some (map2 (+) (contract k k ?s y)
                 (map2 (\<lambda>a b. (a + b) / real n)
                    (contract n k (mprod n k k h_u ?g) (fst JJ))
                    (contract n k (mprod n k k u ?g) (snd JJ))))"
        by (simp add: vec_add_def)
    qed
    then show ?thesis
      unfolding G by (simp add: gp a zip_map2 case_prod_beta o_def)
  qed
  show "r_opt_state (stfn_train_step c weight_dict os batch sigma_t_bar j_sigma_t_bar beta epoch)
           = snd (opt_update_jitted c (map Some G) os)"
    using L
    by (simp add: stfn_train_step_def Let_def case_prod_beta u(1) [symmetric] h(1) [symmetric]
        Sg Pi Lam gs jb grads)
  show "r_weight_dict (stfn_train_step c weight_dict os batch sigma_t_bar j_sigma_t_bar beta epoch)
           = optax_apply_updates c weight_dict (fst (opt_update_jitted c (map Some G) os))"
    using L
    by (simp add: stfn_train_step_def Let_def case_prod_beta u(1) [symmetric] h(1) [symmetric]
        Sg Pi Lam gs jb grads)
qed

lemma loss_and_grad_gradients:
  "fst (snd (loss_and_grad c params (inputs, averages, beta)))
     = fst (masked_gradients c params inputs (fst (evaluate_spin c params inputs averages beta))
              averages beta)"
  by (simp add: loss_and_grad_def Let_def case_prod_beta)

lemma loss_and_grad_jac_avg:
  "snd (snd (snd (loss_and_grad c params (inputs, averages, beta))))
     = snd (masked_gradients c params inputs (fst (evaluate_spin c params inputs averages beta))
              averages beta)"
  by (simp add: loss_and_grad_averages)

lemma step_opt_state:
  "fst (snd (step c i s batch))
     = opt_update_fn c i (fst (snd (loss_and_grad c (get_params c s) batch))) s"
  by (simp add: step_def Let_def case_prod_beta)

subsection \<open>The gradients of the instance with two outputs\<close>

lemma lin_jacobians:
  "net_u_jacobian lin_spin [[1]] [[2, 3], [2, - 1]] = [[[[2], [3]], [[2], [- 1]]]]"
  "model_jacobian lin_stfn [[1]] [[2, 3], [2, - 1]] = [[[[2], [3]], [[2], [- 1]]]]"
  "h_jacobian lin_stfn [[1]] [[2, 3], [2, - 1]] = [[[[3], [2]], [[- 1], [2]]]]"
  by (simp_all add: lin_spin_def lin_stfn_def)

lemmas spec_eval = contract_def mprod_def pi_term_def sigma_term_def Lambda_of_def whitened_def
  Pi_batch_def Sigma_batch_def matrix_def tensor_def depth_def ncols_def moving_average_def
  moving_average_vec_def moving_average_mat_def moving_average_tensor_def upt_2 lessThan_Suc
  numeral_2_eq_2

lemma lin_spin_gradient:
  "fst (snd (loss_and_grad lin_spin [[1]]
       ([[2, 3], [2, - 1]], (Arr2 [[4, 2], [2, 5]], [[[[0], [2]], [[- 2], [4]]]]), 1 / 2)))
     = [Some [- 3 / 32]]"
proof -
  let ?av = "(Arr2 [[4, 2], [2, 5]], [[[[0 :: real], [2]], [[- 2], [4]]]])"
  have m: "is_mat 2 2 [[2, 3], [2, - 1]]" "is_mat 2 2 [[3, 2], [- 1, 2]]"
    by (simp_all add: is_mat_def)
  have two: "0 < (2 :: nat)" by simp
  have len: "length [[2, 3], [2, - 1 :: real]] = 2" by simp
  have seed: "case fst ?av of Arr1 w \<Rightarrow> length w = 2 | Arr2 A \<Rightarrow> is_mat 2 2 A"
    by (simp add: is_mat_def)
  have c1: "linalg_cholesky (add_nd (scale_nd (1 - 1 / 2) (fst ?av))
      (mat_scale (1 / 2) (Sigma_batch 2 [[2, 3], [2, - 1]]))) = Some [[2, 0], [1, 2]]"
    by (simp add: lin_Sigma_batch array_eval cholesky_2x2)
  have sh: "list_all (\<lambda>x. \<exists>d. is_tensor3 2 2 d x)
              (net_u_jacobian lin_spin [[1]] [[2, 3], [2, - 1]])"
    by (simp add: lin_jacobians is_tensor3_def is_mat_def exI [of _ 1])
  note g = spin_gradients [OF lin_batch(1) [symmetric] m(1) lin_batch(2) [symmetric] m(2)
      len two two seed refl c1 lin_inv sh refl, unfolded lin_jacobians]
  show ?thesis
    unfolding loss_and_grad_gradients g by (simp add: spec_eval)
qed

lemma lin_spin_step:
  "fst (snd (step lin_spin 0 []
       ([[2, 3], [2, - 1]], (Arr2 [[4, 2], [2, 5]], [[[[0], [2]], [[- 2], [4]]]]), 1 / 2)))
     = [Some [- 3 / 32]]"
proof -
  have g: "get_params lin_spin [] = [[1]]" "opt_update_fn lin_spin 0 G [] = G" for G
    by (simp_all add: lin_spin_def)
  show ?thesis
    by (simp add: step_opt_state g lin_spin_gradient)
qed

lemma lin_spin_fixed_step:
  "fst (snd (step lin_spin_fixed 0 []
       ([[2, 3], [2, - 1]], (Arr2 [[4, 2], [2, 5]], [[[[0], [2]], [[- 2], [4]]]]), 1 / 2)))
     = [Some [- 3 / 32]]"
proof -
  let ?av = "(Arr2 [[4, 2], [2, 5]], [[[[0 :: real], [2]], [[- 2], [4]]]])"
  have g: "get_params lin_spin_fixed [] = [[1]]" "opt_update_fn lin_spin_fixed 0 G [] = G" for G
    by (simp_all add: lin_spin_fixed_def)
  have e: "net_u lin_spin_fixed [[1]] [[2, 3], [2, - 1]] = [[2, 3], [2, - 1]]"
    "operator_fn lin_spin_fixed [[1]] [[2, 3], [2, - 1]] = [[3, 2], [- 1, 2]]"
    "net_u_jacobian lin_spin_fixed [[1]] [[2, 3], [2, - 1]] = [[[[2], [3]], [[2], [- 1]]]]"
    by (simp_all add: lin_spin_fixed_def mat_scale_def vec_scale_def)
  have m: "is_mat 2 2 [[2, 3], [2, - 1]]" "is_mat 2 2 [[3, 2], [- 1, 2]]"
    by (simp_all add: is_mat_def)
  have two: "0 < (2 :: nat)" by simp
  have len: "length [[2, 3], [2, - 1 :: real]] = 2" by simp
  have seed: "case fst ?av of Arr1 w \<Rightarrow> length w = 2 | Arr2 A \<Rightarrow> is_mat 2 2 A"
    by (simp add: is_mat_def)
  have c1: "linalg_cholesky (add_nd (scale_nd (1 - 1 / 2) (fst ?av))
      (mat_scale (1 / 2) (Sigma_batch 2 [[2, 3], [2, - 1]]))) = Some [[2, 0], [1, 2]]"
    by (simp add: lin_Sigma_batch array_eval cholesky_2x2)
  have sh: "list_all (\<lambda>x. \<exists>d. is_tensor3 2 2 d x)
              (net_u_jacobian lin_spin_fixed [[1]] [[2, 3], [2, - 1]])"
    by (simp add: e is_tensor3_def is_mat_def exI [of _ 1])
  note gr = spin_gradients [OF e(1) [symmetric] m(1) e(2) [symmetric] m(2)
      len two two seed refl c1 lin_inv sh refl, unfolded e]
  show ?thesis
    unfolding step_opt_state g loss_and_grad_gradients gr by (simp add: spec_eval)
qed

lemma lin_spin_jac_avg:
  "snd (snd (snd (step lin_spin 0 []
       ([[2, 3], [2, - 1]], (Arr2 [[4, 2], [2, 5]], [[[[0], [2]], [[- 2], [4]]]]), 1 / 2))))
     = [[[[4], [3]], [[1], [7]]]]"
proof -
  let ?av = "(Arr2 [[4, 2], [2, 5]], [[[[0 :: real], [2]], [[- 2], [4]]]])"
  have g: "get_params lin_spin [] = [[1]]" by (simp add: lin_spin_def)
  have m: "is_mat 2 2 [[2, 3], [2, - 1]]" "is_mat 2 2 [[3, 2], [- 1, 2]]"
    by (simp_all add: is_mat_def)
  have two: "0 < (2 :: nat)" by simp
  have len: "length [[2, 3], [2, - 1 :: real]] = 2" by simp
  have seed: "case fst ?av of Arr1 w \<Rightarrow> length w = 2 | Arr2 A \<Rightarrow> is_mat 2 2 A"
    by (simp add: is_mat_def)
  have c1: "linalg_cholesky (add_nd (scale_nd (1 - 1 / 2) (fst ?av))
      (mat_scale (1 / 2) (Sigma_batch 2 [[2, 3], [2, - 1]]))) = Some [[2, 0], [1, 2]]"
    by (simp add: lin_Sigma_batch array_eval cholesky_2x2)
  have sh: "list_all (\<lambda>x. \<exists>d. is_tensor3 2 2 d x)
              (net_u_jacobian lin_spin [[1]] [[2, 3], [2, - 1]])"
    by (simp add: lin_jacobians is_tensor3_def is_mat_def exI [of _ 1])
  note gr = spin_gradients [OF lin_batch(1) [symmetric] m(1) lin_batch(2) [symmetric] m(2)
      len two two seed refl c1 lin_inv sh refl, unfolded lin_jacobians]
  show ?thesis
    unfolding step_averages g loss_and_grad_jac_avg gr by (simp add: spec_eval)
qed

lemma lin_stfn_opt_state:
  "r_opt_state (stfn_train_step lin_stfn [[1]] [] [[2, 3], [2, - 1]] [[4, 2], [2, 5]]
        [[[[0], [2]], [[- 2], [4]]]] (1 / 2) 1)
     = [Some [1 / 2]]"
  "r_j_sigma_t_bar (stfn_train_step lin_stfn [[1]] [] [[2, 3], [2, - 1]] [[4, 2], [2, 5]]
        [[[[0], [2]], [[- 2], [4]]]] (1 / 2) 1)
     = [[[[4], [3]], [[1], [7]]]]"
proof -
  have m: "is_mat 2 2 [[2, 3], [2, - 1]]" "is_mat 2 2 [[3, 2], [- 1, 2]]"
    "is_mat 2 2 [[4, 2], [2, 5]]"
    by (simp_all add: is_mat_def)
  have two: "0 < (2 :: nat)" by simp
  have c2: "linalg_cholesky (moving_average_mat [[4, 2], [2, 5]]
      (Sigma_batch 2 [[2, 3], [2, - 1]]) (1 / 2)) = Some [[2, 0], [1, 2]]"
    by (simp add: lin_Sigma_batch lin_blend lin_cholesky)
  have sh: "list_all (\<lambda>x. length x = 2) (model_jacobian lin_stfn [[1]] [[2, 3], [2, - 1]])"
    "list_all (\<lambda>x. length x = 2) (h_jacobian lin_stfn [[1]] [[2, 3], [2, - 1]])"
    by (simp_all add: lin_jacobians)
  note gr = stfn_gradients [OF lin_batch(3) [symmetric] m(1) lin_batch(4) [symmetric] m(2)
      two two m(3) c2 lin_inv sh refl refl, where os = "[]"
      and j_sigma_t_bar = "[[[[0], [2]], [[- 2], [4]]]]" and epoch = 1, unfolded lin_jacobians]
  show j: "r_j_sigma_t_bar (stfn_train_step lin_stfn [[1]] [] [[2, 3], [2, - 1]] [[4, 2], [2, 5]]
        [[[[0], [2]], [[- 2], [4]]]] (1 / 2) 1)
     = [[[[4], [3]], [[1], [7]]]]"
    unfolding gr(1) by (simp add: spec_eval)
  show "r_opt_state (stfn_train_step lin_stfn [[1]] [] [[2, 3], [2, - 1]] [[4, 2], [2, 5]]
        [[[[0], [2]], [[- 2], [4]]]] (1 / 2) 1)
     = [Some [1 / 2]]"
    unfolding gr(2) by (simp add: spec_eval lin_stfn_def)
qed
section \<open>The factorization and the inverse are what they should be\<close>

subsection \<open>The inverse of a triangular factor\<close>

lemma sum_window:
  fixes f :: "nat \<Rightarrow> real"
  assumes "j \<le> i" and "i < k" and "\<And>t. t < j \<Longrightarrow> f t = 0" and "\<And>t. i < t \<Longrightarrow> t < k \<Longrightarrow> f t = 0"
  shows "(\<Sum>t<k. f t) = (\<Sum>t = j..<i. f t) + f i"
proof -
  have "(\<Sum>t<k. f t) = (\<Sum>t\<in>{j..<Suc i}. f t)"
  proof (rule sum.mono_neutral_right)
    show "finite {..<k}" by simp
    show "{j..<Suc i} \<subseteq> {..<k}" using assms(2) by auto
    show "\<forall>t\<in>{..<k} - {j..<Suc i}. f t = 0"
    proof
      fix t assume "t \<in> {..<k} - {j..<Suc i}"
      then have "t < j \<or> (i < t \<and> t < k)" by auto
      then show "f t = 0" using assms(3,4) by auto
    qed
  qed
  also have "\<dots> = (\<Sum>t = j..<i. f t) + f i"
    using assms(1) by (simp add: sum.atLeastLessThan_Suc)
  finally show ?thesis .
qed

lemma inv_entry_right_inverse:
  assumes low: "lower_triangular k L" and d: "\<And>i. i < k \<Longrightarrow> L ! i ! i \<noteq> 0"
    and i: "i < k" and j: "j < k"
  shows "(\<Sum>t<k. L ! i ! t * inv_entry L t j) = (if i = j then 1 else 0)"
proof -
  let ?f = "\<lambda>t. L ! i ! t * inv_entry L t j"
  have hi: "?f t = 0" if "i < t" "t < k" for t
    using low that i by (simp add: lower_triangular_def)
  have lo: "?f t = 0" if "t < j" for t
    using that by (simp add: inv_entry_upper)
  consider "i < j" | "i = j" | "j < i" by linarith
  then show ?thesis
  proof cases
    case 1
    have "?f t = 0" if "t < k" for t
    proof (cases "t < j")
      case True then show ?thesis by (rule lo)
    next
      case False
      with 1 have "i < t" by simp
      then show ?thesis using that by (rule hi)
    qed
    then have "(\<Sum>t<k. ?f t) = (\<Sum>t<k. 0)"
      by (intro sum.cong refl) simp
    then show ?thesis using 1 by simp
  next
    case 2
    have "(\<Sum>t<k. ?f t) = (\<Sum>t = j..<i. ?f t) + ?f i"
      using _ i lo hi by (rule sum_window) (simp add: 2)
    then show ?thesis using 2 d [OF i] by (simp add: inv_entry_diag)
  next
    case 3
    have "(\<Sum>t<k. ?f t) = (\<Sum>t = j..<i. ?f t) + ?f i"
      using _ i lo hi by (rule sum_window) (use 3 in simp)
    also have "?f i = - (\<Sum>t = j..<i. ?f t)"
      using 3 d [OF i] by (simp add: inv_entry_lower [OF 3])
    finally show ?thesis using 3 by simp
  qed
qed

lemma matmul_inv:
  assumes L: "is_mat k k L" and low: "lower_triangular k L"
    and d: "\<And>i. i < k \<Longrightarrow> L ! i ! i \<noteq> 0"
  shows "linalg_inv L = Some (matrix k k (inv_entry L))"
    and "matmul L (matrix k k (inv_entry L)) = eye k"
proof -
  have len: "length L = k" using L by (rule is_mat_length)
  show "linalg_inv L = Some (matrix k k (inv_entry L))"
    using d by (simp add: linalg_inv_def len list_all_iff)
  show "matmul L (matrix k k (inv_entry L)) = eye k"
  proof (cases "k = 0")
    case True
    then show ?thesis using len by (simp add: matmul_def eye_def matrix_def)
  next
    case False
    then have k: "0 < k" by simp
    have X: "is_mat k k (matrix k k (inv_entry L))" by (rule is_mat_matrix)
    show ?thesis
    proof (rule mat_eqI [where n = k and m = k])
      show "is_mat k k (matmul L (matrix k k (inv_entry L)))"
        using L X k by (rule is_mat_matmul)
      show "is_mat k k (eye k)" by (simp add: eye_def is_mat_matrix)
    next
      fix i j assume ij: "i < k" "j < k"
      have "matmul L (matrix k k (inv_entry L)) ! i ! j
              = (\<Sum>t<k. L ! i ! t * matrix k k (inv_entry L) ! t ! j)"
        using ij X k len by (simp add: matmul_nth is_mat_length is_mat_ncols)
      also have "\<dots> = (\<Sum>t<k. L ! i ! t * inv_entry L t j)"
        using ij by (intro sum.cong refl) (simp add: matrix_nth)
      also have "\<dots> = (if i = j then 1 else 0)"
        using low d ij by (rule inv_entry_right_inverse)
      also have "\<dots> = eye k ! i ! j"
        using ij by (simp add: eye_def matrix_nth)
      finally show "matmul L (matrix k k (inv_entry L)) ! i ! j = eye k ! i ! j" .
    qed
  qed
qed

subsection \<open>The factor\<close>

lemma chol_diag_pivot: "chol_entry A i i = sqrt (chol_pivot A i)"
  by (simp add: chol_entry_diag chol_pivot_def)

lemma chol_diag_pos: "0 < chol_pivot A i \<Longrightarrow> 0 < chol_entry A i i"
  by (simp add: chol_diag_pivot)

lemma chol_row_diag:
  assumes "0 \<le> chol_pivot A i"
  shows "(\<Sum>t<i. (chol_entry A i t)\<^sup>2) + (chol_entry A i i)\<^sup>2 = A ! i ! i"
proof -
  have "(chol_entry A i i)\<^sup>2 = chol_pivot A i"
    using assms by (simp add: chol_diag_pivot)
  then show ?thesis by (simp add: chol_pivot_def)
qed

lemma chol_row_lower:
  assumes "j < i" and "0 < chol_pivot A j"
  shows "(\<Sum>t<j. chol_entry A i t * chol_entry A j t) + chol_entry A i j * chol_entry A j j
           = A ! i ! j"
proof -
  have "chol_entry A j j \<noteq> 0" using chol_diag_pos [OF assms(2)] by simp
  then show ?thesis by (simp add: chol_entry_lower [OF assms(1)])
qed

lemma chol_product_lower:
  assumes piv: "\<And>t. t \<le> j \<Longrightarrow> 0 < chol_pivot A t" and ji: "j \<le> i" and i: "i < k"
  shows "(\<Sum>t<k. chol_entry A i t * chol_entry A j t) = A ! i ! j"
proof -
  let ?f = "\<lambda>t. chol_entry A i t * chol_entry A j t"
  have j: "j < k" using ji i by simp
  have "(\<Sum>t<k. ?f t) = (\<Sum>t = 0..<j. ?f t) + ?f j"
    using _ j
  proof (rule sum_window)
    show "0 \<le> j" by simp
    show "?f t = 0" if "t < 0" for t using that by simp
    show "?f t = 0" if "j < t" "t < k" for t using that by (simp add: chol_entry_upper)
  qed
  then have s: "(\<Sum>t<k. ?f t) = (\<Sum>t<j. ?f t) + ?f j"
    by (simp add: atLeast0LessThan)
  show ?thesis
  proof (cases "j = i")
    case True
    have "0 \<le> chol_pivot A i" using piv [of i] True by simp
    from chol_row_diag [OF this] show ?thesis
      using s True by (simp add: power2_eq_square)
  next
    case False
    then have "j < i" using ji by simp
    from chol_row_lower [OF this piv [OF order_refl]] show ?thesis
      using s by simp
  qed
qed

lemma chol_product:
  assumes piv: "\<And>t. t < k \<Longrightarrow> 0 < chol_pivot A t" and sym: "symmetric k A"
    and i: "i < k" and j: "j < k"
  shows "(\<Sum>t<k. chol_entry A i t * chol_entry A j t) = A ! i ! j"
proof (cases "j \<le> i")
  case True
  show ?thesis
    by (rule chol_product_lower [OF piv True i]) (use True i in simp)
next
  case False
  then have ij: "i \<le> j" by simp
  have "(\<Sum>t<k. chol_entry A i t * chol_entry A j t)
          = (\<Sum>t<k. chol_entry A j t * chol_entry A i t)"
    by (simp add: mult.commute)
  also have "\<dots> = A ! j ! i"
    by (rule chol_product_lower [OF piv ij j]) (use ij j in simp)
  also have "\<dots> = A ! i ! j"
    using sym i j by (simp add: symmetric_def)
  finally show ?thesis .
qed

lemma cholesky_factor:
  assumes A: "is_mat k k A" and sym: "symmetric k A"
    and piv: "\<And>t. t < k \<Longrightarrow> 0 < chol_pivot A t"
  shows "linalg_cholesky A = Some (matrix k k (chol_entry A))"
    and "lower_triangular k (matrix k k (chol_entry A))"
    and "positive_diagonal k (matrix k k (chol_entry A))"
    and "matmul (matrix k k (chol_entry A)) (mat_T (matrix k k (chol_entry A))) = A"
proof -
  let ?L = "matrix k k (chol_entry A)"
  have len: "length A = k" using A by (rule is_mat_length)
  show "linalg_cholesky A = Some ?L"
    using piv by (simp add: linalg_cholesky_def len list_all_iff)
  show "lower_triangular k ?L"
    by (simp add: lower_triangular_def matrix_nth chol_entry_upper)
  show "positive_diagonal k ?L"
    using piv by (simp add: positive_diagonal_def matrix_nth chol_diag_pos)
  show "matmul ?L (mat_T ?L) = A"
  proof (cases "k = 0")
    case True
    then show ?thesis using len by (simp add: matmul_def matrix_def)
  next
    case False
    then have k: "0 < k" by simp
    have L: "is_mat k k ?L" by (rule is_mat_matrix)
    then have T: "is_mat k k (mat_T ?L)" using k by (rule is_mat_mat_T)
    show ?thesis
    proof (rule mat_eqI [where n = k and m = k])
      show "is_mat k k (matmul ?L (mat_T ?L))" using L T k by (rule is_mat_matmul)
      show "is_mat k k A" by (rule A)
    next
      fix i j assume ij: "i < k" "j < k"
      have "matmul ?L (mat_T ?L) ! i ! j = (\<Sum>t<k. ?L ! i ! t * mat_T ?L ! t ! j)"
        using ij L T k by (simp add: matmul_nth is_mat_length is_mat_ncols)
      also have "\<dots> = (\<Sum>t<k. chol_entry A i t * chol_entry A j t)"
        using ij L k
        by (intro sum.cong refl) (simp add: mat_T_nth matrix_nth is_mat_length is_mat_ncols)
      also have "\<dots> = A ! i ! j"
        using piv sym ij by (rule chol_product)
      finally show "matmul ?L (mat_T ?L) ! i ! j = A ! i ! j" .
    qed
  qed
qed

subsection \<open>A positive-definite matrix has positive pivots\<close>

text \<open>An upper-triangular system with a non-zero diagonal has a solution.\<close>

lemma upper_solve:
  fixes M :: "nat \<Rightarrow> nat \<Rightarrow> real"
  assumes "\<And>r. r < n \<Longrightarrow> M r r \<noteq> 0" and "\<And>t r. t < r \<Longrightarrow> r < n \<Longrightarrow> M t r = 0"
  shows "\<exists>y. \<forall>r<n. (\<Sum>t<n. M t r * y t) = b r"
  using assms
proof (induction n arbitrary: b)
  case 0
  show ?case by simp
next
  case (Suc n)
  define yn where "yn = b n / M n n"
  have "\<exists>y. \<forall>r<n. (\<Sum>t<n. M t r * y t) = b r - M n r * yn"
    by (rule Suc.IH) (use Suc.prems in auto)
  then obtain y where y: "\<And>r. r < n \<Longrightarrow> (\<Sum>t<n. M t r * y t) = b r - M n r * yn"
    by blast
  have "(\<Sum>t<Suc n. M t r * (y(n := yn)) t) = b r" if r: "r < Suc n" for r
  proof (cases "r < n")
    case True
    have "(\<Sum>t<n. M t r * (y(n := yn)) t) = (\<Sum>t<n. M t r * y t)"
      by (intro sum.cong refl) simp
    with y [OF True] show ?thesis by simp
  next
    case False
    with r have rn: "r = n" by simp
    have "(\<Sum>t<n. M t n * (y(n := yn)) t) = (\<Sum>t<n. 0)"
      by (intro sum.cong refl) (simp add: Suc.prems(2))
    moreover have "M n n \<noteq> 0" by (rule Suc.prems(1)) simp
    ultimately show ?thesis by (simp add: rn yn_def)
  qed
  then show ?case by blast
qed

lemma sum_restrict:
  fixes g :: "nat \<Rightarrow> real"
  assumes "m \<le> k" and "\<And>s. m \<le> s \<Longrightarrow> s < k \<Longrightarrow> g s = 0"
  shows "(\<Sum>s<k. g s) = (\<Sum>s<m. g s)"
proof (rule sum.mono_neutral_right)
  show "finite {..<k}" by simp
  show "{..<m} \<subseteq> {..<k}" using assms(1) by auto
  show "\<forall>s\<in>{..<k} - {..<m}. g s = 0" using assms(2) by auto
qed

lemma symmetric_le: "symmetric k A \<Longrightarrow> i \<le> k \<Longrightarrow> symmetric i A"
  by (simp add: symmetric_def)

lemma quad_form_pivot:
  assumes sym: "symmetric k A" and i: "i < k"
    and piv: "\<And>j. j < i \<Longrightarrow> 0 < chol_pivot A j"
  shows "\<exists>x. x i = 1 \<and> quad_form k A x = chol_pivot A i"
proof -
  let ?l = "chol_entry A"
  have d: "?l r r \<noteq> 0" if "r < i" for r
    using chol_diag_pos [OF piv [OF that]] by simp
  have "\<exists>y. \<forall>r<i. (\<Sum>t<i. ?l t r * y t) = ?l i r"
    by (rule upper_solve) (simp_all add: d chol_entry_upper)
  then obtain y where y: "\<And>r. r < i \<Longrightarrow> (\<Sum>t<i. ?l t r * y t) = ?l i r"
    by blast
  define x where "x s = (if s < i then - y s else if s = i then 1 else 0)" for s
  have xi: "x i = 1" by (simp add: x_def)
  have xs: "x s = - y s" if "s < i" for s using that by (simp add: x_def)
  have x0: "x s = 0" if "i < s" for s using that by (simp add: x_def)
  have A1: "A ! s ! t = (\<Sum>r<i. ?l s r * ?l t r)" if "s < i" "t < i" for s t
  proof -
    have "symmetric i A" using sym i by (simp add: symmetric_le)
    with piv have "(\<Sum>r<i. ?l s r * ?l t r) = A ! s ! t"
      using that by (intro chol_product) simp_all
    then show ?thesis by simp
  qed
  have A2: "A ! i ! t = (\<Sum>r<i. ?l i r * ?l t r)" if "t < i" for t
  proof -
    have "(\<Sum>r<Suc i. ?l i r * ?l t r) = A ! i ! t"
      by (rule chol_product_lower) (use that piv in simp_all)
    then show ?thesis using that by (simp add: chol_entry_upper)
  qed
  have A3: "A ! s ! i = A ! i ! s" if "s < i" for s
    using sym i that by (simp add: symmetric_def)
  let ?S = "\<Sum>r<i. ?l i r * ?l i r"
  have S1: "(\<Sum>s<i. \<Sum>t<i. y s * A ! s ! t * y t) = ?S"
  proof -
    have "(\<Sum>s<i. \<Sum>t<i. y s * A ! s ! t * y t)
            = (\<Sum>s<i. \<Sum>t<i. \<Sum>r<i. (?l s r * y s) * (?l t r * y t))"
      by (intro sum.cong refl) (simp add: A1 sum_distrib_left sum_distrib_right mult_ac)
    also have "\<dots> = (\<Sum>s<i. \<Sum>r<i. \<Sum>t<i. (?l s r * y s) * (?l t r * y t))"
      by (rule sum.cong [OF refl]) (rule sum.swap)
    also have "\<dots> = (\<Sum>r<i. \<Sum>s<i. \<Sum>t<i. (?l s r * y s) * (?l t r * y t))"
      by (rule sum.swap)
    also have "\<dots> = (\<Sum>r<i. (\<Sum>s<i. ?l s r * y s) * (\<Sum>t<i. ?l t r * y t))"
      by (simp add: sum_product)
    also have "\<dots> = ?S"
      by (intro sum.cong refl) (simp add: y)
    finally show ?thesis .
  qed
  have S2: "(\<Sum>t<i. A ! i ! t * y t) = ?S"
  proof -
    have "(\<Sum>t<i. A ! i ! t * y t) = (\<Sum>t<i. \<Sum>r<i. ?l i r * (?l t r * y t))"
      by (intro sum.cong refl) (simp add: A2 sum_distrib_left sum_distrib_right mult_ac)
    also have "\<dots> = (\<Sum>r<i. \<Sum>t<i. ?l i r * (?l t r * y t))"
      by (rule sum.swap)
    also have "\<dots> = (\<Sum>r<i. ?l i r * (\<Sum>t<i. ?l t r * y t))"
      by (simp add: sum_distrib_left)
    also have "\<dots> = ?S"
      by (intro sum.cong refl) (simp add: y)
    finally show ?thesis .
  qed
  have S3: "(\<Sum>s<i. y s * A ! s ! i) = ?S"
  proof -
    have "(\<Sum>s<i. y s * A ! s ! i) = (\<Sum>t<i. A ! i ! t * y t)"
      by (intro sum.cong refl) (simp add: A3 mult.commute)
    then show ?thesis by (simp add: S2)
  qed
  have Q1: "quad_form k A x = (\<Sum>s<Suc i. \<Sum>t<Suc i. x s * A ! s ! t * x t)"
  proof -
    have inner: "(\<Sum>t<k. x s * A ! s ! t * x t) = (\<Sum>t<Suc i. x s * A ! s ! t * x t)" for s
      by (rule sum_restrict) (use i in \<open>simp_all add: x0\<close>)
    have "(\<Sum>s<k. \<Sum>t<Suc i. x s * A ! s ! t * x t) = (\<Sum>s<Suc i. \<Sum>t<Suc i. x s * A ! s ! t * x t)"
      by (rule sum_restrict) (use i in \<open>simp_all add: x0\<close>)
    then show ?thesis by (simp add: quad_form_def inner)
  qed
  have row: "(\<Sum>t<Suc i. x s * A ! s ! t * x t) = (\<Sum>t<i. y s * A ! s ! t * y t) - y s * A ! s ! i"
    if "s < i" for s
  proof -
    have "(\<Sum>t<i. x s * A ! s ! t * x t) = (\<Sum>t<i. y s * A ! s ! t * y t)"
      by (intro sum.cong refl) (simp add: xs that)
    then show ?thesis by (simp add: xi xs that)
  qed
  have last: "(\<Sum>t<Suc i. x i * A ! i ! t * x t) = - (\<Sum>t<i. A ! i ! t * y t) + A ! i ! i"
  proof -
    have "(\<Sum>t<i. x i * A ! i ! t * x t) = (\<Sum>t<i. - (A ! i ! t * y t))"
      by (intro sum.cong refl) (simp add: xs xi)
    then show ?thesis by (simp add: xi sum_negf)
  qed
  have rows: "(\<Sum>s<i. \<Sum>t<Suc i. x s * A ! s ! t * x t)
               = (\<Sum>s<i. (\<Sum>t<i. y s * A ! s ! t * y t) - y s * A ! s ! i)"
    by (rule sum.cong [OF refl]) (rule row, simp)
  have "quad_form k A x
          = (\<Sum>s<i. \<Sum>t<Suc i. x s * A ! s ! t * x t) + (\<Sum>t<Suc i. x i * A ! i ! t * x t)"
    unfolding Q1 by (rule sum.lessThan_Suc)
  also have "\<dots> = (\<Sum>s<i. (\<Sum>t<i. y s * A ! s ! t * y t) - y s * A ! s ! i)
            + (- (\<Sum>t<i. A ! i ! t * y t) + A ! i ! i)"
    by (simp only: rows last)
  also have "\<dots> = ?S - ?S - ?S + A ! i ! i"
    by (simp add: sum_subtractf S1 S2 S3)
  also have "\<dots> = chol_pivot A i"
    by (simp add: chol_pivot_def power2_eq_square)
  finally have "quad_form k A x = chol_pivot A i" .
  with xi show ?thesis by blast
qed

lemma positive_definite_pivots:
  assumes "positive_definite k A" and "i < k"
  shows "0 < chol_pivot A i"
  using assms(2)
proof (induction i rule: less_induct)
  case (less i)
  from assms(1) have sym: "symmetric k A"
    and pd: "\<And>x. \<exists>i<k. x i \<noteq> 0 \<Longrightarrow> 0 < quad_form k A x"
    by (simp_all add: positive_definite_def)
  have "\<exists>x. x i = 1 \<and> quad_form k A x = chol_pivot A i"
    using sym less.prems
  proof (rule quad_form_pivot)
    fix j assume "j < i"
    then show "0 < chol_pivot A j" using less.IH less.prems by simp
  qed
  then obtain x where x: "x i = 1" "quad_form k A x = chol_pivot A i" by blast
  have "\<exists>i<k. x i \<noteq> 0" using x(1) less.prems by force
  from pd [OF this] show ?case by (simp add: x(2))
qed

subsection \<open>A matrix with positive pivots is positive definite\<close>





subsection \<open>The whitening transform\<close>

lemma whitening:
  assumes "positive_definite k A"
  shows "\<exists>L L_inv. linalg_cholesky A = Some L \<and> linalg_inv L = Some L_inv
           \<and> is_mat k k L \<and> lower_triangular k L \<and> positive_diagonal k L
           \<and> matmul L (mat_T L) = A \<and> matmul L L_inv = eye k"
proof -
  let ?L = "matrix k k (chol_entry A)"
  from assms have A: "is_mat k k A" and sym: "symmetric k A"
    by (simp_all add: positive_definite_def)
  have piv: "\<And>t. t < k \<Longrightarrow> 0 < chol_pivot A t"
    using assms by (rule positive_definite_pivots)
  note f = cholesky_factor [OF A sym piv]
  have L: "is_mat k k ?L" by (rule is_mat_matrix)
  have d: "?L ! i ! i \<noteq> 0" if "i < k" for i
    using f(3) that by (auto simp: positive_diagonal_def)
  note i = matmul_inv [OF L f(2) d]
  show ?thesis
    using f i L by blast
qed

lemma evaluate_spin_choli:
  "fst (snd (fst (evaluate_spin c params inputs averages beta)))
     = (case linalg_cholesky (snd (evaluate_spin c params inputs averages beta)) of
          None \<Rightarrow> None | Some L \<Rightarrow> linalg_inv L)"
  by (simp add: evaluate_spin_def Let_def)

lemma stfn_train_step_L_inv':
  "r_L_inv (stfn_train_step c weight_dict os batch sigma_t_bar j_sigma_t_bar beta epoch)
     = (case linalg_cholesky (r_sigma_t_bar (stfn_train_step c weight_dict os batch sigma_t_bar
              j_sigma_t_bar beta epoch)) of
          None \<Rightarrow> None | Some L \<Rightarrow> linalg_inv L)"
  by (simp add: stfn_train_step_L_inv stfn_train_step_sigma)

lemma ex_positive_definite: "positive_definite 2 [[2, 1], [1, 5 / 2]]"
  unfolding positive_definite_def
proof (intro conjI allI impI)
  show "is_mat 2 2 [[2, 1], [1, 5 / 2]]" by (simp add: is_mat_def)
  show "symmetric 2 [[2, 1], [1, 5 / 2]]"
    by (auto simp: symmetric_def less_Suc_eq numeral_2_eq_2)
next
  fix x :: "nat \<Rightarrow> real"
  assume "\<exists>i<2. x i \<noteq> 0"
  then have nz: "x 0 \<noteq> 0 \<or> x 1 \<noteq> 0"
    by (auto simp: less_Suc_eq numeral_2_eq_2)
  have q: "quad_form 2 [[2, 1], [1, 5 / 2]] x = (x 0)\<^sup>2 + (x 0 + x 1)\<^sup>2 + 3 / 2 * (x 1)\<^sup>2"
    by (simp add: quad_form_def numeral_2_eq_2 power2_eq_square algebra_simps)
  have "0 < (x 0)\<^sup>2 + 3 / 2 * (x 1)\<^sup>2"
    using nz by (auto intro: add_pos_nonneg add_nonneg_pos)
  moreover have "0 \<le> (x 0 + x 1)\<^sup>2" by simp
  ultimately show "0 < quad_form 2 [[2, 1], [1, 5 / 2]] x"
    unfolding q by linarith
qed

lemma ex_stfn_sigma:
  "r_sigma_t_bar (stfn_train_step ex_stfn [[0]] [] [[2, 1], [0, 2]] (eye 2) [zeros3 2 2 1] 1 1)
     = [[2, 1], [1, 5 / 2]]"
  by (simp add: stfn_train_step_sigma ex_stfn_def covariance_def array_eval numeral_2_eq_2
      lessThan_Suc)

lemma ex_spin_sigma:
  "snd (evaluate_spin ex_spin [[0]] [[2, 1], [0, 2]] (Arr1 [1, 1], [zeros3 2 2 1]) 1)
     = [[2, 1], [1, 5 / 2]]"
  by (simp add: evaluate_spin_sigma ex_spin_def array_eval numeral_2_eq_2 lessThan_Suc)

subsection \<open>A failed factorization\<close>














section \<open>The global name in \<open>calculate_masked_gradient\<close>\<close>

lemma masked_gradient_loop_NameError:
  "masked_gradient_loop A beta del st = Inl NameError
     \<longleftrightarrow> global_j_sigma_t_bar st = None \<and> del \<noteq> []"
proof (induction del arbitrary: st)
  case Nil
  show ?case by simp
next
  case (Cons kv rest)
  obtain key kern where kv: "kv = (key, kern)" by (cases kv)
  show ?case
  proof (cases "global_j_sigma_t_bar st")
    case None
    then show ?thesis by (simp add: kv)
  next
    case (Some r)
    show ?thesis
    proof (cases "heap st r key")
      case None
      with Some show ?thesis by (simp add: kv)
    next
      case old: (Some old)
      define st' where "st' = st\<lparr>heap := (heap st)(r := (heap st r)(key \<mapsto>
        (case (old, map_option (\<lambda>(A_1, A_2). einsum_mean A_2 kern) A) of
           (Some x, Some y) \<Rightarrow> Some (moving_average_vec x y beta) | _ \<Rightarrow> None)))\<rparr>"
      have g: "global_j_sigma_t_bar st' = Some r" by (simp add: st'_def Some)
      have "masked_gradient_loop A beta rest st' \<noteq> Inl NameError"
        using Cons.IH [of st'] g by simp
      then show ?thesis
        using Some old by (auto simp: kv Let_def st'_def split: sum.splits)
    qed
  qed
qed

text \<open>
  C9 (as amended). \<open>calculate_masked_gradient\<close> fails with a \<open>NameError\<close> exactly when
  the module has no global named \<open>j_sigma_t_bar\<close> and the Jacobian dictionary has at
  least one layer key. With the global bound it does not fail that way; the script's
  main block binds it before the first call.
\<close>

theorem calculate_masked_gradient_NameError:
  "calculate_masked_gradient del_u_del_weights pred h_u sigma_t_bar beta st = Inl NameError
     \<longleftrightarrow> global_j_sigma_t_bar st = None \<and> del_u_del_weights \<noteq> []"
  unfolding calculate_masked_gradient_def Let_def
  by (rule masked_gradient_loop_NameError)

text \<open>
  The claim, that every call fails, is false in the state the main block sets up: one
  layer, a batch of one point, one eigenfunction; the call returns the gradient.
\<close>

theorem calculate_masked_gradient_counterexample:
  "map_sum id fst (calculate_masked_gradient [(''Dense_0'', [[[1]]])] [[2]] [[1]]
          (main_sigma_t_bar 1) 1 (main_module_state [(''Dense_0'', [5])]))
       = Inr [(''Dense_0'', Some [0])]"
  by (simp add: calculate_masked_gradient_def main_sigma_t_bar_def main_module_state_def
      cholesky_1x1 inv_1x1 einsum_mean_def array_eval)

section \<open>The averages a step returns\<close>

lemma spin_train_step_sigma:
  assumes "spin_train_step c weight_dict opt_state batch sigma_t_bar j_sigma_t_bar beta st
             = Inr ((weight_dict', energies, sigma', j'), st')"
  shows "sigma' = sigma_t_bar" and "j' = j_sigma_t_bar"
  using assms
  by (simp_all add: spin_train_step_def Let_def case_prod_beta split: sum.splits)

text \<open>
  C4, at a failing input of \<open>train_step\<close> in \<open>train_spin.py\<close>: with the seed
  \<open>sigma_t_bar = eye(1)\<close>, a batch whose network output is \<open>[[3]]\<close> and \<open>beta = 3/8\<close>,
  the blend is \<open>[[4]]\<close> (and it is what the step factorizes), yet the step returns the
  seed \<open>[[1]]\<close>: the blended value never leaves \<open>calculate_masked_gradient\<close>.
\<close>

theorem spin_train_step_returns_stale_sigma:
  "map_sum id (\<lambda>((w, e, s, j), st). s)
     (spin_train_step
        \<lparr>model_apply = (\<lambda>w b. [[3]]), model_jacrev = (\<lambda>w b. [(''Dense_0'', [[[1]]])]),
         hamiltonian_operator = (\<lambda>w b. [[1]]), opt_update = (\<lambda>g s. ((), s)),
         apply_updates = (\<lambda>w u. w)\<rparr>
        () () [[0]] (main_sigma_t_bar 1) 0 (3 / 8) (main_module_state [(''Dense_0'', [5])]))
     = Inr [[1]]
   \<and> moving_average_mat (main_sigma_t_bar 1) (mean_outer [[3]] [[3]]) (3 / 8) = [[4]]"
  by (simp add: spin_train_step_def calculate_masked_gradient_def main_sigma_t_bar_def
      main_module_state_def cholesky_1x1 inv_1x1 einsum_mean_def array_eval)

section \<open>The first iteration\<close>

text \<open>
  C3 (as amended). In \<open>SpIN.train\<close> of \<open>jax_spin.py\<close> the iteration that finds the
  object's counter at 0 runs with \<open>beta = 1\<close>, and the covariance average it leaves is
  the covariance \<open>u\<^sup>T u / n\<close> of its batch, whatever the seed (a vector of \<open>k\<close> entries
  or a \<open>k \<times> k\<close> matrix); every later iteration runs with the configured \<open>self.beta\<close>.
  \<open>start_training\<close> of \<open>stfn_training.py\<close> has no such rule: its first epoch blends the
  identity seed with the batch covariance by the configured \<open>moving_average_beta\<close>.
\<close>

theorem cold_start:
  assumes "averages_var v = (seed, J)"
    and "is_mat (length (dataset (position v))) k
           (net_u c (get_params c (self_opt_state (object v))) (dataset (position v)))"
    and "dataset (position v) \<noteq> []"
    and "case seed of Arr1 w \<Rightarrow> length w = k | Arr2 A \<Rightarrow> is_mat k k A"
  shows "(itercount (object v) = 0 \<longrightarrow>
            beta_var (train_iteration c self dataset v) = Bound 1
          \<and> fst (averages_var (train_iteration c self dataset v))
              = Arr2 (mat_div
                    (matmul (mat_T (net_u c (get_params c (self_opt_state (object v)))
                                      (dataset (position v))))
                            (net_u c (get_params c (self_opt_state (object v)))
                               (dataset (position v))))
                    (real (length (dataset (position v))))))
       \<and> (0 < itercount (object v) \<longrightarrow>
            beta_var (train_iteration c self dataset v) = Bound (SpIN_beta self)
          \<and> averages_var (train_iteration c self dataset v)
              = snd (snd (step c (itercount (object v)) (self_opt_state (object v))
                         (dataset (position v), (seed, J), SpIN_beta self))))
       \<and> s_sigma_t_bar (stfn_epoch c' self' batches (stfn_initial_state self' weight_dict os) epoch)
           = moving_average_mat (eye (n_eigenfuncs self'))
               (covariance (model_apply_jitted c' weight_dict (batches epoch))
                           (model_apply_jitted c' weight_dict (batches epoch)))
               (moving_average_beta self')"
proof (intro conjI impI)
  let ?s = "self_opt_state (object v)"
  show "beta_var (train_iteration c self dataset v) = Bound 1" if "itercount (object v) = 0"
    using that by (simp add: train_iteration_beta)
  show "beta_var (train_iteration c self dataset v) = Bound (SpIN_beta self)"
    if "0 < itercount (object v)"
    using that by (simp add: train_iteration_beta)
  show "averages_var (train_iteration c self dataset v)
          = snd (snd (step c (itercount (object v)) ?s
                     (dataset (position v), (seed, J), SpIN_beta self)))"
    if "0 < itercount (object v)"
    using that assms(1) by (simp add: train_iteration_averages)
  show "fst (averages_var (train_iteration c self dataset v))
          = Arr2 (mat_div
                (matmul (mat_T (net_u c (get_params c ?s) (dataset (position v))))
                        (net_u c (get_params c ?s) (dataset (position v))))
                (real (length (dataset (position v)))))"
    if "itercount (object v) = 0"
  proof -
    let ?u = "net_u c (get_params c ?s) (dataset (position v))"
    let ?S = "mat_div (matmul (mat_T ?u) ?u) (real (length (dataset (position v))))"
    from assms(3) have n: "0 < length (dataset (position v))" by simp
    have "is_mat k k ?S" using assms(2) n by (rule is_mat_gram)
    then have "add_nd (scale_nd 0 seed) (mat_scale 1 ?S) = ?S"
      using assms(4) by (rule blend_cold_start)
    then show ?thesis
      using that assms(1)
      by (simp add: train_iteration_averages step_averages loss_and_grad_averages
          evaluate_spin_sigma)
  qed
  show "s_sigma_t_bar (stfn_epoch c' self' batches (stfn_initial_state self' weight_dict os) epoch)
           = moving_average_mat (eye (n_eigenfuncs self'))
               (covariance (model_apply_jitted c' weight_dict (batches epoch))
                           (model_apply_jitted c' weight_dict (batches epoch)))
               (moving_average_beta self')"
    by (simp add: stfn_epoch_sigma(1) stfn_initial_state_def stfn_train_step_sigma)
qed

theorem cold_start_witness:
  "fst (averages_var (train_iteration ex_spin \<lparr>SpIN_beta = 1 / 2, SpIN_neig = 1\<rparr>
       (\<lambda>i. [[2]]) (ex_locals 0 (Arr1 [1]))))
     = Arr2 [[4]]
   \<and> beta_var (train_iteration ex_spin \<lparr>SpIN_beta = 1 / 2, SpIN_neig = 1\<rparr>
       (\<lambda>i. [[2]]) (ex_locals 1 (Arr2 [[4]])))
     = Bound (1 / 2)"
proof -
  have h: "averages_var (ex_locals cnt seed) = (seed, [[[[0]]]])"
    "is_mat (length ((\<lambda>i. [[2]]) (position (ex_locals cnt seed)))) 1
       (net_u ex_spin (get_params ex_spin (self_opt_state (object (ex_locals cnt seed))))
          ((\<lambda>i. [[2]]) (position (ex_locals cnt seed))))"
    "(\<lambda>i. [[2]]) (position (ex_locals cnt seed)) \<noteq> []" for cnt seed
    by (simp_all add: ex_locals_def ex_spin_def is_mat_def)
  have s0: "case Arr1 [1] of Arr1 w \<Rightarrow> length w = 1 | Arr2 A \<Rightarrow> is_mat 1 1 A" by simp
  have s1: "case Arr2 [[4]] of Arr1 w \<Rightarrow> length w = 1 | Arr2 A \<Rightarrow> is_mat 1 1 A"
    by (simp add: is_mat_def)
  note first = cold_start [where v = "ex_locals 0 (Arr1 [1])" and dataset = "\<lambda>i. [[2]]"
      and c = ex_spin and self = "\<lparr>SpIN_beta = 1 / 2, SpIN_neig = 1\<rparr>",
      OF h(1) h(2) h(3) s0, THEN conjunct1]
  note later = cold_start [where v = "ex_locals 1 (Arr2 [[4]])" and dataset = "\<lambda>i. [[2]]"
      and c = ex_spin and self = "\<lparr>SpIN_beta = 1 / 2, SpIN_neig = 1\<rparr>",
      OF h(1) h(2) h(3) s1, THEN conjunct2, THEN conjunct1]
  from first have a: "fst (averages_var (train_iteration ex_spin
       \<lparr>SpIN_beta = 1 / 2, SpIN_neig = 1\<rparr> (\<lambda>i. [[2]]) (ex_locals 0 (Arr1 [1]))))
     = Arr2 [[4]]"
    by (simp add: ex_locals_def ex_spin_def array_eval mat_div_def vec_div_def)
  from later have b: "beta_var (train_iteration ex_spin \<lparr>SpIN_beta = 1 / 2, SpIN_neig = 1\<rparr>
       (\<lambda>i. [[2]]) (ex_locals 1 (Arr2 [[4]])))
     = Bound (1 / 2)"
    by (simp add: ex_locals_def)
  from a b show ?thesis by (rule conjI)
qed

theorem cold_start_counterexample:
  "s_sigma_t_bar (start_training ex_stfn
       \<lparr>n_eigenfuncs = 1, moving_average_beta = 3 / 8, num_epochs = 1\<rparr>
       [[0]] [] (\<lambda>epoch. [[3]]) None)
     = [[4]]
   \<and> covariance [[3]] [[3]] = [[9]]"
  by (simp add: start_training_def stfn_epoch_sigma(1)
      stfn_initial_state_def stfn_train_step_sigma covariance_def ex_stfn_def array_eval)
section \<open>The initial averages\<close>

text \<open>
  C6 (as amended). \<open>start_training\<close> of \<open>stfn_training.py\<close> enters its loop with the
  covariance average at the \<open>k \<times> k\<close> identity and, for every leaf of the weights, a zero
  array of shape \<open>(k, k)\<close> followed by the shape of the leaf. \<open>SpIN.train\<close> of
  \<open>jax_spin.py\<close> enters its loop with the covariance average at \<open>np.ones(neig)\<close>, a
  vector of \<open>neig\<close> ones and not the identity, and with zero arrays of shape \<open>(k, k)\<close>
  followed by the shape of the leaf for the Jacobian average.
\<close>

theorem initial_averages:
  assumes "is_mat n k (net_u c (get_params c (self_opt_state st)) (dataset 0))" and "0 < n"
    and "list_all (\<lambda>x. \<exists>p. is_tensor3 n k p x)
           (net_u_jacobian c (get_params c (self_opt_state st)) (dataset 0))"
  shows "start_training c' self' weight_dict os batches callback
           = stfn_epochs c' self' batches callback [1..<num_epochs self' + 1]
               (stfn_initial_state self' weight_dict os)
       \<and> s_sigma_t_bar (stfn_initial_state self' weight_dict os) = eye (n_eigenfuncs self')
       \<and> s_j_sigma_t_bar (stfn_initial_state self' weight_dict os)
           = map (\<lambda>x. zeros3 (n_eigenfuncs self') (n_eigenfuncs self') (length x)) weight_dict
       \<and> averages_var (train_init c self dataset st)
           = (Arr1 (replicate (SpIN_neig self) 1),
              map (\<lambda>x. zeros3 k k (depth x))
                (net_u_jacobian c (get_params c (self_opt_state st)) (dataset 0)))"
  using assms
  by (simp add: start_training_def stfn_initial_state_def train_init_def init_sigma_jac_zeros)

theorem initial_averages_witness:
  "averages_var (train_init ex_spin \<lparr>SpIN_beta = 1, SpIN_neig = 2\<rparr> (\<lambda>i. [[2, 3]])
        \<lparr>self_opt_state = [], itercount = 0, loss_log = [], evals_log = []\<rparr>)
     = (Arr1 [1, 1], [[[[0], [0]], [[0], [0]]]])"
proof -
  have "averages_var (train_init ex_spin \<lparr>SpIN_beta = 1, SpIN_neig = 2\<rparr> (\<lambda>i. [[2, 3]])
        \<lparr>self_opt_state = [], itercount = 0, loss_log = [], evals_log = []\<rparr>)
     = (Arr1 (replicate (SpIN_neig \<lparr>SpIN_beta = 1, SpIN_neig = 2\<rparr>) 1),
        map (\<lambda>x. zeros3 2 2 (depth x)) (net_u_jacobian ex_spin (get_params ex_spin
           (self_opt_state \<lparr>self_opt_state = [], itercount = 0, loss_log = [],
              evals_log = []\<rparr>)) [[2, 3]]))"
    using initial_averages [where st = "\<lparr>self_opt_state = [], itercount = 0, loss_log = [],
        evals_log = []\<rparr>" and c = ex_spin and dataset = "\<lambda>i. [[2, 3]]" and n = 1
        and k = 2 and self = "\<lparr>SpIN_beta = 1, SpIN_neig = 2\<rparr>", THEN conjunct2, THEN conjunct2,
        THEN conjunct2]
    by (simp add: ex_spin_def is_mat_def is_tensor3_def exI [of _ 1])
  then show ?thesis
    by (simp add: ex_spin_def zeros3_def tensor_def depth_def array_eval numeral_2_eq_2)
qed

theorem initial_averages_counterexample:
  "fst (averages_var (train_init ex_spin \<lparr>SpIN_beta = 1, SpIN_neig = 2\<rparr>
        (\<lambda>i. [[2, 3]]) \<lparr>self_opt_state = [], itercount = 0, loss_log = [], evals_log = []\<rparr>))
     = Arr1 [1, 1]
   \<and> eye 2 = [[1, 0], [0, 1]]"
  by (simp add: train_init_def eye_def matrix_def numeral_2_eq_2)

section \<open>Eigenvalue estimates and eigenfunction values\<close>



section \<open>The gradient\<close>

text \<open>
  C1 (as amended). In both programs the average of the covariance Jacobian is blended
  once with the array computed from the network Jacobian of the current batch (entry
  \<open>(i, j, p)\<close> is the sum over the batch of \<open>u\<^sub>b\<^sub>i \<partial>u\<^sub>b\<^sub>j/\<partial>\<theta>\<^sub>p\<close> in \<open>masked_gradients\<close> of
  \<open>jax_spin.py\<close>, and \<open>2/N\<close> times that sum in \<open>train_step\<close> of \<open>stfn_training.py\<close>, by the
  backward rule of \<open>covariance\<close>), and the \<open>\<Sigma>\<close>-term of the gradient is the closed form
  \<open>- L\<^sup>-\<^sup>T triu(\<Lambda> diag(diag(L\<^sup>-\<^sup>1)))\<close> contracted with that blended average, the one the
  step returns, and not with the array of the batch. In \<open>stfn_training.py\<close> the closed
  form is taken at \<open>\<Lambda> = L\<^sup>-\<^sup>1 \<Pi> L\<^sup>-\<^sup>T\<close> with \<open>\<Pi> = (1/N) U\<^sup>T HU\<close>; in \<open>jax_spin.py\<close> it
  is taken at \<open>L\<^sup>-\<^sup>1 \<Pi>\<^sup>T L\<^sup>-\<^sup>T\<close>, with \<open>\<Pi>\<^sup>T = (1/N) (HU)\<^sup>T U\<close> in the place of \<open>\<Pi>\<close>.
\<close>

theorem sigma_term_contraction:
  assumes "u = net_u c params inputs" and "is_mat n k u"
    and "op = operator_fn c params inputs" and "is_mat n k op"
    and "length inputs = n" and "0 < n" and "0 < k"
    and "case fst averages of Arr1 w \<Rightarrow> length w = k | Arr2 A \<Rightarrow> is_mat k k A"
    and "linalg_cholesky (add_nd (scale_nd (1 - beta) (fst averages))
                            (mat_scale beta (Sigma_batch k u))) = Some L"
    and "linalg_inv L = Some L_inv"
    and "list_all (\<lambda>x. \<exists>d. is_tensor3 n k d x) (net_u_jacobian c params inputs)"
    and "r = stfn_train_step c' weight_dict os batch sigma_t_bar j_sigma_t_bar beta' epoch"
    and "u' = model_apply_jitted c' weight_dict batch" and "is_mat n' k' u'"
    and "h_u = h_fn c' weight_dict batch u'" and "is_mat n' k' h_u"
    and "0 < n'" and "0 < k'" and "is_mat k' k' sigma_t_bar"
    and "linalg_cholesky (moving_average_mat sigma_t_bar (Sigma_batch k' u') beta') = Some L'"
    and "linalg_inv L' = Some L_inv'"
    and "list_all (\<lambda>x. length x = n') (model_jacobian c' weight_dict batch)"
    and "list_all (\<lambda>x. length x = n') (h_jacobian c' weight_dict batch)"
  shows "snd (snd (snd (loss_and_grad c params (inputs, averages, beta))))
           = map2 (\<lambda>x J. moving_average_tensor x
                     (tensor k k (depth J) (\<lambda>i j p. \<Sum>b<n. u ! b ! i * J ! b ! j ! p)) beta)
               (snd averages) (net_u_jacobian c params inputs)
       \<and> fst (snd (loss_and_grad c params (inputs, averages, beta)))
           = map Some (map2 (\<lambda>J y. map2 (\<lambda>a b. - ((a + b) / real n))
                 (contract n k (mprod n k k op (pi_term k L_inv)) J)
                 (contract k k (sigma_term k L_inv (Lambda_of k L_inv (Pi_batch k op u))) y))
               (net_u_jacobian c params inputs)
               (snd (snd (snd (loss_and_grad c params (inputs, averages, beta))))))
       \<and> r_j_sigma_t_bar r
           = map2 (\<lambda>x J. moving_average_tensor x
                     (tensor k' k' (depth J)
                        (\<lambda>i j p. 2 * (\<Sum>b<n'. u' ! b ! i * J ! b ! j ! p) / real n')) beta')
               j_sigma_t_bar (model_jacobian c' weight_dict batch)
       \<and> r_opt_state r = snd (opt_update_jitted c'
             (map Some (map2 (\<lambda>y JJ. map2 (+)
                 (contract k' k' (sigma_term k' L_inv' (Lambda_of k' L_inv' (Pi_batch k' u' h_u))) y)
                 (map2 (\<lambda>a b. (a + b) / real n')
                    (contract n' k' (mprod n' k' k' h_u (pi_term k' L_inv')) (fst JJ))
                    (contract n' k' (mprod n' k' k' u' (pi_term k' L_inv')) (snd JJ))))
               (r_j_sigma_t_bar r)
               (zip (model_jacobian c' weight_dict batch) (h_jacobian c' weight_dict batch))))
             os)"
proof -
  note m = spin_gradients [OF assms(1-8) refl assms(9,10,11) refl]
  have a: "snd (snd (snd (loss_and_grad c params (inputs, averages, beta))))
           = map2 (\<lambda>x J. moving_average_tensor x
                     (tensor k k (depth J) (\<lambda>i j p. \<Sum>b<n. u ! b ! i * J ! b ! j ! p)) beta)
               (snd averages) (net_u_jacobian c params inputs)"
    by (simp add: loss_and_grad_jac_avg m)
  have b: "fst (snd (loss_and_grad c params (inputs, averages, beta)))
           = map Some (map2 (\<lambda>J y. map2 (\<lambda>a b. - ((a + b) / real n))
                 (contract n k (mprod n k k op (pi_term k L_inv)) J)
                 (contract k k (sigma_term k L_inv (Lambda_of k L_inv (Pi_batch k op u))) y))
               (net_u_jacobian c params inputs)
               (snd (snd (snd (loss_and_grad c params (inputs, averages, beta))))))"
    unfolding a by (simp add: loss_and_grad_gradients m)
  note s = stfn_gradients [OF assms(13-23) refl refl, where os = os
      and j_sigma_t_bar = j_sigma_t_bar and epoch = epoch]
  from a b s(1,2) show ?thesis
    unfolding assms(12) by simp
qed

theorem sigma_term_contraction_witness:
  "snd (snd (snd (loss_and_grad lin_spin [[1]]
       ([[2, 3], [2, - 1]], (Arr2 [[4, 2], [2, 5]], [[[[0], [2]], [[- 2], [4]]]]), 1 / 2))))
     = [[[[4], [3]], [[1], [7]]]]
   \<and> fst (snd (loss_and_grad lin_spin [[1]]
       ([[2, 3], [2, - 1]], (Arr2 [[4, 2], [2, 5]], [[[[0], [2]], [[- 2], [4]]]]), 1 / 2)))
     = [Some [- 3 / 32]]
   \<and> r_j_sigma_t_bar (stfn_train_step lin_stfn [[1]] [] [[2, 3], [2, - 1]] [[4, 2], [2, 5]]
        [[[[0], [2]], [[- 2], [4]]]] (1 / 2) 1)
     = [[[[4], [3]], [[1], [7]]]]
   \<and> r_opt_state (stfn_train_step lin_stfn [[1]] [] [[2, 3], [2, - 1]] [[4, 2], [2, 5]]
        [[[[0], [2]], [[- 2], [4]]]] (1 / 2) 1)
     = [Some [1 / 2]]"
proof -
  let ?av = "(Arr2 [[4, 2], [2, 5]], [[[[0 :: real], [2]], [[- 2], [4]]]])"
  have m: "is_mat 2 2 [[2, 3], [2, - 1]]" "is_mat 2 2 [[3, 2], [- 1, 2]]"
    "is_mat 2 2 [[4, 2], [2, 5]]"
    by (simp_all add: is_mat_def)
  have two: "0 < (2 :: nat)" by simp
  have len: "length [[2, 3], [2, - 1 :: real]] = 2" by simp
  have seed: "case fst ?av of Arr1 w \<Rightarrow> length w = 2 | Arr2 A \<Rightarrow> is_mat 2 2 A"
    by (simp add: is_mat_def)
  have c1: "linalg_cholesky (add_nd (scale_nd (1 - 1 / 2) (fst ?av))
      (mat_scale (1 / 2) (Sigma_batch 2 [[2, 3], [2, - 1]]))) = Some [[2, 0], [1, 2]]"
    by (simp add: lin_Sigma_batch array_eval cholesky_2x2)
  have c2: "linalg_cholesky (moving_average_mat [[4, 2], [2, 5]]
      (Sigma_batch 2 [[2, 3], [2, - 1]]) (1 / 2)) = Some [[2, 0], [1, 2]]"
    by (simp add: lin_Sigma_batch lin_blend lin_cholesky)
  have sh: "list_all (\<lambda>x. \<exists>d. is_tensor3 2 2 d x)
              (net_u_jacobian lin_spin [[1]] [[2, 3], [2, - 1]])"
    "list_all (\<lambda>x. length x = 2) (model_jacobian lin_stfn [[1]] [[2, 3], [2, - 1]])"
    "list_all (\<lambda>x. length x = 2) (h_jacobian lin_stfn [[1]] [[2, 3], [2, - 1]])"
    by (simp_all add: lin_jacobians is_tensor3_def is_mat_def exI [of _ 1])
  note t = sigma_term_contraction [OF lin_batch(1) [symmetric] m(1) lin_batch(2) [symmetric] m(2)
      len two two seed c1 lin_inv sh(1) refl lin_batch(3) [symmetric] m(1)
      lin_batch(4) [symmetric] m(2) two two m(3) c2 lin_inv sh(2,3),
      where os = "[]" and j_sigma_t_bar = "[[[[0], [2]], [[- 2], [4]]]]" and epoch = 1,
      unfolded lin_jacobians]
  have a: "snd (snd (snd (loss_and_grad lin_spin [[1]] ([[2, 3], [2, - 1]], ?av, 1 / 2))))
     = [[[[4], [3]], [[1], [7]]]]"
    using t [THEN conjunct1] by (simp add: spec_eval)
  have b: "fst (snd (loss_and_grad lin_spin [[1]] ([[2, 3], [2, - 1]], ?av, 1 / 2)))
     = [Some [- 3 / 32]]"
    using t [THEN conjunct2, THEN conjunct1, unfolded a] by (simp add: spec_eval)
  have c: "r_j_sigma_t_bar (stfn_train_step lin_stfn [[1]] [] [[2, 3], [2, - 1]] [[4, 2], [2, 5]]
        [[[[0], [2]], [[- 2], [4]]]] (1 / 2) 1)
     = [[[[4], [3]], [[1], [7]]]]"
    using t [THEN conjunct2, THEN conjunct2, THEN conjunct1] by (simp add: spec_eval)
  have d: "r_opt_state (stfn_train_step lin_stfn [[1]] [] [[2, 3], [2, - 1]] [[4, 2], [2, 5]]
        [[[[0], [2]], [[- 2], [4]]]] (1 / 2) 1)
     = [Some [1 / 2]]"
    using t [THEN conjunct2, THEN conjunct2, THEN conjunct2, unfolded c]
    by (simp add: spec_eval lin_stfn_def)
  from a b c d show ?thesis by simp
qed

text \<open>
  The claim has the closed form taken at \<open>\<Lambda> = L\<^sup>-\<^sup>1 \<Pi> L\<^sup>-\<^sup>T\<close> with \<open>\<Pi> = (1/N) U\<^sup>T HU\<close> in
  both programs. On the batch \<open>[[2, 3], [2, -1]]\<close> of the instance with two outputs, whose
  operator covariance is not symmetric, \<open>loss_and_grad\<close> of \<open>jax_spin.py\<close> returns the
  gradient \<open>- 3/32\<close>, where the contraction of that closed form with the averaged
  Jacobian the step returns would give \<open>- 3/16\<close>.
\<close>

theorem sigma_term_contraction_counterexample:
  "fst (snd (loss_and_grad lin_spin [[1]]
       ([[2, 3], [2, - 1]], (Arr2 [[4, 2], [2, 5]], [[[[0], [2]], [[- 2], [4]]]]), 1 / 2)))
     = [Some [- 3 / 32]]
   \<and> map2 (\<lambda>a b. - ((a + b) / 2))
       (contract 2 2 (mprod 2 2 2 [[3, 2], [- 1, 2]] (pi_term 2 [[1 / 2, 0], [- 1 / 4, 1 / 2]]))
          [[[2], [3]], [[2], [- 1]]])
       (contract 2 2
          (sigma_term 2 [[1 / 2, 0], [- 1 / 4, 1 / 2]]
             (Lambda_of 2 [[1 / 2, 0], [- 1 / 4, 1 / 2]]
                (Pi_batch 2 [[2, 3], [2, - 1]] [[3, 2], [- 1, 2]])))
          [[[4], [3]], [[1], [7]]])
     = [- 3 / 16]"
proof -
  have "map2 (\<lambda>a b. - ((a + b) / 2))
       (contract 2 2 (mprod 2 2 2 [[3, 2], [- 1, 2]] (pi_term 2 [[1 / 2, 0], [- 1 / 4, 1 / 2]]))
          [[[2], [3]], [[2], [- 1]]])
       (contract 2 2
          (sigma_term 2 [[1 / 2, 0], [- 1 / 4, 1 / 2]]
             (Lambda_of 2 [[1 / 2, 0], [- 1 / 4, 1 / 2]]
                (Pi_batch 2 [[2, 3], [2, - 1]] [[3, 2], [- 1, 2]])))
          [[[4], [3]], [[1], [7]]])
     = [- 3 / 16 :: real]"
    by (simp add: spec_eval)
  with lin_spin_gradient show ?thesis by (rule conjI)
qed

section \<open>What the optimizer is given\<close>

text \<open>
  C2 (as amended). The \<open>\<Pi>\<close>-term is the closed form \<open>L\<^sup>-\<^sup>T diag(diag(L\<^sup>-\<^sup>1))\<close>, used with
  the arrays of the current batch (no average is involved). In \<open>jax_spin.py\<close> the
  operator output of the batch is multiplied by it and the product is contracted with
  the Jacobian of the network output alone: the operator output is a constant of the
  contraction, its derivative by the parameters is not taken. In \<open>stfn_training.py\<close> the
  closed form is the cotangent given to the backward rule of \<open>covariance\<close>, which
  contracts \<open>(1/N) HU\<close> times the closed form with the Jacobian of the network output and
  \<open>(1/N) U\<close> times the closed form with the Jacobian of the operator output. In both
  programs the gradient is the sum of that contraction and of the contraction of the
  \<open>\<Sigma>\<close>-term with the averaged Jacobian. \<open>step\<close> of \<open>jax_spin.py\<close> hands the optimizer
  minus that sum, divided by \<open>N\<close>; \<open>train_step\<close> of \<open>stfn_training.py\<close> hands the optimizer the
  sum itself, not its negative, and applies the updates the optimizer returns.
\<close>

theorem pi_term_and_update:
  assumes "u = net_u c (get_params c s) inputs" and "is_mat n k u"
    and "op = operator_fn c (get_params c s) inputs" and "is_mat n k op"
    and "length inputs = n" and "0 < n" and "0 < k"
    and "case fst averages of Arr1 w \<Rightarrow> length w = k | Arr2 A \<Rightarrow> is_mat k k A"
    and "linalg_cholesky (add_nd (scale_nd (1 - beta) (fst averages))
                            (mat_scale beta (Sigma_batch k u))) = Some L"
    and "linalg_inv L = Some L_inv"
    and "list_all (\<lambda>x. \<exists>d. is_tensor3 n k d x) (net_u_jacobian c (get_params c s) inputs)"
    and "r = stfn_train_step c' weight_dict os batch sigma_t_bar j_sigma_t_bar beta' epoch"
    and "u' = model_apply_jitted c' weight_dict batch" and "is_mat n' k' u'"
    and "h_u = h_fn c' weight_dict batch u'" and "is_mat n' k' h_u"
    and "0 < n'" and "0 < k'" and "is_mat k' k' sigma_t_bar"
    and "linalg_cholesky (moving_average_mat sigma_t_bar (Sigma_batch k' u') beta') = Some L'"
    and "linalg_inv L' = Some L_inv'"
    and "list_all (\<lambda>x. length x = n') (model_jacobian c' weight_dict batch)"
    and "list_all (\<lambda>x. length x = n') (h_jacobian c' weight_dict batch)"
  shows "fst (snd (step c i s (inputs, averages, beta)))
           = opt_update_fn c i
               (map Some (map2 (\<lambda>J y. map2 (\<lambda>a b. - ((a + b) / real n))
                   (contract n k (mprod n k k op (pi_term k L_inv)) J)
                   (contract k k (sigma_term k L_inv (Lambda_of k L_inv (Pi_batch k op u))) y))
                 (net_u_jacobian c (get_params c s) inputs)
                 (snd (snd (snd (step c i s (inputs, averages, beta)))))))
               s
       \<and> r_weight_dict r = optax_apply_updates c' weight_dict (fst (opt_update_jitted c'
             (map Some (map2 (\<lambda>y JJ. map2 (+)
                 (contract k' k' (sigma_term k' L_inv' (Lambda_of k' L_inv' (Pi_batch k' u' h_u))) y)
                 (map2 (\<lambda>a b. (a + b) / real n')
                    (contract n' k' (mprod n' k' k' h_u (pi_term k' L_inv')) (fst JJ))
                    (contract n' k' (mprod n' k' k' u' (pi_term k' L_inv')) (snd JJ))))
               (r_j_sigma_t_bar r)
               (zip (model_jacobian c' weight_dict batch) (h_jacobian c' weight_dict batch))))
             os))"
proof -
  note m = spin_gradients [OF assms(1-8) refl assms(9,10,11) refl]
  have a: "snd (snd (snd (step c i s (inputs, averages, beta))))
             = snd (masked_gradients c (get_params c s) inputs
                 (fst (evaluate_spin c (get_params c s) inputs averages beta)) averages beta)"
    by (simp add: step_averages loss_and_grad_averages)
  have b: "fst (snd (step c i s (inputs, averages, beta)))
           = opt_update_fn c i
               (map Some (map2 (\<lambda>J y. map2 (\<lambda>a b. - ((a + b) / real n))
                   (contract n k (mprod n k k op (pi_term k L_inv)) J)
                   (contract k k (sigma_term k L_inv (Lambda_of k L_inv (Pi_batch k op u))) y))
                 (net_u_jacobian c (get_params c s) inputs)
                 (snd (snd (snd (step c i s (inputs, averages, beta)))))))
               s"
    unfolding a by (simp add: step_opt_state loss_and_grad_gradients m)
  note s = stfn_gradients [OF assms(13-23) refl refl, where os = os
      and j_sigma_t_bar = j_sigma_t_bar and epoch = epoch]
  from b s(1,3) show ?thesis
    unfolding assms(12) by simp
qed

theorem pi_term_and_update_witness:
  "fst (snd (step lin_spin 0 []
       ([[2, 3], [2, - 1]], (Arr2 [[4, 2], [2, 5]], [[[[0], [2]], [[- 2], [4]]]]), 1 / 2)))
     = [Some [- 3 / 32]]
   \<and> r_weight_dict (stfn_train_step lin_stfn [[1]] [] [[2, 3], [2, - 1]] [[4, 2], [2, 5]]
        [[[[0], [2]], [[- 2], [4]]]] (1 / 2) 1)
     = [[3 / 2]]"
proof -
  let ?av = "(Arr2 [[4, 2], [2, 5]], [[[[0 :: real], [2]], [[- 2], [4]]]])"
  have g: "get_params lin_spin [] = [[1]]" by (simp add: lin_spin_def)
  have m: "is_mat 2 2 [[2, 3], [2, - 1]]" "is_mat 2 2 [[3, 2], [- 1, 2]]"
    "is_mat 2 2 [[4, 2], [2, 5]]"
    by (simp_all add: is_mat_def)
  have two: "0 < (2 :: nat)" by simp
  have len: "length [[2, 3], [2, - 1 :: real]] = 2" by simp
  have seed: "case fst ?av of Arr1 w \<Rightarrow> length w = 2 | Arr2 A \<Rightarrow> is_mat 2 2 A"
    by (simp add: is_mat_def)
  have c1: "linalg_cholesky (add_nd (scale_nd (1 - 1 / 2) (fst ?av))
      (mat_scale (1 / 2) (Sigma_batch 2 [[2, 3], [2, - 1]]))) = Some [[2, 0], [1, 2]]"
    by (simp add: lin_Sigma_batch array_eval cholesky_2x2)
  have c2: "linalg_cholesky (moving_average_mat [[4, 2], [2, 5]]
      (Sigma_batch 2 [[2, 3], [2, - 1]]) (1 / 2)) = Some [[2, 0], [1, 2]]"
    by (simp add: lin_Sigma_batch lin_blend lin_cholesky)
  have sh: "list_all (\<lambda>x. \<exists>d. is_tensor3 2 2 d x)
              (net_u_jacobian lin_spin (get_params lin_spin []) [[2, 3], [2, - 1]])"
    "list_all (\<lambda>x. length x = 2) (model_jacobian lin_stfn [[1]] [[2, 3], [2, - 1]])"
    "list_all (\<lambda>x. length x = 2) (h_jacobian lin_stfn [[1]] [[2, 3], [2, - 1]])"
    by (simp_all add: g lin_jacobians is_tensor3_def is_mat_def exI [of _ 1])
  have e: "[[2, 3], [2, - 1]] = net_u lin_spin (get_params lin_spin []) [[2, 3], [2, - 1]]"
    "[[3, 2], [- 1, 2]] = operator_fn lin_spin (get_params lin_spin []) [[2, 3], [2, - 1]]"
    by (simp_all add: g lin_batch)
  note t = pi_term_and_update [OF e(1) m(1) e(2) m(2)
      len two two seed c1 lin_inv sh(1) refl lin_batch(3) [symmetric] m(1)
      lin_batch(4) [symmetric] m(2) two two m(3) c2 lin_inv sh(2,3),
      where os = "[]" and j_sigma_t_bar = "[[[[0], [2]], [[- 2], [4]]]]" and epoch = 1
        and i = 0,
      unfolded g lin_jacobians lin_spin_jac_avg lin_stfn_opt_state(2)]
  have a: "fst (snd (step lin_spin 0 [] ([[2, 3], [2, - 1]], ?av, 1 / 2))) = [Some [- 3 / 32]]"
    using t [THEN conjunct1] by (simp add: spec_eval lin_spin_def)
  have b: "r_weight_dict (stfn_train_step lin_stfn [[1]] [] [[2, 3], [2, - 1]] [[4, 2], [2, 5]]
        [[[[0], [2]], [[- 2], [4]]]] (1 / 2) 1)
     = [[3 / 2]]"
    using t [THEN conjunct2] by (simp add: spec_eval lin_stfn_def vec_add_def)
  from a b show ?thesis by (rule conjI)
qed

text \<open>
  The claim has the optimizer given the negative of the gradient in both programs, and
  the \<open>\<Pi>\<close>-term contracted with the derivative of \<open>\<Pi>\<close>. On the batch
  \<open>[[2, 3], [2, -1]]\<close> of the instance with two outputs, \<open>train_step\<close> of
  \<open>stfn_training.py\<close> hands the optimizer \<open>1/2\<close>, which is the sum of the two contractions
  and not its negative. \<open>step\<close> of \<open>jax_spin.py\<close> hands the optimizer the same gradient
  for the operator whose output is proportional to the weight and for the operator whose
  output does not depend on the weight: the derivative of the operator output, and with
  it that of \<open>\<Pi>\<close>, does not enter.
\<close>

theorem pi_term_and_update_counterexample:
  "r_opt_state (stfn_train_step lin_stfn [[1]] [] [[2, 3], [2, - 1]] [[4, 2], [2, 5]]
        [[[[0], [2]], [[- 2], [4]]]] (1 / 2) 1)
     = [Some [1 / 2]]
   \<and> map2 (+)
       (contract 2 2
          (sigma_term 2 [[1 / 2, 0], [- 1 / 4, 1 / 2]]
             (Lambda_of 2 [[1 / 2, 0], [- 1 / 4, 1 / 2]]
                (Pi_batch 2 [[2, 3], [2, - 1]] [[3, 2], [- 1, 2]])))
          [[[4], [3]], [[1], [7]]])
       (map2 (\<lambda>a b. (a + b) / 2)
          (contract 2 2 (mprod 2 2 2 [[3, 2], [- 1, 2]] (pi_term 2 [[1 / 2, 0], [- 1 / 4, 1 / 2]]))
             [[[2], [3]], [[2], [- 1]]])
          (contract 2 2 (mprod 2 2 2 [[2, 3], [2, - 1]] (pi_term 2 [[1 / 2, 0], [- 1 / 4, 1 / 2]]))
             [[[3], [2]], [[- 1], [2]]]))
     = [1 / 2]
   \<and> fst (snd (step lin_spin 0 []
       ([[2, 3], [2, - 1]], (Arr2 [[4, 2], [2, 5]], [[[[0], [2]], [[- 2], [4]]]]), 1 / 2)))
     = [Some [- 3 / 32]]
   \<and> fst (snd (step lin_spin_fixed 0 []
       ([[2, 3], [2, - 1]], (Arr2 [[4, 2], [2, 5]], [[[[0], [2]], [[- 2], [4]]]]), 1 / 2)))
     = [Some [- 3 / 32]]"
proof -
  have "map2 (+)
       (contract 2 2
          (sigma_term 2 [[1 / 2, 0], [- 1 / 4, 1 / 2]]
             (Lambda_of 2 [[1 / 2, 0], [- 1 / 4, 1 / 2]]
                (Pi_batch 2 [[2, 3], [2, - 1]] [[3, 2], [- 1, 2]])))
          [[[4], [3]], [[1], [7]]])
       (map2 (\<lambda>a b. (a + b) / 2)
          (contract 2 2 (mprod 2 2 2 [[3, 2], [- 1, 2]] (pi_term 2 [[1 / 2, 0], [- 1 / 4, 1 / 2]]))
             [[[2], [3]], [[2], [- 1]]])
          (contract 2 2 (mprod 2 2 2 [[2, 3], [2, - 1]] (pi_term 2 [[1 / 2, 0], [- 1 / 4, 1 / 2]]))
             [[[3], [2]], [[- 1], [2]]]))
     = [1 / 2 :: real]"
    by (simp add: spec_eval)
  with lin_stfn_opt_state(1) lin_spin_step lin_spin_fixed_step show ?thesis by simp
qed
section \<open>The whitening transform of a step\<close>

text \<open>
  C8. When the averaged covariance \<open>A\<close> a step factorizes is positive definite (over the
  reals), the factorization succeeds with a lower-triangular \<open>L\<close> of positive diagonal
  such that \<open>L L\<^sup>T = A\<close>, and the whitening matrix of the step (\<open>L_inv\<close> of \<open>train_step\<close> in
  \<open>stfn_training.py\<close>, \<open>choli\<close> of \<open>evaluate_spin\<close> in \<open>jax_spin.py\<close>) is the inverse
  computed from that factor \<open>L\<close>, with \<open>L L_inv\<close> the identity.
\<close>

theorem whitening_transform:
  assumes "positive_definite k A"
    and "A = r_sigma_t_bar (stfn_train_step c weight_dict os batch sigma_t_bar j_sigma_t_bar
                               beta epoch)"
    and "positive_definite k' A'"
    and "A' = snd (evaluate_spin c' params inputs averages beta')"
  shows "(\<exists>L L_inv. linalg_cholesky A = Some L \<and> linalg_inv L = Some L_inv
            \<and> r_L_inv (stfn_train_step c weight_dict os batch sigma_t_bar j_sigma_t_bar
                         beta epoch) = Some L_inv
            \<and> is_mat k k L \<and> lower_triangular k L \<and> positive_diagonal k L
            \<and> matmul L (mat_T L) = A \<and> matmul L L_inv = eye k)
       \<and> (\<exists>L L_inv. linalg_cholesky A' = Some L \<and> linalg_inv L = Some L_inv
            \<and> fst (snd (fst (evaluate_spin c' params inputs averages beta'))) = Some L_inv
            \<and> is_mat k' k' L \<and> lower_triangular k' L \<and> positive_diagonal k' L
            \<and> matmul L (mat_T L) = A' \<and> matmul L L_inv = eye k')"
proof
  from whitening [OF assms(1)] obtain L L_inv where
    w: "linalg_cholesky A = Some L" "linalg_inv L = Some L_inv" "is_mat k k L"
      "lower_triangular k L" "positive_diagonal k L" "matmul L (mat_T L) = A"
      "matmul L L_inv = eye k"
    by blast
  have "r_L_inv (stfn_train_step c weight_dict os batch sigma_t_bar j_sigma_t_bar beta epoch)
          = Some L_inv"
    using w(1,2) by (simp add: stfn_train_step_L_inv' assms(2) [symmetric])
  with w show "\<exists>L L_inv. linalg_cholesky A = Some L \<and> linalg_inv L = Some L_inv
            \<and> r_L_inv (stfn_train_step c weight_dict os batch sigma_t_bar j_sigma_t_bar
                         beta epoch) = Some L_inv
            \<and> is_mat k k L \<and> lower_triangular k L \<and> positive_diagonal k L
            \<and> matmul L (mat_T L) = A \<and> matmul L L_inv = eye k"
    by blast
next
  from whitening [OF assms(3)] obtain L L_inv where
    w: "linalg_cholesky A' = Some L" "linalg_inv L = Some L_inv" "is_mat k' k' L"
      "lower_triangular k' L" "positive_diagonal k' L" "matmul L (mat_T L) = A'"
      "matmul L L_inv = eye k'"
    by blast
  have "fst (snd (fst (evaluate_spin c' params inputs averages beta'))) = Some L_inv"
    using w(1,2) by (simp add: evaluate_spin_choli assms(4) [symmetric])
  with w show "\<exists>L L_inv. linalg_cholesky A' = Some L \<and> linalg_inv L = Some L_inv
            \<and> fst (snd (fst (evaluate_spin c' params inputs averages beta'))) = Some L_inv
            \<and> is_mat k' k' L \<and> lower_triangular k' L \<and> positive_diagonal k' L
            \<and> matmul L (mat_T L) = A' \<and> matmul L L_inv = eye k'"
    by blast
qed

theorem whitening_transform_witness:
  "(\<exists>L L_inv. linalg_cholesky [[2, 1], [1, 5 / 2]] = Some L \<and> linalg_inv L = Some L_inv
      \<and> r_L_inv (stfn_train_step ex_stfn [[0]] [] [[2, 1], [0, 2]] (eye 2) [zeros3 2 2 1] 1 1)
          = Some L_inv
      \<and> is_mat 2 2 L \<and> lower_triangular 2 L \<and> positive_diagonal 2 L
      \<and> matmul L (mat_T L) = [[2, 1], [1, 5 / 2]] \<and> matmul L L_inv = eye 2)
   \<and> (\<exists>L L_inv. linalg_cholesky [[2, 1], [1, 5 / 2]] = Some L \<and> linalg_inv L = Some L_inv
      \<and> fst (snd (fst (evaluate_spin ex_spin [[0]] [[2, 1], [0, 2]]
                         (Arr1 [1, 1], [zeros3 2 2 1]) 1))) = Some L_inv
      \<and> is_mat 2 2 L \<and> lower_triangular 2 L \<and> positive_diagonal 2 L
      \<and> matmul L (mat_T L) = [[2, 1], [1, 5 / 2]] \<and> matmul L L_inv = eye 2)"
  by (rule whitening_transform [OF ex_positive_definite ex_stfn_sigma [symmetric]
        ex_positive_definite ex_spin_sigma [symmetric]])


section \<open>A factorization that fails\<close>





end
